(* ===== verification/Prelude.thy ===== *)
theory Prelude
  imports Main "HOL-Library.Multiset"
begin

text \<open>
  Shared vocabulary of the development: the Python exceptions the two scripts can raise,
  the error-propagating bind that sequences fallible statements, and the Python and
  NumPy primitives the scripts rely on (negative list indexing, \<open>str.split\<close>,
  Python 2 \<open>xrange\<close>, row assignment with broadcasting).  Each primitive comes with the
  evaluation lemmas that the component theories use through the collection
  \<open>py_simps\<close>.
\<close>

named_theorems py_simps "evaluation rules of the modelled Python primitives"

section \<open>Exceptions and sequencing\<close>

text \<open>
  The exception classes raised by the code paths that are modelled: list and array
  indexing (\<open>IndexError\<close>), dictionary and HDF5 group lookup (\<open>KeyError\<close>), NumPy
  shape and sampling errors and the bad run mode of \<open>load_configs\<close> (\<open>ValueError\<close>),
  h5py broadcasting and fancy-indexing errors (\<open>TypeError\<close>), failed \<open>assert\<close>
  statements (\<open>AssertionError\<close>), a missing option of the configuration file
  (\<open>ConfigError\<close>, ConfigParser's NoOptionError/NoSectionError), and a file that cannot
  be read as an image (\<open>IOError\<close>, raised by Keras' \<open>load_img\<close>).
\<close>

datatype py_error = IndexError | KeyError | ValueError | TypeError | AssertionError | ConfigError | IOError

text \<open>A statement that changes state and may raise: the exception, if any, and the state left behind.\<close>

type_synonym 's outcome = "py_error option \<times> 's"

definition bind_py :: "py_error + 'a \<Rightarrow> ('a \<Rightarrow> py_error + 'b) \<Rightarrow> py_error + 'b" where
  "bind_py m f = (case m of Inl e \<Rightarrow> Inl e | Inr x \<Rightarrow> f x)"

lemma bind_py_Inl [simp]: "bind_py (Inl e) f = Inl e"
  by (simp add: bind_py_def)

lemma bind_py_Inr [simp]: "bind_py (Inr x) f = f x"
  by (simp add: bind_py_def)

lemma bind_py_eq_Inr [simp]:
  "bind_py m f = Inr y \<longleftrightarrow> (\<exists>x. m = Inr x \<and> f x = Inr y)"
  by (cases m) auto

lemma bind_py_eq_Inl:
  "bind_py m f = Inl e \<longleftrightarrow> m = Inl e \<or> (\<exists>x. m = Inr x \<and> f x = Inl e)"
  by (cases m) auto

text \<open>Python 2's eager \<open>map\<close> of a function that may raise: the first exception wins.\<close>

fun map_py :: "('a \<Rightarrow> py_error + 'b) \<Rightarrow> 'a list \<Rightarrow> py_error + 'b list" where
  "map_py f [] = Inr []"
| "map_py f (x # xs) = bind_py (f x) (\<lambda>y. bind_py (map_py f xs) (\<lambda>ys. Inr (y # ys)))"

lemma map_py_Inr_iff:
  "map_py f xs = Inr ys \<longleftrightarrow> length ys = length xs \<and> (\<forall>i < length xs. f (xs ! i) = Inr (ys ! i))"
proof (induction xs arbitrary: ys)
  case Nil
  then show ?case by auto
next
  case (Cons x xs)
  show ?case
  proof
    assume "map_py f (x # xs) = Inr ys"
    then show "length ys = length (x # xs) \<and> (\<forall>i < length (x # xs). f ((x # xs) ! i) = Inr (ys ! i))"
      using Cons.IH by (auto simp: nth_Cons split: nat.splits)
  next
    assume r: "length ys = length (x # xs) \<and> (\<forall>i < length (x # xs). f ((x # xs) ! i) = Inr (ys ! i))"
    then obtain y ys' where ys: "ys = y # ys'" by (cases ys) auto
    from r ys have "f x = Inr y" by fastforce
    moreover from r ys have "map_py f xs = Inr ys'"
      using Cons.IH by fastforce
    ultimately show "map_py f (x # xs) = Inr ys" using ys by simp
  qed
qed

lemma map_py_map [simp]: "map_py (\<lambda>x. Inr (g x)) xs = Inr (map g xs)"
  by (induction xs) auto

section \<open>Python list indexing\<close>

text \<open>\<open>xs[i]\<close> for a Python list: a negative index counts from the end; out of range raises.\<close>

definition py_index :: "'a list \<Rightarrow> int \<Rightarrow> py_error + 'a" where
  "py_index xs i =
     (if 0 \<le> i then (if nat i < length xs then Inr (xs ! nat i) else Inl IndexError)
      else if nat (- i) \<le> length xs then Inr (xs ! (length xs - nat (- i)))
      else Inl IndexError)"

lemma py_index_minus_two [py_simps]:
  "py_index xs (-2) = (if 2 \<le> length xs then Inr (xs ! (length xs - 2)) else Inl IndexError)"
  by (simp add: py_index_def)

lemma py_index_nat [py_simps]:
  "py_index xs (int n) = (if n < length xs then Inr (xs ! n) else Inl IndexError)"
  by (simp add: py_index_def)

section \<open>\<open>str.split\<close> with an explicit separator\<close>

text \<open>
  \<open>s.split(c)\<close> cuts at every occurrence of \<open>c\<close> and keeps empty pieces, so it
  never returns an empty list: \<open>''''.split(c) = ['']\<close>.
\<close>

fun py_split :: "char \<Rightarrow> string \<Rightarrow> string list" where
  "py_split c [] = [[]]"
| "py_split c (x # xs) =
     (let ws = py_split c xs in if x = c then [] # ws else (x # hd ws) # tl ws)"

lemma py_split_not_Nil [simp]: "py_split c s \<noteq> []"
  by (induction s) (auto simp: Let_def)

lemma py_split_no_sep [py_simps]: "c \<notin> set s \<Longrightarrow> py_split c s = [s]"
  by (induction s) auto

lemma py_split_append_sep [py_simps]:
  "py_split c (xs @ c # ys) = py_split c xs @ py_split c ys"
proof (induction xs)
  case Nil
  then show ?case by simp
next
  case (Cons x xs)
  obtain w ws where w: "py_split c xs = w # ws"
    by (cases "py_split c xs") auto
  then show ?case using Cons.IH by (simp add: Let_def)
qed

section \<open>Python 2 \<open>xrange\<close>\<close>

text \<open>
  \<open>xrange(a, b, s)\<close> counts from \<open>a\<close> in steps of \<open>s\<close> while it stays below \<open>b\<close>
  (above \<open>b\<close> for a negative step); a zero step raises ValueError.
\<close>

function xrange_list :: "int \<Rightarrow> int \<Rightarrow> int \<Rightarrow> int list" where
  "xrange_list a b s =
     (if (0 < s \<and> a < b) \<or> (s < 0 \<and> b < a) then a # xrange_list (a + s) b s else [])"
  by pat_completeness auto
termination
  by (relation "measure (\<lambda>(a, b, s). nat (if 0 < s then b - a else a - b))") auto

declare xrange_list.simps [simp del]

definition py_xrange :: "int \<Rightarrow> int \<Rightarrow> int \<Rightarrow> py_error + int list" where
  "py_xrange a b s = (if s = 0 then Inl ValueError else Inr (xrange_list a b s))"

lemma xrange_list_empty_pos [py_simps]: "0 < s \<Longrightarrow> b \<le> a \<Longrightarrow> xrange_list a b s = []"
  by (simp add: xrange_list.simps)

lemma xrange_list_Cons_pos [py_simps]:
  "0 < s \<Longrightarrow> a < b \<Longrightarrow> xrange_list a b s = a # xrange_list (a + s) b s"
  by (simp add: xrange_list.simps)

lemma xrange_list_empty_neg [py_simps]: "s < 0 \<Longrightarrow> a \<le> b \<Longrightarrow> xrange_list a b s = []"
  by (simp add: xrange_list.simps)

lemma xrange_list_shift:
  "xrange_list (a + d) (b + d) s = map (\<lambda>x. x + d) (xrange_list a b s)"
proof (induction a b s rule: xrange_list.induct)
  case (1 a b s)
  then show ?case
    by (subst (1 2) xrange_list.simps) (simp add: algebra_simps)
qed

lemma xrange_list_pos_bounds:
  "0 < s \<Longrightarrow> x \<in> set (xrange_list a b s) \<Longrightarrow> a \<le> x \<and> x < b"
proof (induction a b s rule: xrange_list.induct)
  case (1 a b s)
  show ?case
  proof (cases "a < b")
    case True
    then have "x = a \<or> x \<in> set (xrange_list (a + s) b s)"
      using "1.prems" by (simp add: xrange_list_Cons_pos)
    then show ?thesis using "1.IH" "1.prems"(1) True by fastforce
  next
    case False
    then show ?thesis using "1.prems" by (simp add: xrange_list_empty_pos)
  qed
qed

lemma xrange_list_one: "0 \<le> a \<Longrightarrow> xrange_list a b 1 = map int [nat a..<nat b]"
proof (induction a b "1::int" rule: xrange_list.induct)
  case (1 a b)
  show ?case
  proof (cases "a < b")
    case True
    then have "[nat a..<nat b] = nat a # [nat (a + 1)..<nat b]"
      using "1.prems" by (simp add: upt_conv_Cons nat_add_distrib)
    with True "1" show ?thesis
      by (simp add: xrange_list_Cons_pos)
  next
    case False
    then show ?thesis by (simp add: xrange_list_empty_pos)
  qed
qed

section \<open>Row assignment with broadcasting\<close>

text \<open>
  Assigning a one-dimensional array \<open>v\<close> to a row of width \<open>w\<close>
  (\<open>X[r] = v\<close> in NumPy, \<open>dset[r] = v\<close> in h5py) succeeds when the lengths agree or
  when \<open>v\<close> has a single element, which is then repeated; otherwise it raises.
\<close>

definition broadcast_row :: "nat \<Rightarrow> 'a list \<Rightarrow> 'a list option" where
  "broadcast_row w v =
     (if length v = w then Some v
      else if length v = 1 then Some (replicate w (hd v))
      else None)"

lemma broadcast_row_length: "broadcast_row w v = Some r \<Longrightarrow> length r = w"
  by (auto simp: broadcast_row_def split: if_splits)

lemma broadcast_row_exact [simp]: "length v = w \<Longrightarrow> broadcast_row w v = Some v"
  by (simp add: broadcast_row_def)

lemma broadcast_row_None_iff: "broadcast_row w v = None \<longleftrightarrow> length v \<noteq> w \<and> length v \<noteq> 1"
  by (simp add: broadcast_row_def)

lemma broadcast_row_same_width:
  "length v = w' \<Longrightarrow> broadcast_row w v = Some r \<Longrightarrow> w' \<noteq> 1 \<Longrightarrow> r = v"
  by (auto simp: broadcast_row_def split: if_splits)

lemma map_py_total: "(\<forall>x \<in> set xs. \<exists>y. f x = Inr y) \<Longrightarrow> \<exists>ys. map_py f xs = Inr ys"
  by (induction xs) auto

end
