(* ===== verification/ClassIndex.thy ===== *)
theory ClassIndex
  imports Prelude
begin

text \<open>
  The class index of \<open>extract_features_and_dump.py\<close>: \<open>get_class_ranges\<close> scans the
  stored file names once and maps every class label (the parent directory of the file,
  \<open>fname.split("/")[-2]\<close>) to the pair of the first and the last row at which it occurs.
  The scan is modelled as it is written (\<open>get_class_ranges_from\<close>), and is shown to
  compute the abstract map \<open>ranges_spec\<close> of first and last occurrences of each label.
  That map is the convex hull of the label's rows: it is exact when every class occupies
  a contiguous block, and too wide otherwise.
\<close>

section \<open>Labels and the scan\<close>

definition class_name :: "string \<Rightarrow> py_error + string" where
  "class_name fname = py_index (py_split CHR ''/'' fname) (-2)"

type_synonym class_ranges = "string \<rightharpoonup> nat \<times> nat"

text \<open>
  One step of the loop body: a new label gets \<open>[idx, idx]\<close>, a known one has its end
  moved to \<open>idx\<close> (\<open>class_ranges[class_name][1] = idx\<close>).
\<close>

definition range_step :: "nat \<Rightarrow> string \<Rightarrow> class_ranges \<Rightarrow> class_ranges" where
  "range_step idx c cr =
     (case cr c of None \<Rightarrow> cr(c \<mapsto> (idx, idx)) | Some (s, _) \<Rightarrow> cr(c \<mapsto> (s, idx)))"

fun get_class_ranges_from :: "nat \<Rightarrow> string list \<Rightarrow> class_ranges \<Rightarrow> py_error + class_ranges" where
  "get_class_ranges_from idx [] cr = Inr cr"
| "get_class_ranges_from idx (fname # fnames) cr =
     bind_py (class_name fname) (\<lambda>c. get_class_ranges_from (Suc idx) fnames (range_step idx c cr))"

definition get_class_ranges :: "string list \<Rightarrow> py_error + class_ranges" where
  "get_class_ranges fnames = get_class_ranges_from 0 fnames Map.empty"

section \<open>Abstract specification: first and last occurrence\<close>

definition first_index :: "'a \<Rightarrow> 'a list \<Rightarrow> nat" where
  "first_index c ls = length (takeWhile (\<lambda>x. x \<noteq> c) ls)"

definition last_index :: "'a \<Rightarrow> 'a list \<Rightarrow> nat" where
  "last_index c ls = length ls - Suc (first_index c (rev ls))"

definition ranges_spec :: "'a list \<Rightarrow> 'a \<rightharpoonup> nat \<times> nat" where
  "ranges_spec ls c = (if c \<in> set ls then Some (first_index c ls, last_index c ls) else None)"

text \<open>Class contiguity: every label occupies one block of consecutive rows.\<close>

fun class_contiguous :: "'a list \<Rightarrow> bool" where
  "class_contiguous [] = True"
| "class_contiguous (x # xs) = (class_contiguous xs \<and> (x \<in> set xs \<longrightarrow> hd xs = x))"

section \<open>Lemmas\<close>

lemma first_index_less: "c \<in> set ls \<Longrightarrow> first_index c ls < length ls"
  by (induction ls) (auto simp: first_index_def)

lemma nth_first_index: "c \<in> set ls \<Longrightarrow> ls ! first_index c ls = c"
  by (induction ls) (auto simp: first_index_def)

lemma first_index_le: "i < length ls \<Longrightarrow> ls ! i = c \<Longrightarrow> first_index c ls \<le> i"
proof (induction ls arbitrary: i)
  case Nil
  then show ?case by simp
next
  case (Cons x xs)
  then show ?case by (cases i) (auto simp: first_index_def)
qed

lemma first_index_snoc:
  "first_index c (ls @ [d]) = (if c \<in> set ls then first_index c ls else if c = d then length ls else Suc (length ls))"
  by (induction ls) (auto simp: first_index_def)

lemma last_index_snoc:
  "c \<in> set ls \<or> c = d \<Longrightarrow> last_index c (ls @ [d]) = (if c = d then length ls else last_index c ls)"
  by (auto simp: last_index_def first_index_def)

lemma last_index_props:
  assumes "c \<in> set ls"
  shows "last_index c ls < length ls" and "ls ! last_index c ls = c"
    and "\<And>i. i < length ls \<Longrightarrow> ls ! i = c \<Longrightarrow> i \<le> last_index c ls"
proof -
  have inr: "c \<in> set (rev ls)" using assms by simp
  have lt: "first_index c (rev ls) < length ls"
    using first_index_less [OF inr] by simp
  then show "last_index c ls < length ls" by (simp add: last_index_def)
  show "ls ! last_index c ls = c"
    using nth_first_index [OF inr] lt by (simp add: last_index_def rev_nth)
  fix i assume "i < length ls" and "ls ! i = c"
  then have "rev ls ! (length ls - Suc i) = c" by (simp add: rev_nth)
  then have "first_index c (rev ls) \<le> length ls - Suc i"
    using \<open>i < length ls\<close> by (intro first_index_le) auto
  then show "i \<le> last_index c ls" using lt \<open>i < length ls\<close> by (simp add: last_index_def)
qed

lemma ranges_spec_snoc:
  "range_step (length ls) c (ranges_spec ls) = ranges_spec (ls @ [c])"
proof
  fix d
  show "range_step (length ls) c (ranges_spec ls) d = ranges_spec (ls @ [c]) d"
    by (cases "d = c")
       (auto simp: range_step_def ranges_spec_def first_index_snoc last_index_snoc)
qed

text \<open>The scan on the list of labels, once every file name has yielded its label.\<close>

lemma get_class_ranges_from_labels:
  "map_py class_name fs = Inr cs \<Longrightarrow>
     get_class_ranges_from (length ls) fs (ranges_spec ls) = Inr (ranges_spec (ls @ cs))"
proof (induction fs arbitrary: ls cs)
  case Nil
  then show ?case by simp
next
  case (Cons f fs)
  from Cons.prems obtain c cs' where c: "class_name f = Inr c" and cs': "map_py class_name fs = Inr cs'"
    and cs: "cs = c # cs'" by auto
  have "get_class_ranges_from (length (ls @ [c])) fs (ranges_spec (ls @ [c])) =
        Inr (ranges_spec ((ls @ [c]) @ cs'))"
    using Cons.IH [OF cs'] .
  then show ?case using c cs by (simp add: ranges_spec_snoc)
qed

lemma get_class_ranges_from_error:
  "map_py class_name fs = Inl e \<Longrightarrow> get_class_ranges_from idx fs cr = Inl e"
proof (induction fs arbitrary: idx cr)
  case Nil
  then show ?case by simp
next
  case (Cons f fs)
  then show ?case by (cases "class_name f") (auto simp: bind_py_eq_Inl)
qed

lemma ranges_spec_empty: "ranges_spec [] = Map.empty"
  by (simp add: ranges_spec_def fun_eq_iff)

lemma length_py_split: "length (py_split c s) = Suc (count_list s c)"
  by (induction s) (auto simp: Let_def)

lemma class_name_error_iff: "class_name f = Inl e \<longleftrightarrow> e = IndexError \<and> CHR ''/'' \<notin> set f"
proof -
  have "2 \<le> length (py_split CHR ''/'' f) \<longleftrightarrow> CHR ''/'' \<in> set f"
    using count_list_0_iff [of f "CHR ''/''"]
    by (cases "count_list f CHR ''/'' = 0") (auto simp: length_py_split)
  then show ?thesis by (auto simp: class_name_def py_index_minus_two)
qed

lemma class_name_path [py_simps]:
  "CHR ''/'' \<notin> set c \<Longrightarrow> CHR ''/'' \<notin> set f \<Longrightarrow> class_name (d @ CHR ''/'' # c @ CHR ''/'' # f) = Inr c"
  by (simp add: class_name_def py_split_append_sep py_split_no_sep py_index_minus_two)

lemma map_py_class_name_error:
  "map_py class_name fs = Inl e \<longleftrightarrow> e = IndexError \<and> (\<exists>f \<in> set fs. CHR ''/'' \<notin> set f)"
proof (induction fs)
  case Nil
  then show ?case by simp
next
  case (Cons f fs)
  show ?case
  proof (cases "CHR ''/'' \<in> set f")
    case True
    then obtain c where "class_name f = Inr c"
      using class_name_error_iff [of f] by (cases "class_name f") auto
    with Cons.IH True show ?thesis by (auto simp: bind_py_eq_Inl)
  next
    case False
    then have "class_name f = Inl IndexError" by (simp add: class_name_error_iff)
    with False show ?thesis by auto
  qed
qed

lemma contiguous_between:
  "class_contiguous ls \<Longrightarrow> i \<le> j \<Longrightarrow> j \<le> k \<Longrightarrow> k < length ls \<Longrightarrow> ls ! i = ls ! k \<Longrightarrow> ls ! j = ls ! i"
proof (induction ls arbitrary: i j k)
  case Nil
  then show ?case by simp
next
  case (Cons x xs)
  show ?case
  proof (cases i)
    case 0
    show ?thesis
    proof (cases "j = 0")
      case False
      then have k: "k > 0" and xk: "xs ! (k - 1) = x"
        using Cons.prems 0 by (auto simp: nth_Cons split: nat.splits)
      moreover have "k - 1 < length xs" using Cons.prems k by simp
      ultimately have "x \<in> set xs" by (metis nth_mem)
      with Cons.prems have hd: "xs ! 0 = x" by (cases xs) auto
      have "xs ! (j - 1) = xs ! 0"
        using Cons.IH [of 0 "j - 1" "k - 1"] Cons.prems k xk hd False by simp
      with hd 0 False show ?thesis by (cases j) auto
    qed (simp add: 0)
  next
    case (Suc i')
    with Cons.prems(2,3) obtain j' k' where j: "j = Suc j'" and k: "k = Suc k'"
      by (cases j; cases k) auto
    have "xs ! j' = xs ! i'"
      using Cons.IH [of i' j' k'] Cons.prems Suc j k by simp
    then show ?thesis using Suc j by simp
  qed
qed

lemma ranges_spec_hull:
  assumes "ranges_spec ls c = Some (s, e)"
  shows "s \<le> e \<and> e < length ls \<and> ls ! s = c \<and> ls ! e = c \<and>
         (\<forall>i < length ls. ls ! i = c \<longrightarrow> s \<le> i \<and> i \<le> e)"
proof -
  from assms have c: "c \<in> set ls" and s: "s = first_index c ls" and e: "e = last_index c ls"
    by (auto simp: ranges_spec_def split: if_splits)
  have "ls ! s = c" using nth_first_index [OF c] s by simp
  moreover have "e < length ls" "ls ! e = c" using last_index_props [OF c] e by auto
  moreover have "\<forall>i < length ls. ls ! i = c \<longrightarrow> s \<le> i \<and> i \<le> e"
  proof (intro allI impI)
    fix i assume i: "i < length ls" "ls ! i = c"
    show "s \<le> i \<and> i \<le> e"
      using first_index_le [OF i] last_index_props(3) [OF c i] s e by simp
  qed
  moreover have "s \<le> e" using first_index_le [of e ls c] calculation(2,3) s by simp
  ultimately show ?thesis by blast
qed

lemmas class_index_eval = get_class_ranges_def class_name_def py_index_minus_two range_step_def
  numeral_2_eq_2

lemma get_class_ranges_Inr:
  "map_py class_name fnames = Inr ls \<Longrightarrow> get_class_ranges fnames = Inr (ranges_spec ls)"
  using get_class_ranges_from_labels [of fnames ls "[]"] by (simp add: get_class_ranges_def ranges_spec_empty)

lemma get_class_ranges_Inl:
  "map_py class_name fnames = Inl e \<Longrightarrow> get_class_ranges fnames = Inl e"
  by (simp add: get_class_ranges_def get_class_ranges_from_error)

lemma get_class_ranges_Inr_iff:
  "get_class_ranges fnames = Inr cr \<longleftrightarrow> (\<exists>ls. map_py class_name fnames = Inr ls \<and> cr = ranges_spec ls)"
  by (cases "map_py class_name fnames") (auto simp: get_class_ranges_Inr get_class_ranges_Inl)

lemma ranges_spec_exact:
  assumes "class_contiguous ls" and "ranges_spec ls c = Some (s, e)" and "i < length ls"
  shows "(s \<le> i \<and> i \<le> e) \<longleftrightarrow> ls ! i = c"
proof -
  have h: "s \<le> e \<and> e < length ls \<and> ls ! s = c \<and> ls ! e = c \<and>
         (\<forall>i < length ls. ls ! i = c \<longrightarrow> s \<le> i \<and> i \<le> e)"
    using assms(2) by (simp add: ranges_spec_hull)
  show ?thesis
  proof
    assume "s \<le> i \<and> i \<le> e"
    then show "ls ! i = c"
      using contiguous_between [OF assms(1), of s i e] h by auto
  next
    assume "ls ! i = c"
    then show "s \<le> i \<and> i \<le> e" using h assms(3) by blast
  qed
qed

section \<open>Properties of the class index\<close>

text \<open>
  C1 (refinement): \<open>get_class_ranges\<close> computes, for the labels of the file names in
  row order, the map from each label to its first and last row; when some file name
  has no parent directory the scan raises the error of that name's label extraction.
\<close>

theorem get_class_ranges_refines:
  "get_class_ranges fnames = bind_py (map_py class_name fnames) (\<lambda>ls. Inr (ranges_spec ls))"
  by (cases "map_py class_name fnames") (simp_all add: get_class_ranges_Inr get_class_ranges_Inl)

text \<open>
  C20 (functional): the range stored for a class starts and ends at rows of that class,
  and every row of that class lies inside it (the range is the hull of the class's rows,
  whether or not they are contiguous).
\<close>

theorem get_class_ranges_hull:
  assumes "get_class_ranges fnames = Inr cr"
    and "map_py class_name fnames = Inr ls"
    and "cr c = Some (s, e)"
  shows "s \<le> e \<and> e < length ls \<and> ls ! s = c \<and> ls ! e = c \<and>
         (\<forall>i < length ls. ls ! i = c \<longrightarrow> s \<le> i \<and> i \<le> e)"
proof -
  from assms(1,2) have "cr = ranges_spec ls" by (simp add: get_class_ranges_Inr)
  with assms(3) show ?thesis by (simp add: ranges_spec_hull)
qed

theorem get_class_ranges_hull_witness:
  "get_class_ranges [''a/x'', ''a/y'', ''b/z''] = Inr [''a'' \<mapsto> (0, 1), ''b'' \<mapsto> (2, 2)] \<and>
   (0::nat) \<le> 1 \<and> 1 < length [''a'', ''a'', ''b''] \<and> [''a'', ''a'', ''b''] ! 0 = ''a''"
  using get_class_ranges_hull [of "[''a/x'', ''a/y'', ''b/z'']" "[''a'' \<mapsto> (0, 1), ''b'' \<mapsto> (2, 2)]"
      "[''a'', ''a'', ''b'']" "''a''" 0 1]
  by (simp add: class_index_eval)

text \<open>
  C21 (functional): when the rows of every class are contiguous, the stored range of a
  class contains exactly the rows of that class.
\<close>

theorem get_class_ranges_exact:
  assumes "class_contiguous ls"
    and "get_class_ranges fnames = Inr cr"
    and "map_py class_name fnames = Inr ls"
    and "cr c = Some (s, e)"
    and "i < length ls"
  shows "(s \<le> i \<and> i \<le> e) \<longleftrightarrow> ls ! i = c"
proof -
  from assms(2,3) have "cr = ranges_spec ls" by (simp add: get_class_ranges_Inr)
  with assms(1,4,5) show ?thesis by (simp add: ranges_spec_exact)
qed

theorem get_class_ranges_exact_witness:
  "class_contiguous [''a'', ''a'', ''b''] \<and>
   get_class_ranges [''a/x'', ''a/y'', ''b/z''] = Inr [''a'' \<mapsto> (0, 1), ''b'' \<mapsto> (2, 2)] \<and>
   ((0::nat) \<le> 2 \<and> 2 \<le> (1::nat) \<longleftrightarrow> [''a'', ''a'', ''b''] ! 2 = ''a'')"
  using get_class_ranges_exact [of "[''a'', ''a'', ''b'']" "[''a/x'', ''a/y'', ''b/z'']"
      "[''a'' \<mapsto> (0, 1), ''b'' \<mapsto> (2, 2)]" "''a''" 0 1 2]
  by (simp add: class_index_eval)

text \<open>
  C22 (error): the scan fails exactly when some stored file name has no \<open>/\<close>, and it
  then raises IndexError (\<open>fname.split("/")[-2]\<close> on a one-element list).
\<close>

theorem get_class_ranges_error_iff:
  "get_class_ranges fnames = Inl e \<longleftrightarrow> e = IndexError \<and> (\<exists>f \<in> set fnames. CHR ''/'' \<notin> set f)"
proof (cases "map_py class_name fnames")
  case (Inl e')
  then show ?thesis using map_py_class_name_error [of fnames e'] map_py_class_name_error [of fnames e]
    by (auto simp: get_class_ranges_Inl)
next
  case (Inr ls)
  then show ?thesis using map_py_class_name_error [of fnames IndexError] by (simp add: get_class_ranges_Inr)
qed

theorem get_class_ranges_error_witness:
  "get_class_ranges [''a/x'', ''noslash''] = Inl IndexError \<and> ''noslash'' \<in> set [''a/x'', ''noslash'']"
  using get_class_ranges_error_iff [of "[''a/x'', ''noslash'']" IndexError]
  by simp

end
