(* ===== verification/Sampler.thy ===== *)
theory Sampler
  imports Prelude
begin

text \<open>
  The negative sampler of \<open>data_generator\<close> (lines 105-109 of
  \<open>extract_features_and_dump.py\<close>): the population of all rows outside the anchor's
  class range, \<open>np.random.choice(..., replace=False)\<close> on it, and the sort of the drawn
  rows.  NumPy's global generator is modelled as an explicit state: an arbitrary stream
  of raw draws and the number of draws consumed.  \<open>choice\<close> without replacement is
  NumPy's legacy algorithm: the first \<open>size\<close> entries of a random permutation, which
  is a Fisher-Yates shuffle of \<open>arange(n)\<close> from the last position down to 1.  Every
  property below holds for every stream of draws.
\<close>

section \<open>NumPy's random generator\<close>

record rng_state =
  draws :: "nat \<Rightarrow> nat"
  drawn :: nat

text \<open>
  \<open>random_interval(max)\<close>: a value in \<open>[0, max]\<close> from the stream.  The masked
  rejection sampling of the C code is abstracted to one raw draw reduced modulo
  \<open>max + 1\<close>; the properties only use that the value lies in \<open>[0, max]\<close>.
\<close>

definition random_interval :: "nat \<Rightarrow> rng_state \<Rightarrow> nat \<times> rng_state" where
  "random_interval mx g = (draws g (drawn g) mod Suc mx, g\<lparr>drawn := Suc (drawn g)\<rparr>)"

text \<open>\<open>x[i], x[j] = x[j], x[i]\<close>: the right-hand side is read first, then \<open>x[i]\<close> and \<open>x[j]\<close> are written.\<close>

definition swap :: "nat \<Rightarrow> nat \<Rightarrow> 'a list \<Rightarrow> 'a list" where
  "swap i j xs = xs[i := xs ! j, j := xs ! i]"

text \<open>\<open>for i in reversed(range(1, n)): j = random_interval(i); swap x[i], x[j]\<close>.\<close>

fun shuffle_down :: "nat \<Rightarrow> 'a list \<Rightarrow> rng_state \<Rightarrow> 'a list \<times> rng_state" where
  "shuffle_down 0 xs g = (xs, g)"
| "shuffle_down (Suc i) xs g =
     (let (j, g') = random_interval (Suc i) g in shuffle_down i (swap (Suc i) j xs) g')"

definition np_shuffle :: "'a list \<Rightarrow> rng_state \<Rightarrow> 'a list \<times> rng_state" where
  "np_shuffle xs g = shuffle_down (length xs - 1) xs g"

definition np_permutation :: "nat \<Rightarrow> rng_state \<Rightarrow> nat list \<times> rng_state" where
  "np_permutation n g = np_shuffle [0..<n] g"

text \<open>
  \<open>np.random.choice(a, size, replace=False)\<close>: ValueError when the sample is larger
  than the population, otherwise \<open>a[permutation(len(a))[:size]]\<close>.
\<close>

definition np_choice_noreplace :: "'a list \<Rightarrow> nat \<Rightarrow> rng_state \<Rightarrow> py_error + 'a list \<times> rng_state" where
  "np_choice_noreplace a k g =
     (if length a < k then Inl ValueError
      else (let (p, g') = np_permutation (length a) g in Inr (map (\<lambda>j. a ! j) (take k p), g')))"

section \<open>The sampler of \<open>data_generator\<close>\<close>

text \<open>\<open>range_of_nums = range(0, start) + range(end + 1, DATASET_SIZE)\<close>.\<close>

definition population :: "nat \<Rightarrow> nat \<Rightarrow> nat \<Rightarrow> nat list" where
  "population start stop n = [0..<start] @ [Suc stop..<n]"

text \<open>Lines 107-109: draw \<open>batch_size\<close> rows without replacement, then sort them.\<close>

definition sample_negatives :: "nat \<Rightarrow> nat \<Rightarrow> nat \<Rightarrow> nat \<Rightarrow> rng_state \<Rightarrow> py_error + nat list \<times> rng_state" where
  "sample_negatives start stop n batch_size g =
     bind_py (np_choice_noreplace (population start stop n) batch_size g)
       (\<lambda>(sel, g'). Inr (sort sel, g'))"

section \<open>The shuffle is a permutation\<close>

lemma random_interval_bound: "fst (random_interval mx g) \<le> mx"
  by (simp add: random_interval_def less_Suc_eq_le [symmetric])

lemma mset_shuffle_down: "i < length xs \<Longrightarrow> mset (fst (shuffle_down i xs g)) = mset xs"
proof (induction i xs g rule: shuffle_down.induct)
  case (1 xs g)
  then show ?case by simp
next
  case (2 i xs g)
  obtain j g' where r: "random_interval (Suc i) g = (j, g')" by fastforce
  then have "j \<le> Suc i" using random_interval_bound [of "Suc i" g] by simp
  then have m: "mset (swap (Suc i) j xs) = mset xs"
    using "2.prems" by (simp add: swap_def mset_swap)
  have "i < length (swap (Suc i) j xs)" using "2.prems" by (simp add: swap_def)
  with "2.IH" [OF r [symmetric] refl] m r show ?case by simp
qed

lemma mset_np_permutation: "mset (fst (np_permutation n g)) = mset [0..<n]"
proof (cases n)
  case 0
  then show ?thesis by (simp add: np_permutation_def np_shuffle_def)
next
  case (Suc m)
  then show ?thesis
    using mset_shuffle_down [of "n - 1" "[0..<n]" g] by (simp add: np_permutation_def np_shuffle_def)
qed

lemma np_permutation_props:
  "distinct (fst (np_permutation n g)) \<and> set (fst (np_permutation n g)) = {..<n} \<and>
   length (fst (np_permutation n g)) = n"
proof -
  have m: "mset (fst (np_permutation n g)) = mset [0..<n]" by (rule mset_np_permutation)
  then have "distinct (fst (np_permutation n g))"
    using mset_eq_imp_distinct_iff [OF m] by simp
  moreover have "set (fst (np_permutation n g)) = {..<n}"
    using mset_eq_setD [OF m] by (simp only: set_upt atLeast0LessThan)
  moreover have "length (fst (np_permutation n g)) = n"
    using mset_eq_length [OF m] by simp
  ultimately show ?thesis by blast
qed

lemma np_choice_noreplace_Inr:
  assumes "np_choice_noreplace a k g = Inr (sel, g')"
  shows "length sel = k \<and> set sel \<subseteq> set a \<and> (distinct a \<longrightarrow> distinct sel)"
proof -
  obtain p g1 where p: "np_permutation (length a) g = (p, g1)" by fastforce
  have k: "k \<le> length a" and sel: "sel = map (\<lambda>j. a ! j) (take k p)"
    using assms p by (simp_all add: np_choice_noreplace_def split: if_splits)
  have dp: "distinct p" and sp: "set p = {..<length a}" and lp: "length p = length a"
    using np_permutation_props [of "length a" g] p by simp_all
  have idx: "j < length a" if "j \<in> set (take k p)" for j
    using in_set_takeD [OF that] sp by blast
  have "length sel = k" using sel k lp by simp
  moreover have "set sel \<subseteq> set a"
    using sel idx by auto
  moreover have "distinct a \<longrightarrow> distinct sel"
  proof
    assume da: "distinct a"
    have "inj_on (\<lambda>j. a ! j) (set (take k p))"
      by (rule inj_onI) (simp add: nth_eq_iff_index_eq [OF da] idx)
    then show "distinct sel" using sel dp by (simp add: distinct_map)
  qed
  ultimately show ?thesis by blast
qed

lemma set_population: "set (population s e n) = {x. x < s \<or> (e < x \<and> x < n)}"
  by (auto simp: population_def)

lemma length_population: "length (population s e n) = s + (n - Suc e)"
  by (simp add: population_def)

lemma distinct_population: "e < n \<Longrightarrow> s \<le> Suc e \<Longrightarrow> distinct (population s e n)"
  by (auto simp: population_def)

lemma sort_distinct_sorted_wrt: "distinct xs \<Longrightarrow> sorted_wrt (<) (sort xs)"
  by (simp add: strict_sorted_iff)

lemma sample_negatives_Inr:
  assumes "sample_negatives s e n k g = Inr (sel, g')" and "s \<le> e" and "e < n"
  shows "length sel = k \<and> sorted_wrt (<) sel \<and> set sel \<subseteq> set (population s e n)"
proof -
  obtain sel0 where c: "np_choice_noreplace (population s e n) k g = Inr (sel0, g')"
    and sel: "sel = sort sel0"
    using assms(1) by (auto simp: sample_negatives_def)
  have d: "distinct (population s e n)" using assms(2,3) by (simp add: distinct_population)
  from np_choice_noreplace_Inr [OF c] d
  have "length sel0 = k" and "set sel0 \<subseteq> set (population s e n)" and "distinct sel0"
    by auto
  then show ?thesis using sel by (simp add: sort_distinct_sorted_wrt)
qed

lemma sample_negatives_room:
  "k \<le> s + (n - Suc e) \<Longrightarrow> \<exists>sel g'. sample_negatives s e n k g = Inr (sel, g')"
  by (auto simp: sample_negatives_def np_choice_noreplace_def length_population split: prod.split)

section \<open>Properties of the sampler\<close>

text \<open>
  C4 (safety): for a class range \<open>[s, e]\<close> inside the data set, every successful draw
  has exactly \<open>batch_size\<close> rows, strictly increasing (so distinct and acceptable to
  h5py's fancy indexing), all inside the data set and none inside \<open>[s, e]\<close>.
\<close>

theorem sample_negatives_correct:
  assumes "sample_negatives s e n k g = Inr (sel, g')"
    and "s \<le> e" and "e < n"
  shows "length sel = k \<and> sorted_wrt (<) sel \<and> (\<forall>x \<in> set sel. x < n \<and> (x < s \<or> e < x))"
proof -
  from sample_negatives_Inr [OF assms]
  have "length sel = k" and "sorted_wrt (<) sel" and sub: "set sel \<subseteq> set (population s e n)"
    by simp_all
  moreover have "\<forall>x \<in> set sel. x < n \<and> (x < s \<or> e < x)"
    using sub assms(2,3) by (auto simp: set_population)
  ultimately show ?thesis by blast
qed

definition zero_draws :: rng_state where
  "zero_draws = \<lparr>draws = (\<lambda>_. 0), drawn = 0\<rparr>"

lemmas sampler_eval = sample_negatives_def np_choice_noreplace_def np_permutation_def
  np_shuffle_def random_interval_def swap_def population_def

theorem sample_negatives_correct_witness:
  "\<exists>g'. sample_negatives 1 1 4 2 zero_draws = Inr ([2, 3], g') \<and>
   length [2, 3::nat] = 2 \<and> sorted_wrt (<) [2, 3::nat] \<and>
   (\<forall>x \<in> set [2, 3::nat]. x < 4 \<and> (x < 1 \<or> 1 < x))"
proof -
  have "map_sum id fst (sample_negatives 1 1 4 2 zero_draws) = Inr [2, 3]" by code_simp
  then obtain g' where eq: "sample_negatives 1 1 4 2 zero_draws = Inr ([2, 3], g')"
    by (cases "sample_negatives 1 1 4 2 zero_draws") auto
  show ?thesis using sample_negatives_correct [OF eq] eq by auto
qed

text \<open>
  C5 (error): the sampler raises exactly when the batch is larger than the rows outside
  the class range, and it then raises NumPy's ValueError; excluding the whole data set
  \<open>[0, n - 1]\<close> makes even a batch of one fail.
\<close>

theorem sample_negatives_error_iff:
  "sample_negatives s e n k g = Inl err \<longleftrightarrow> err = ValueError \<and> s + (n - Suc e) < k"
  by (auto simp: sample_negatives_def np_choice_noreplace_def length_population
           bind_py_eq_Inl split: prod.splits)

end
