(* ===== verification/FeatureStore.thy ===== *)
theory FeatureStore
  imports Prelude
begin

text \<open>
  The append-only feature store: the group \<open>data\<close> of an HDF5 file holding a float
  dataset of vectors (\<open>data/features\<close>, or \<open>data/word_embeddings\<close> in the embedding
  file) and a string dataset of names (\<open>data/fnames\<close>, \<open>data/word_names\<close>).
  A float dataset is its rows together with its current and maximal second dimension
  (\<open>maxshape=(None, D)\<close>); a missing dataset is \<open>None\<close>, so \<open>hf["data/features"]\<close> on a
  file without it raises KeyError.  \<open>dump_to_h5\<close> and \<open>dump_wv_to_h5\<close> (lines 128-161)
  assert that names and vectors have the same count, resize both datasets to the new
  row count (h5py fills new cells with zeros and empty strings) and then write the new
  rows one by one; a row that cannot be broadcast to the dataset's width raises in the
  middle of the loop and leaves the rows written so far, and the zero-filled rest, in
  the file.  The model returns that state together with the exception.
\<close>

section \<open>Datasets\<close>

record 'a fdataset =
  frows :: "'a list list"
  fwidth :: nat
  fmaxwidth :: nat

record 'a h5table =
  vecs :: "'a fdataset option"
  names :: "string list option"

text \<open>Lines 259-262 and 265-268 of \<open>main\<close>: create an empty dataset when it is absent.\<close>

definition create_or_get_vecs :: "nat \<Rightarrow> 'a h5table \<Rightarrow> 'a h5table" where
  "create_or_get_vecs dim t =
     (case vecs t of
        None \<Rightarrow> t\<lparr>vecs := Some \<lparr>frows = [], fwidth = dim, fmaxwidth = dim\<rparr>\<rparr>
      | Some _ \<Rightarrow> t)"

definition create_or_get_names :: "'a h5table \<Rightarrow> 'a h5table" where
  "create_or_get_names t = (case names t of None \<Rightarrow> t\<lparr>names := Some []\<rparr> | Some _ \<Rightarrow> t)"

text \<open>
  \<open>Dataset.resize((n, w))\<close>: allowed up to the maximal shape; cells keep their
  coordinates, new cells read as zero.
\<close>

definition fit_row :: "nat \<Rightarrow> 'a::zero list \<Rightarrow> 'a list" where
  "fit_row w r = take w r @ replicate (w - length r) 0"

definition resize_vecs :: "nat \<Rightarrow> nat \<Rightarrow> 'a::zero fdataset \<Rightarrow> py_error + 'a fdataset" where
  "resize_vecs n w ds =
     (if fmaxwidth ds < w then Inl ValueError
      else Inr (ds\<lparr>frows := map (fit_row w) (take n (frows ds)) @
                             replicate (n - length (frows ds)) (replicate w 0),
                  fwidth := w\<rparr>))"

definition resize_names :: "nat \<Rightarrow> string list \<Rightarrow> string list" where
  "resize_names n nms = take n nms @ replicate (n - length nms) ''''"

text \<open>\<open>x_h5[r] = v\<close> and \<open>fnames_h5[r] = name\<close>.\<close>

definition write_row :: "nat \<Rightarrow> 'a list \<Rightarrow> 'a fdataset \<Rightarrow> py_error + 'a fdataset" where
  "write_row r v ds =
     (if length (frows ds) \<le> r then Inl IndexError
      else case broadcast_row (fwidth ds) v of
             None \<Rightarrow> Inl TypeError
           | Some v' \<Rightarrow> Inr (ds\<lparr>frows := (frows ds)[r := v']\<rparr>))"

definition write_name :: "nat \<Rightarrow> string \<Rightarrow> string list \<Rightarrow> py_error + string list" where
  "write_name r nm nms = (if length nms \<le> r then Inl IndexError else Inr (nms[r := nm]))"

text \<open>Lines 143-145: \<open>for i in range(len(names))\<close>, the vector first, then the name.\<close>

fun write_loop :: "nat \<Rightarrow> string list \<Rightarrow> 'a list list \<Rightarrow> 'a fdataset \<Rightarrow> string list \<Rightarrow>
    ('a fdataset \<times> string list) outcome" where
  "write_loop r (nm # nms) (v # vs) ds fn =
     (case write_row r v ds of
        Inl e \<Rightarrow> (Some e, ds, fn)
      | Inr ds' \<Rightarrow>
          (case write_name r nm fn of
             Inl e \<Rightarrow> (Some e, ds', fn)
           | Inr fn' \<Rightarrow> write_loop (Suc r) nms vs ds' fn'))"
| "write_loop r _ _ ds fn = (None, ds, fn)"

definition dump_to_h5 :: "nat \<Rightarrow> string list \<Rightarrow> 'a::zero list list \<Rightarrow> 'a h5table \<Rightarrow> 'a h5table outcome" where
  "dump_to_h5 image_dim nms scores hf =
     (if length scores \<noteq> length nms then (Some AssertionError, hf)
      else case (vecs hf, names hf) of
        (None, _) \<Rightarrow> (Some KeyError, hf)
      | (_, None) \<Rightarrow> (Some KeyError, hf)
      | (Some x_h5, Some fnames_h5) \<Rightarrow>
          (let cur_rows = length (frows x_h5); new_rows = cur_rows + length nms in
           case resize_vecs new_rows image_dim x_h5 of
             Inl e \<Rightarrow> (Some e, hf)
           | Inr x' \<Rightarrow>
               (case write_loop cur_rows nms scores x' (resize_names new_rows fnames_h5) of
                  (err, x'', fn'') \<Rightarrow> (err, hf\<lparr>vecs := Some x'', names := Some fn''\<rparr>))))"

text \<open>\<open>dump_wv_to_h5\<close> is the same procedure on the embedding file's two datasets, with \<open>WORD_DIM\<close>.\<close>

definition dump_wv_to_h5 :: "nat \<Rightarrow> string list \<Rightarrow> 'a::zero list list \<Rightarrow> 'a h5table \<Rightarrow> 'a h5table outcome" where
  "dump_wv_to_h5 word_dim words vectors hf = dump_to_h5 word_dim words vectors hf"

text \<open>
  Reads: \<open>dset[i]\<close>, and \<open>dset[ids]\<close> for a list, which h5py accepts only in strictly
  increasing order (TypeError otherwise).
\<close>

definition read_row :: "'a fdataset \<Rightarrow> nat \<Rightarrow> py_error + 'a list" where
  "read_row ds i = (if i < length (frows ds) then Inr (frows ds ! i) else Inl IndexError)"

definition read_rows :: "'a fdataset \<Rightarrow> nat list \<Rightarrow> py_error + 'a list list" where
  "read_rows ds ids =
     (if \<not> sorted_wrt (<) ids then Inl TypeError
      else if list_all (\<lambda>i. i < length (frows ds)) ids then Inr (map (\<lambda>i. frows ds ! i) ids)
      else Inl IndexError)"

section \<open>Well-formed tables\<close>

text \<open>Both datasets have one row per stored item, and every vector has the dataset's width.\<close>

definition wf_table :: "'a h5table \<Rightarrow> bool" where
  "wf_table t =
     (case (vecs t, names t) of
        (Some x, Some fn) \<Rightarrow>
          length (frows x) = length fn \<and> fwidth x \<le> fmaxwidth x \<and>
          list_all (\<lambda>r. length r = fwidth x) (frows x)
      | _ \<Rightarrow> True)"

section \<open>Lemmas on the write loop\<close>

lemma take_update_Suc: "r < length xs \<Longrightarrow> take (Suc r) (xs[r := v]) = take r xs @ [v]"
  by (simp add: take_Suc_conv_app_nth)

lemma list_all_update: "list_all P xs \<Longrightarrow> P v \<Longrightarrow> list_all P (xs[r := v])"
  by (induction xs arbitrary: r) (auto split: nat.splits)

lemma write_loop_ok:
  assumes "length nms = length vs" "r + length vs \<le> length (frows ds)" "length fn = length (frows ds)"
    "list_all (\<lambda>v. length v = fwidth ds) vs"
  shows "write_loop r nms vs ds fn =
           (None, ds\<lparr>frows := take r (frows ds) @ vs @ drop (r + length vs) (frows ds)\<rparr>,
            take r fn @ nms @ drop (r + length vs) fn)"
  using assms
proof (induction vs arbitrary: nms r ds fn)
  case Nil
  then show ?case by simp
next
  case (Cons v vs)
  obtain nm nms' where nms: "nms = nm # nms'" using Cons.prems(1) by (cases nms) auto
  let ?ds1 = "ds\<lparr>frows := (frows ds)[r := v]\<rparr>"
  have r: "r < length (frows ds)" using Cons.prems(2) by simp
  have w: "write_row r v ds = Inr ?ds1" using r Cons.prems(4) by (simp add: write_row_def)
  have n: "write_name r nm fn = Inr (fn[r := nm])" using r Cons.prems(3) by (simp add: write_name_def)
  have ih: "write_loop (Suc r) nms' vs ?ds1 (fn[r := nm]) =
      (None, ?ds1\<lparr>frows := take (Suc r) ((frows ds)[r := v]) @ vs @ drop (Suc r + length vs) ((frows ds)[r := v])\<rparr>,
       take (Suc r) (fn[r := nm]) @ nms' @ drop (Suc r + length vs) (fn[r := nm]))"
    using Cons.IH [of nms' "Suc r" ?ds1 "fn[r := nm]"] Cons.prems nms by simp
  show ?case
    using w n ih r Cons.prems(3) nms by (simp add: take_update_Suc)
qed

lemma write_loop_fail:
  assumes "length nms = length vs" "r + length vs \<le> length (frows ds)" "length fn = length (frows ds)"
    "i < length vs" "\<forall>j < i. length (vs ! j) = fwidth ds" "broadcast_row (fwidth ds) (vs ! i) = None"
  shows "write_loop r nms vs ds fn =
           (Some TypeError, ds\<lparr>frows := take r (frows ds) @ take i vs @ drop (r + i) (frows ds)\<rparr>,
            take r fn @ take i nms @ drop (r + i) fn)"
  using assms
proof (induction vs arbitrary: nms r ds fn i)
  case Nil
  then show ?case by simp
next
  case (Cons v vs)
  obtain nm nms' where nms: "nms = nm # nms'" using Cons.prems(1) by (cases nms) auto
  have r: "r < length (frows ds)" using Cons.prems(2) by simp
  show ?case
  proof (cases i)
    case 0
    then show ?thesis using Cons.prems(6) r nms by (simp add: write_row_def)
  next
    case (Suc i')
    let ?ds1 = "ds\<lparr>frows := (frows ds)[r := v]\<rparr>"
    have "length v = fwidth ds" using Cons.prems(5) [rule_format, of 0] Suc by simp
    then have w: "write_row r v ds = Inr ?ds1" using r by (simp add: write_row_def)
    have n: "write_name r nm fn = Inr (fn[r := nm])" using r Cons.prems(3) by (simp add: write_name_def)
    have all: "\<forall>j < i'. length (vs ! j) = fwidth ?ds1"
    proof (intro allI impI)
      fix j assume "j < i'"
      then show "length (vs ! j) = fwidth ?ds1" using Cons.prems(5) [rule_format, of "Suc j"] Suc by simp
    qed
    have ih: "write_loop (Suc r) nms' vs ?ds1 (fn[r := nm]) =
        (Some TypeError, ?ds1\<lparr>frows := take (Suc r) ((frows ds)[r := v]) @ take i' vs @ drop (Suc r + i') ((frows ds)[r := v])\<rparr>,
         take (Suc r) (fn[r := nm]) @ take i' nms' @ drop (Suc r + i') (fn[r := nm]))"
      using Cons.IH [of nms' "Suc r" ?ds1 "fn[r := nm]" i'] Cons.prems nms Suc all by simp
    show ?thesis
      using w n ih r Cons.prems(3) nms Suc by (simp add: take_update_Suc)
  qed
qed

lemma write_row_Inr:
  assumes "write_row r v ds = Inr ds1"
  shows "\<exists>v'. ds1 = ds\<lparr>frows := (frows ds)[r := v']\<rparr> \<and> length v' = fwidth ds"
proof -
  obtain v' where "broadcast_row (fwidth ds) v = Some v'" and "ds1 = ds\<lparr>frows := (frows ds)[r := v']\<rparr>"
    using assms by (cases "broadcast_row (fwidth ds) v") (simp_all add: write_row_def split: if_splits)
  then show ?thesis using broadcast_row_length by blast
qed

lemma write_name_Inr: "write_name r nm fn = Inr fn1 \<Longrightarrow> length fn1 = length fn"
  by (auto simp: write_name_def split: if_splits)

lemma write_loop_shape:
  assumes "write_loop r nms vs ds fn = (err, ds', fn')"
  shows "length (frows ds') = length (frows ds) \<and> length fn' = length fn \<and>
         fwidth ds' = fwidth ds \<and> fmaxwidth ds' = fmaxwidth ds \<and>
         (list_all (\<lambda>x. length x = fwidth ds) (frows ds) \<longrightarrow> list_all (\<lambda>x. length x = fwidth ds') (frows ds'))"
  using assms
proof (induction r nms vs ds fn rule: write_loop.induct)
  case (1 r nm nms v vs ds fn)
  show ?case
  proof (cases "write_row r v ds")
    case (Inl e)
    then show ?thesis using "1.prems" by simp
  next
    case (Inr ds1)
    then obtain v' where ds1: "ds1 = ds\<lparr>frows := (frows ds)[r := v']\<rparr>" and v': "length v' = fwidth ds"
      using write_row_Inr by blast
    then have s1: "list_all (\<lambda>x. length x = fwidth ds) (frows ds) \<longrightarrow> list_all (\<lambda>x. length x = fwidth ds1) (frows ds1)"
      by (simp add: list_all_update)
    show ?thesis
    proof (cases "write_name r nm fn")
      case (Inl e)
      then have "ds' = ds1 \<and> fn' = fn" using "1.prems" Inr by simp
      then show ?thesis using ds1 s1 by simp
    next
      case (Inr fn1)
      have "write_loop (Suc r) nms vs ds1 fn1 = (err, ds', fn')"
        using "1.prems" \<open>write_row r v ds = Inr ds1\<close> Inr by simp
      then show ?thesis
        using "1.IH" [OF \<open>write_row r v ds = Inr ds1\<close> Inr] write_name_Inr [OF Inr] ds1 s1 by auto
    qed
  qed
qed simp_all

lemma length_fit_row: "length (fit_row w r) = w"
  by (simp add: fit_row_def min_def)

lemma resize_vecs_shape:
  assumes "resize_vecs n w x = Inr x1"
  shows "length (frows x1) = n \<and> fwidth x1 = w \<and> fmaxwidth x1 = fmaxwidth x \<and> w \<le> fmaxwidth x \<and>
         list_all (\<lambda>r. length r = w) (frows x1)"
proof -
  have w: "w \<le> fmaxwidth x" and x1: "x1 = x\<lparr>frows := map (fit_row w) (take n (frows x)) @
      replicate (n - length (frows x)) (replicate w 0), fwidth := w\<rparr>"
    using assms by (simp_all add: resize_vecs_def split: if_splits)
  have "list_all (\<lambda>r. length r = w) (map (fit_row w) (take n (frows x)))"
    by (simp add: list_all_iff length_fit_row)
  moreover have "list_all (\<lambda>r. length r = w) (replicate (n - length (frows x)) (replicate w (0::'a)))"
    by (simp add: list_all_iff)
  ultimately show ?thesis using w x1 by (simp add: min_def)
qed

lemma resize_vecs_same_width:
  assumes "list_all (\<lambda>r. length r = fwidth x) (frows x)" "fwidth x \<le> fmaxwidth x"
    and "length (frows x) \<le> n"
  shows "resize_vecs n (fwidth x) x =
           Inr (x\<lparr>frows := frows x @ replicate (n - length (frows x)) (replicate (fwidth x) 0)\<rparr>)"
proof -
  have "map (fit_row (fwidth x)) (frows x) = frows x"
    using assms(1) by (simp add: list_all_iff fit_row_def map_idI)
  then show ?thesis
    using assms(2,3) by (simp add: resize_vecs_def)
qed

lemma resize_names_grow: "length nms \<le> n \<Longrightarrow> resize_names n nms = nms @ replicate (n - length nms) ''''"
  by (simp add: resize_names_def)

section \<open>Properties of the store\<close>

lemma dump_to_h5_append_rows:
  assumes "wf_table hf" and "vecs hf = Some x" and "names hf = Some fn" and "fwidth x = dim"
    and "length scores = length nms" and "list_all (\<lambda>v. length v = dim) scores"
  shows "dump_to_h5 dim nms scores hf =
           (None, hf\<lparr>vecs := Some (x\<lparr>frows := frows x @ scores\<rparr>), names := Some (fn @ nms)\<rparr>) \<and>
         wf_table (hf\<lparr>vecs := Some (x\<lparr>frows := frows x @ scores\<rparr>), names := Some (fn @ nms)\<rparr>)"
proof -
  have wf: "length (frows x) = length fn" "fwidth x \<le> fmaxwidth x"
    "list_all (\<lambda>r. length r = fwidth x) (frows x)"
    using assms(1-3) by (simp_all add: wf_table_def)
  let ?n = "length (frows x) + length nms"
  let ?x1 = "x\<lparr>frows := frows x @ replicate (length nms) (replicate dim 0)\<rparr>"
  have r: "resize_vecs ?n dim x = Inr ?x1"
    using resize_vecs_same_width [OF wf(3,2), of ?n] assms(4) by simp
  have rn: "resize_names ?n fn = fn @ replicate (length nms) ''''"
    using wf(1) by (simp add: resize_names_grow)
  have "write_loop (length (frows x)) nms scores ?x1 (fn @ replicate (length nms) '''') =
          (None, ?x1\<lparr>frows := frows x @ scores\<rparr>, fn @ nms)"
    using write_loop_ok [of nms scores "length (frows x)" ?x1 "fn @ replicate (length nms) ''''"]
      assms(4-6) wf(1) by simp
  then show ?thesis using assms(2-6) r rn wf by (simp add: dump_to_h5_def wf_table_def)
qed

text \<open>
  C6 (functional): on a well-formed table whose vectors have the width \<open>D\<close>, appending
  \<open>k\<close> names with \<open>k\<close> vectors of width \<open>D\<close> succeeds and leaves exactly the old rows
  followed by the new ones, in order, in both datasets.
\<close>

theorem dump_to_h5_appends:
  assumes "wf_table hf" and "vecs hf = Some x" and "names hf = Some fn" and "fwidth x = dim"
    and "length scores = length nms" and "list_all (\<lambda>v. length v = dim) scores"
  shows "dump_to_h5 dim nms scores hf =
           (None, hf\<lparr>vecs := Some (x\<lparr>frows := frows x @ scores\<rparr>), names := Some (fn @ nms)\<rparr>)"
  using dump_to_h5_append_rows [OF assms] by simp

definition demo_table :: "int h5table" where
  "demo_table = \<lparr>vecs = Some \<lparr>frows = [[1, 2]], fwidth = 2, fmaxwidth = 2\<rparr>, names = Some [''r/a/1.jpg'']\<rparr>"

theorem dump_to_h5_appends_witness:
  "dump_to_h5 2 [''r/a/2.jpg'', ''r/b/3.jpg''] [[3, 4], [5, 6]] demo_table =
     (None, \<lparr>vecs = Some \<lparr>frows = [[1, 2], [3, 4], [5, 6]], fwidth = 2, fmaxwidth = 2\<rparr>,
             names = Some [''r/a/1.jpg'', ''r/a/2.jpg'', ''r/b/3.jpg'']\<rparr>)"
  using dump_to_h5_appends [of demo_table "\<lparr>frows = [[1, 2]], fwidth = 2, fmaxwidth = 2\<rparr>"
      "[''r/a/1.jpg'']" 2 "[[3, 4], [5, 6]]" "[''r/a/2.jpg'', ''r/b/3.jpg'']"]
  by (simp add: demo_table_def wf_table_def)

text \<open>
  C14 (invariant): every call of \<open>dump_to_h5\<close> keeps a table well formed, whether it
  returns or raises: the two datasets keep one row per item and every vector the
  dataset's width, also when a row in the middle fails to be written.
\<close>

theorem dump_to_h5_wf:
  assumes "wf_table hf" and "dump_to_h5 dim nms scores hf = (err, hf')"
  shows "wf_table hf'"
proof (cases "length scores = length nms \<and> vecs hf \<noteq> None \<and> names hf \<noteq> None")
  case False
  then have "hf' = hf" using assms(2) by (auto simp: dump_to_h5_def split: option.splits if_splits)
  then show ?thesis using assms(1) by simp
next
  case True
  then obtain x fn where x: "vecs hf = Some x" and fn: "names hf = Some fn" and l: "length scores = length nms"
    by auto
  let ?n = "length (frows x) + length nms"
  show ?thesis
  proof (cases "resize_vecs ?n dim x")
    case (Inl e)
    then have "hf' = hf" using assms(2) x fn l by (simp add: dump_to_h5_def)
    then show ?thesis using assms(1) by simp
  next
    case (Inr x1)
    obtain err' x2 fn2 where w: "write_loop (length (frows x)) nms scores x1 (resize_names ?n fn) = (err', x2, fn2)"
      by (cases "write_loop (length (frows x)) nms scores x1 (resize_names ?n fn)") auto
    then have h: "hf' = hf\<lparr>vecs := Some x2, names := Some fn2\<rparr>"
      using assms(2) x fn l Inr by (simp add: dump_to_h5_def)
    have s1: "length (frows x1) = ?n \<and> fwidth x1 = dim \<and> fmaxwidth x1 = fmaxwidth x \<and> dim \<le> fmaxwidth x \<and>
        list_all (\<lambda>r. length r = dim) (frows x1)"
      using resize_vecs_shape [OF Inr] .
    have "length (resize_names ?n fn) = ?n" by (simp add: resize_names_def)
    with write_loop_shape [OF w] s1 have "length (frows x2) = length fn2 \<and> fwidth x2 \<le> fmaxwidth x2 \<and>
        list_all (\<lambda>r. length r = fwidth x2) (frows x2)"
      by auto
    then show ?thesis using h by (simp add: wf_table_def)
  qed
qed

theorem dump_to_h5_wf_witness:
  "wf_table demo_table \<and> wf_table (snd (dump_to_h5 2 [''r/a/2.jpg''] [[3]] demo_table))"
proof -
  have wf: "wf_table demo_table" by (simp add: demo_table_def wf_table_def)
  obtain err hf' where d: "dump_to_h5 2 [''r/a/2.jpg''] [[3]] demo_table = (err, hf')"
    by fastforce
  show ?thesis using dump_to_h5_wf [OF wf d] wf d by simp
qed

text \<open>
  C17 (error): when the \<open>i\<close>-th new vector cannot be broadcast to the dataset's width,
  \<open>dump_to_h5\<close> raises h5py's TypeError after both datasets were grown: the file keeps
  the \<open>i\<close> vectors and names written before it and zero vectors with empty names for
  the rest of the batch.  The count check of the assertion is the only check made
  before the store changes.
\<close>

theorem dump_to_h5_partial:
  assumes "wf_table hf" and "vecs hf = Some x" and "names hf = Some fn" and "fwidth x = dim"
    and "length scores = length nms" and "i < length scores"
    and "\<forall>j < i. length (scores ! j) = dim"
    and "length (scores ! i) \<noteq> dim" and "length (scores ! i) \<noteq> 1"
  shows "dump_to_h5 dim nms scores hf =
           (Some TypeError,
            hf\<lparr>vecs := Some (x\<lparr>frows := frows x @ take i scores @ replicate (length scores - i) (replicate dim 0)\<rparr>),
               names := Some (fn @ take i nms @ replicate (length nms - i) '''')\<rparr>)"
proof -
  have wf: "length (frows x) = length fn" "fwidth x \<le> fmaxwidth x"
    "list_all (\<lambda>r. length r = fwidth x) (frows x)"
    using assms(1-3) by (simp_all add: wf_table_def)
  let ?n = "length (frows x) + length nms"
  let ?x1 = "x\<lparr>frows := frows x @ replicate (length nms) (replicate dim 0)\<rparr>"
  have r: "resize_vecs ?n dim x = Inr ?x1"
    using resize_vecs_same_width [OF wf(3,2), of ?n] assms(4) by simp
  have rn: "resize_names ?n fn = fn @ replicate (length nms) ''''"
    using wf(1) by (simp add: resize_names_grow)
  have b: "broadcast_row (fwidth ?x1) (scores ! i) = None"
    using assms(4,8,9) by (simp add: broadcast_row_None_iff)
  have "write_loop (length (frows x)) nms scores ?x1 (fn @ replicate (length nms) '''') =
          (Some TypeError, ?x1\<lparr>frows := frows x @ take i scores @ replicate (length nms - i) (replicate dim 0)\<rparr>,
           fn @ take i nms @ replicate (length nms - i) '''')"
    using write_loop_fail [of nms scores "length (frows x)" ?x1 "fn @ replicate (length nms) ''''" i]
      assms(4-7) wf(1) b by simp
  then show ?thesis using assms(2-5) r rn by (simp add: dump_to_h5_def)
qed

theorem dump_to_h5_partial_witness:
  "dump_to_h5 2 [''r/a/2.jpg'', ''r/b/3.jpg''] [[3, 4], [5, 6, 7]] demo_table =
     (Some TypeError, \<lparr>vecs = Some \<lparr>frows = [[1, 2], [3, 4], [0, 0]], fwidth = 2, fmaxwidth = 2\<rparr>,
             names = Some [''r/a/1.jpg'', ''r/a/2.jpg'', '''']\<rparr>)"
  using dump_to_h5_partial [of demo_table "\<lparr>frows = [[1, 2]], fwidth = 2, fmaxwidth = 2\<rparr>"
      "[''r/a/1.jpg'']" 2 "[[3, 4], [5, 6, 7]]" "[''r/a/2.jpg'', ''r/b/3.jpg'']" 1]
  by (simp add: demo_table_def wf_table_def numeral_2_eq_2)

end
