(* ===== verification/Generator.thy ===== *)
theory Generator
  imports ClassIndex Sampler FeatureStore
begin

text \<open>
  The training-batch generator \<open>data_generator\<close> (lines 70-125 of
  \<open>extract_features_and_dump.py\<close>).  Its setup reads the stored file names, the
  pickled class ranges, the feature dataset, the embedding dataset and the word names,
  and builds the word-to-row mapping (\<open>data_generator_setup\<close>, \<open>word_mapping_of\<close>).
  One step for anchor row \<open>i\<close> (\<open>gen_step\<close>) allocates \<open>X\<close> and \<open>y\<close> with the
  literal widths 4096 and 50, fills row 0 with the anchor's feature and the embedding
  of its class (\<open>anchor_rows\<close>), looks up the class range, draws the negatives with the
  sampler and fills the remaining rows with their features and the embeddings of their
  own classes (\<open>negative_rows\<close>).  The loop \<open>while 1: for i in range(N)\<close> is
  \<open>gen_advance\<close>, a \<open>partial_function (option)\<close> because it never returns when
  \<open>N = 0\<close>; the generator object seen by the trainer is the state machine
  \<open>gen_next\<close> over \<open>Created | Suspended i | Closed\<close>: an exception closes it and every
  later pull gets StopIteration.
\<close>

section \<open>Environment and setup\<close>

definition X_COLS :: nat where "X_COLS = 4096"
definition Y_COLS :: nat where "Y_COLS = 50"

record 'a gen_env =
  image_fnames :: "string list"
  ranges :: class_ranges
  vgg_feats :: "'a fdataset"
  embeddings :: "'a fdataset"
  word_mapping :: "string \<rightharpoonup> nat"
  batch_size :: int

text \<open>\<open>{l[0]: i for i, l in enumerate(word_names)}\<close>: a repeated word keeps its last row.\<close>

definition word_mapping_of :: "string list \<Rightarrow> string \<rightharpoonup> nat" where
  "word_mapping_of word_names = map_of (rev (zip word_names [0..<length word_names]))"

definition data_generator_setup ::
  "int \<Rightarrow> 'a h5table \<Rightarrow> class_ranges \<Rightarrow> 'a h5table \<Rightarrow> py_error + 'a gen_env" where
  "data_generator_setup bs training cr words =
     (case names training of None \<Rightarrow> Inl KeyError | Some fnames \<Rightarrow>
      case vecs training of None \<Rightarrow> Inl KeyError | Some feats \<Rightarrow>
      case vecs words of None \<Rightarrow> Inl KeyError | Some emb \<Rightarrow>
      case names words of None \<Rightarrow> Inl KeyError | Some wn \<Rightarrow>
        Inr \<lparr>image_fnames = fnames, ranges = cr, vgg_feats = feats, embeddings = emb,
             word_mapping = word_mapping_of wn, batch_size = bs\<rparr>)"

section \<open>One step of the loop body\<close>

text \<open>\<open>X[r] = v\<close> on a NumPy array with \<open>rows\<close> rows of width \<open>w\<close>.\<close>

definition np_setrow :: "nat \<Rightarrow> nat \<Rightarrow> nat \<Rightarrow> 'a list \<Rightarrow> py_error + 'a list" where
  "np_setrow rows w r v =
     (if rows \<le> r then Inl IndexError
      else case broadcast_row w v of None \<Rightarrow> Inl ValueError | Some v' \<Rightarrow> Inr v')"

text \<open>\<open>X[1:] = A\<close> for an array \<open>A\<close> with rows of width \<open>d\<close>: equal widths, or \<open>d = 1\<close> broadcast.\<close>

definition np_setblock :: "nat \<Rightarrow> nat \<Rightarrow> 'a list list \<Rightarrow> py_error + 'a list list" where
  "np_setblock w d rows =
     (if d = w then Inr rows
      else if d = 1 then Inr (map (\<lambda>r. replicate w (hd r)) rows)
      else Inl ValueError)"

text \<open>\<open>image_fnames[a].split("/")[-2]\<close>.\<close>

definition label_of :: "'a gen_env \<Rightarrow> nat \<Rightarrow> py_error + string" where
  "label_of env a = bind_py (py_index (image_fnames env) (int a)) class_name"

text \<open>\<open>embeddings[word_mapping[w]]\<close>.\<close>

definition embedding_of :: "'a gen_env \<Rightarrow> string \<Rightarrow> py_error + 'a list" where
  "embedding_of env w =
     (case word_mapping env w of None \<Rightarrow> Inl KeyError | Some k \<Rightarrow> read_row (embeddings env) k)"

text \<open>Lines 101-102: the genuine pair in row 0.\<close>

definition anchor_rows :: "'a gen_env \<Rightarrow> nat \<Rightarrow> py_error + 'a list \<times> 'a list" where
  "anchor_rows env i =
     (let n = nat (batch_size env + 1) in
      bind_py (read_row (vgg_feats env) i) (\<lambda>f.
      bind_py (np_setrow n X_COLS 0 f) (\<lambda>x0.
      bind_py (label_of env i) (\<lambda>c.
      bind_py (embedding_of env c) (\<lambda>e.
      bind_py (np_setrow n Y_COLS 0 e) (\<lambda>y0. Inr (x0, y0)))))))"

text \<open>Lines 105-106: the anchor's class and its stored range (\<open>class_ranges[class_of_first]\<close>).\<close>

definition anchor_range :: "'a gen_env \<Rightarrow> nat \<Rightarrow> py_error + nat \<times> nat" where
  "anchor_range env i =
     bind_py (label_of env i) (\<lambda>c. case ranges env c of None \<Rightarrow> Inl KeyError | Some r \<Rightarrow> Inr r)"

text \<open>
  Lines 112-118: features of the drawn rows, the labels of those rows, their
  embeddings, \<open>np.concatenate\<close> (ValueError on an empty list) and the block writes.
\<close>

definition negative_rows :: "'a gen_env \<Rightarrow> nat list \<Rightarrow> py_error + 'a list list \<times> 'a list list" where
  "negative_rows env sel =
     bind_py (read_rows (vgg_feats env) sel) (\<lambda>fs.
     bind_py (np_setblock X_COLS (fwidth (vgg_feats env)) fs) (\<lambda>xs.
     bind_py (map_py (label_of env) sel) (\<lambda>ws.
     bind_py (map_py (embedding_of env) ws) (\<lambda>es.
       if es = [] then Inl ValueError
       else bind_py (np_setblock Y_COLS (fwidth (embeddings env)) es) (\<lambda>ys. Inr (xs, ys))))))"

type_synonym 'a batch = "'a list list \<times> 'a list list"

definition gen_step :: "'a gen_env \<Rightarrow> nat \<Rightarrow> rng_state \<Rightarrow> (py_error + 'a batch) \<times> rng_state" where
  "gen_step env i g =
     (if batch_size env + 1 < 0 then (Inl ValueError, g)
      else case anchor_rows env i of
        Inl e \<Rightarrow> (Inl e, g)
      | Inr (x0, y0) \<Rightarrow>
          (case anchor_range env i of
             Inl e \<Rightarrow> (Inl e, g)
           | Inr (s, e) \<Rightarrow>
               (case sample_negatives s e (length (image_fnames env)) (nat (batch_size env)) g of
                  Inl err \<Rightarrow> (Inl err, g)
                | Inr (sel, g') \<Rightarrow>
                    (map_sum id (\<lambda>(xs, ys). (x0 # xs, y0 # ys)) (negative_rows env sel), g'))))"

section \<open>The infinite loop and the generator object\<close>

text \<open>
  \<open>gen_advance env i g\<close> runs the loop from the position where the \<open>for\<close> loop
  continues: index \<open>i\<close> if it is in range, otherwise a new pass of \<open>while 1\<close> from 0.
  It returns the outcome of the step, the anchor used and the generator state.
\<close>

partial_function (option) gen_advance ::
  "'a gen_env \<Rightarrow> nat \<Rightarrow> rng_state \<Rightarrow> ((py_error + 'a batch) \<times> nat \<times> rng_state) option" where
  "gen_advance env i g =
     (if i < length (image_fnames env)
      then Some (case gen_step env i g of (r, g') \<Rightarrow> (r, i, g'))
      else gen_advance env 0 g)"

datatype gen_state = Created | Suspended nat | Closed

datatype 'a gen_event = Yield "'a batch" | Raise py_error | StopIteration

definition gen_resume :: "'a gen_env \<Rightarrow> nat \<Rightarrow> rng_state \<Rightarrow> ('a gen_event \<times> gen_state \<times> rng_state) option" where
  "gen_resume env i g =
     map_option (\<lambda>(r, j, g'). case r of Inl e \<Rightarrow> (Raise e, Closed, g') | Inr b \<Rightarrow> (Yield b, Suspended j, g'))
       (gen_advance env i g)"

text \<open>\<open>next(gen)\<close>: the body starts at the first pull and resumes after the last \<open>yield\<close>.\<close>

fun gen_next :: "'a gen_env \<Rightarrow> gen_state \<Rightarrow> rng_state \<Rightarrow> ('a gen_event \<times> gen_state \<times> rng_state) option" where
  "gen_next env Created g = gen_resume env 0 g"
| "gen_next env (Suspended i) g = gen_resume env (Suc i) g"
| "gen_next env Closed g = Some (StopIteration, Closed, g)"

text \<open>\<open>n\<close> pulls by the trainer, as in \<open>fit_generator(..., steps_per_epoch=n)\<close>.\<close>

fun gen_run :: "'a gen_env \<Rightarrow> nat \<Rightarrow> gen_state \<Rightarrow> rng_state \<Rightarrow> ('a gen_event list \<times> gen_state \<times> rng_state) option" where
  "gen_run env 0 st g = Some ([], st, g)"
| "gen_run env (Suc n) st g =
     (case gen_next env st g of
        None \<Rightarrow> None
      | Some (ev, st', g') \<Rightarrow> map_option (\<lambda>(evs, st'', g''). (ev # evs, st'', g'')) (gen_run env n st' g'))"

section \<open>The loop: unfolding, divergence, cycling\<close>

lemma gen_advance_in:
  "i < length (image_fnames env) \<Longrightarrow>
     gen_advance env i g = Some (fst (gen_step env i g), i, snd (gen_step env i g))"
  by (subst gen_advance.simps) (simp split: prod.splits)

lemma gen_advance_wrap:
  "\<not> i < length (image_fnames env) \<Longrightarrow> gen_advance env i g = gen_advance env 0 g"
  by (subst gen_advance.simps) simp

lemma gen_advance_Some_nonempty:
  assumes "gen_advance env i g = Some r"
  shows "image_fnames env \<noteq> []"
proof (rule gen_advance.raw_induct [where P = "\<lambda>env i g r. image_fnames env \<noteq> []", OF _ assms])
  fix f :: "'a gen_env \<Rightarrow> nat \<Rightarrow> rng_state \<Rightarrow> ((py_error + 'a batch) \<times> nat \<times> rng_state) option"
    and env :: "'a gen_env" and i g r
  assume IH: "\<And>env i g r. f env i g = Some r \<Longrightarrow> image_fnames env \<noteq> []"
    and eq: "(if i < length (image_fnames env) then Some (case gen_step env i g of (r, g') \<Rightarrow> (r, i, g'))
              else f env 0 g) = Some r"
  show "image_fnames env \<noteq> []"
  proof (cases "i < length (image_fnames env)")
    case True
    then show ?thesis by auto
  next
    case False
    with eq have "f env 0 g = Some r" by simp
    then show ?thesis by (rule IH)
  qed
qed

lemma gen_advance_empty:
  assumes "image_fnames env = []"
  shows "gen_advance env i g = None"
proof (cases "gen_advance env i g")
  case (Some r)
  with gen_advance_Some_nonempty [OF Some] assms show ?thesis by simp
qed

lemma gen_advance_nonempty:
  "image_fnames env \<noteq> [] \<Longrightarrow>
     gen_advance env i g =
       (let j = (if i < length (image_fnames env) then i else 0)
        in Some (fst (gen_step env j g), j, snd (gen_step env j g)))"
  by (cases "i < length (image_fnames env)") (simp_all add: gen_advance_in gen_advance_wrap)

lemma gen_next_Closed_run: "gen_run env n Closed g = Some (replicate n StopIteration, Closed, g)"
  by (induction n) auto

text \<open>
  C12 (termination): on a non-empty store every pull of the generator returns, with a
  batch, an exception, or StopIteration once it is closed.
\<close>

theorem gen_next_returns:
  assumes "image_fnames env \<noteq> []"
  shows "\<exists>r. gen_next env st g = Some r"
  using assms by (cases st) (simp_all add: gen_resume_def gen_advance_nonempty Let_def split: sum.split)

definition demo_env :: "int gen_env" where
  "demo_env = \<lparr>image_fnames = [''r/a/1.jpg'', ''r/b/2.jpg''], ranges = [''a'' \<mapsto> (0, 0), ''b'' \<mapsto> (1, 1)],
     vgg_feats = \<lparr>frows = [replicate 4096 1, replicate 4096 2], fwidth = 4096, fmaxwidth = 4096\<rparr>,
     embeddings = \<lparr>frows = [replicate 50 3, replicate 50 4], fwidth = 50, fmaxwidth = 50\<rparr>,
     word_mapping = [''a'' \<mapsto> 0, ''b'' \<mapsto> 1], batch_size = 1\<rparr>"

theorem gen_next_returns_witness: "\<exists>r. gen_next demo_env Created zero_draws = Some r"
  by (rule gen_next_returns) (simp add: demo_env_def)

text \<open>
  C13 (termination): on an empty store the first pull never returns: \<open>while 1\<close> spins
  over the empty \<open>range(0)\<close> without reaching a \<open>yield\<close>.
\<close>

theorem gen_next_diverges:
  assumes "image_fnames env = []" and "st \<noteq> Closed"
  shows "gen_next env st g = None"
  using assms by (cases st) (simp_all add: gen_resume_def gen_advance_empty)

theorem gen_next_diverges_witness:
  "gen_next (demo_env\<lparr>image_fnames := []\<rparr>) Created zero_draws = None"
  by (rule gen_next_diverges) simp_all

lemma gen_next_not_Created: "gen_next env st g = Some (ev, st', g') \<Longrightarrow> st' \<noteq> Created"
  by (cases st) (auto simp: gen_resume_def sum.case_eq_if split: if_splits)

lemma gen_resume_Suspended:
  assumes "gen_resume env i g = Some (ev, Suspended a, g')"
  shows "a < length (image_fnames env) \<and> a = (if i < length (image_fnames env) then i else 0) \<and>
         (\<exists>b. ev = Yield b)"
proof -
  obtain r where adv: "gen_advance env i g = Some r"
    using assms by (cases "gen_advance env i g") (auto simp: gen_resume_def)
  then have ne: "image_fnames env \<noteq> []" by (rule gen_advance_Some_nonempty)
  then show ?thesis
    using assms by (auto simp: gen_resume_def gen_advance_nonempty Let_def split: sum.splits if_splits)
qed

lemma gen_run_from_Suspended:
  assumes "gen_run env n (Suspended a0) g = Some (evs, Suspended a, g')"
    and "a0 < length (image_fnames env)"
  shows "a = (a0 + n) mod length (image_fnames env) \<and> (\<forall>ev \<in> set evs. \<exists>b. ev = Yield b)"
  using assms
proof (induction n arbitrary: a0 g evs)
  case 0
  then show ?case by simp
next
  case (Suc n)
  let ?N = "length (image_fnames env)"
  obtain ev st1 g1 where nx: "gen_next env (Suspended a0) g = Some (ev, st1, g1)"
    using Suc.prems(1) by (cases "gen_next env (Suspended a0) g") auto
  obtain evs' where run: "gen_run env n st1 g1 = Some (evs', Suspended a, g')" and evs: "evs = ev # evs'"
    using Suc.prems(1) nx by (auto split: option.splits)
  have "st1 \<noteq> Closed"
    using run gen_next_Closed_run [of env n g1] by (cases "st1 = Closed") auto
  moreover have "st1 \<noteq> Created" using nx by (rule gen_next_not_Created)
  ultimately obtain a1 where st1: "st1 = Suspended a1" by (cases st1) auto
  have r: "gen_resume env (Suc a0) g = Some (ev, Suspended a1, g1)" using nx st1 by simp
  from gen_resume_Suspended [OF r]
  have a1: "a1 < ?N" "a1 = Suc a0 mod ?N" and y: "\<exists>b. ev = Yield b"
    using Suc.prems(2) by (auto simp: mod_if)
  from Suc.IH [of a1 g1 evs'] run st1 a1(1)
  have "a = (a1 + n) mod ?N" and "\<forall>ev \<in> set evs'. \<exists>b. ev = Yield b" by auto
  then show ?case using a1(2) y evs by (simp add: mod_add_left_eq)
qed

text \<open>
  C9 (invariant): after \<open>n + 1\<close> pulls that leave the generator suspended, every pull
  yielded a batch and the last anchor is \<open>n mod N\<close>: the anchors run through the rows
  cyclically, returning to row 0 after every \<open>N\<close> batches.
\<close>

theorem gen_run_cycles:
  assumes "gen_run env (Suc n) Created g = Some (evs, Suspended a, g')"
  shows "a = n mod length (image_fnames env) \<and> (\<forall>ev \<in> set evs. \<exists>b. ev = Yield b)"
proof -
  let ?N = "length (image_fnames env)"
  obtain ev st1 g1 where nx: "gen_next env Created g = Some (ev, st1, g1)"
    using assms by (cases "gen_next env Created g") auto
  obtain evs' where run: "gen_run env n st1 g1 = Some (evs', Suspended a, g')" and evs: "evs = ev # evs'"
    using assms nx by (auto split: option.splits)
  have "st1 \<noteq> Closed"
    using run gen_next_Closed_run [of env n g1] by (cases "st1 = Closed") auto
  moreover have "st1 \<noteq> Created" using nx by (rule gen_next_not_Created)
  ultimately obtain a1 where st1: "st1 = Suspended a1" by (cases st1) auto
  have "gen_resume env 0 g = Some (ev, Suspended a1, g1)" using nx st1 by simp
  from gen_resume_Suspended [OF this]
  have a1: "a1 < ?N" "a1 = 0" and y: "\<exists>b. ev = Yield b" by (auto split: if_splits)
  from gen_run_from_Suspended [of env n a1 g1 evs' a g'] run st1 a1
  show ?thesis using y evs by auto
qed

lemmas gen_eval = gen_step_def anchor_rows_def anchor_range_def negative_rows_def label_of_def
  embedding_of_def np_setrow_def np_setblock_def read_row_def read_rows_def X_COLS_def Y_COLS_def
  class_index_eval sampler_eval py_index_def broadcast_row_def

theorem gen_run_cycles_witness:
  "\<exists>evs g'. gen_run demo_env 3 Created zero_draws = Some (evs, Suspended 0, g') \<and>
     (0::nat) = 2 mod length (image_fnames demo_env) \<and> (\<forall>ev \<in> set evs. \<exists>b. ev = Yield b)"
proof -
  have s0: "gen_step demo_env 0 g = (Inr ([replicate 4096 1, replicate 4096 2], [replicate 50 3, replicate 50 4]), g)"
    for g by (simp add: gen_eval demo_env_def)
  have s1: "gen_step demo_env (Suc 0) g = (Inr ([replicate 4096 2, replicate 4096 1], [replicate 50 4, replicate 50 3]), g)"
    for g by (simp add: gen_eval demo_env_def)
  have n: "length (image_fnames demo_env) = 2" by (simp add: demo_env_def)
  obtain evs g' where run: "gen_run demo_env 3 Created zero_draws = Some (evs, Suspended 0, g')"
    by (simp add: numeral_3_eq_3 gen_resume_def gen_advance_in gen_advance_wrap n s0 s1)
  show ?thesis using gen_run_cycles [of demo_env 2 zero_draws evs 0 g'] run n by auto
qed

section \<open>The batches\<close>

lemma gen_step_Inr:
  assumes "gen_step env i g = (Inr b, g')"
  obtains x0 y0 s e sel xs ys where "0 \<le> batch_size env + 1" and "anchor_rows env i = Inr (x0, y0)"
    and "anchor_range env i = Inr (s, e)"
    and "sample_negatives s e (length (image_fnames env)) (nat (batch_size env)) g = Inr (sel, g')"
    and "negative_rows env sel = Inr (xs, ys)" and "b = (x0 # xs, y0 # ys)"
proof -
  have bs: "0 \<le> batch_size env + 1" using assms by (auto simp: gen_step_def split: if_splits)
  obtain x0 y0 where a: "anchor_rows env i = Inr (x0, y0)"
    using assms bs by (cases "anchor_rows env i") (auto simp: gen_step_def)
  obtain s e where r: "anchor_range env i = Inr (s, e)"
    using assms bs a by (cases "anchor_range env i") (auto simp: gen_step_def)
  obtain sel g1 where sm: "sample_negatives s e (length (image_fnames env)) (nat (batch_size env)) g = Inr (sel, g1)"
    using assms bs a r
    by (cases "sample_negatives s e (length (image_fnames env)) (nat (batch_size env)) g") (auto simp: gen_step_def)
  obtain xs ys where n: "negative_rows env sel = Inr (xs, ys)" and bg: "b = (x0 # xs, y0 # ys)" and g1: "g1 = g'"
    using assms bs a r sm by (cases "negative_rows env sel") (auto simp: gen_step_def)
  show ?thesis using that bs a r sm n bg g1 by blast
qed

lemma data_generator_setup_Inr:
  "data_generator_setup bs training cr words = Inr env \<Longrightarrow>
     names training = Some (image_fnames env) \<and> ranges env = cr \<and> batch_size env = bs"
  by (auto simp: data_generator_setup_def split: option.splits)

lemma label_of_Inr:
  "label_of env j = Inr c \<Longrightarrow> j < length (image_fnames env) \<and> class_name (image_fnames env ! j) = Inr c"
  by (simp add: label_of_def py_index_nat split: if_splits)

lemma label_of_labels:
  "map_py class_name (image_fnames env) = Inr ls \<Longrightarrow> j < length ls \<Longrightarrow> label_of env j = Inr (ls ! j)"
  by (auto simp: label_of_def py_index_nat map_py_Inr_iff)

lemma anchor_range_Inr:
  "anchor_range env i = Inr (s, e) \<Longrightarrow> \<exists>c. label_of env i = Inr c \<and> ranges env c = Some (s, e)"
  by (cases "label_of env i") (auto simp: anchor_range_def split: option.splits)

lemma gen_step_negatives_labels:
  assumes ls: "map_py class_name (image_fnames env) = Inr ls" and rs: "ranges env = ranges_spec ls"
    and st: "gen_step env i g = (Inr b, g')"
  shows "i < length ls \<and> (\<exists>sel. length sel = nat (batch_size env) \<and> sorted_wrt (<) sel \<and>
           (\<forall>j \<in> set sel. j < length ls \<and> ls ! j \<noteq> ls ! i) \<and>
           negative_rows env sel = Inr (tl (fst b), tl (snd b)))"
proof -
  let ?N = "length (image_fnames env)"
  obtain x0 y0 s e sel xs ys where r: "anchor_range env i = Inr (s, e)"
    and sm: "sample_negatives s e ?N (nat (batch_size env)) g = Inr (sel, g')"
    and n: "negative_rows env sel = Inr (xs, ys)" and bg: "b = (x0 # xs, y0 # ys)"
    using gen_step_Inr [OF st] by metis
  have len: "length ls = ?N" using ls by (simp add: map_py_Inr_iff)
  obtain c where c: "label_of env i = Inr c" and rc: "ranges env c = Some (s, e)"
    using anchor_range_Inr [OF r] by blast
  have i: "i < ?N" and lsi: "ls ! i = c"
    using label_of_Inr [OF c] label_of_labels [OF ls, of i] len c by auto
  have h: "s \<le> e \<and> e < length ls \<and> (\<forall>j < length ls. ls ! j = c \<longrightarrow> s \<le> j \<and> j \<le> e)"
    using ranges_spec_hull [of ls c s e] rc rs by simp
  have sc: "length sel = nat (batch_size env) \<and> sorted_wrt (<) sel \<and> (\<forall>x \<in> set sel. x < ?N \<and> (x < s \<or> e < x))"
    using sample_negatives_Inr [OF sm] h len by (auto simp: set_population)
  have "j < length ls \<and> ls ! j \<noteq> ls ! i" if "j \<in> set sel" for j
    using sc h len lsi that by fastforce
  then show ?thesis using i len sc n bg by auto
qed

text \<open>
  C2 (safety): when the pickled ranges are those of the stored file names, every batch
  the generator yields has \<open>batch_size\<close> negatives, in increasing row order, each a row
  of the data set other than the anchor and of a class other than the anchor's class;
  the rows after row 0 are the negatives' features and embeddings.  This holds whether
  or not the classes are contiguous, because a stored range covers all rows of its class.
\<close>

theorem gen_step_negatives_other_class:
  assumes "get_class_ranges (image_fnames env) = Inr (ranges env)"
    and "gen_step env i g = (Inr b, g')"
  shows "\<exists>c sel. label_of env i = Inr c \<and> length sel = nat (batch_size env) \<and> sorted_wrt (<) sel \<and>
           (\<forall>j \<in> set sel. j < length (image_fnames env) \<and> j \<noteq> i \<and>
              (\<exists>c'. label_of env j = Inr c' \<and> c' \<noteq> c)) \<and>
           negative_rows env sel = Inr (tl (fst b), tl (snd b))"
proof -
  obtain ls where ls: "map_py class_name (image_fnames env) = Inr ls" and rs: "ranges env = ranges_spec ls"
    using assms(1) by (auto simp: get_class_ranges_Inr_iff)
  have len: "length ls = length (image_fnames env)" using ls by (simp add: map_py_Inr_iff)
  obtain sel where i: "i < length ls" and sel: "length sel = nat (batch_size env) \<and> sorted_wrt (<) sel \<and>
      (\<forall>j \<in> set sel. j < length ls \<and> ls ! j \<noteq> ls ! i) \<and> negative_rows env sel = Inr (tl (fst b), tl (snd b))"
    using gen_step_negatives_labels [OF ls rs assms(2)] by blast
  have "\<forall>j \<in> set sel. j < length (image_fnames env) \<and> j \<noteq> i \<and>
          (\<exists>c'. label_of env j = Inr c' \<and> c' \<noteq> ls ! i)"
    using sel len label_of_labels [OF ls] by fastforce
  then show ?thesis using sel label_of_labels [OF ls i] by blast
qed

definition demo_cross_env :: "int gen_env" where
  "demo_cross_env = demo_env\<lparr>vgg_feats := \<lparr>frows = [[1], [2]], fwidth = 1, fmaxwidth = 1\<rparr>,
     embeddings := \<lparr>frows = [[3], [4]], fwidth = 1, fmaxwidth = 1\<rparr>\<rparr>"

theorem gen_step_negatives_other_class_witness:
  "get_class_ranges (image_fnames demo_cross_env) = Inr (ranges demo_cross_env) \<and>
   gen_step demo_cross_env 0 zero_draws =
     (Inr ([replicate 4096 1, replicate 4096 2], [replicate 50 3, replicate 50 4]), zero_draws) \<and>
   label_of demo_cross_env 1 \<noteq> label_of demo_cross_env 0"
proof -
  have r: "get_class_ranges (image_fnames demo_cross_env) = Inr (ranges demo_cross_env)"
    by (simp add: demo_cross_env_def demo_env_def class_index_eval)
  have s: "gen_step demo_cross_env 0 zero_draws =
     (Inr ([replicate 4096 1, replicate 4096 2], [replicate 50 3, replicate 50 4]), zero_draws)"
    by (simp add: gen_eval demo_cross_env_def demo_env_def zero_draws_def)
  from gen_step_negatives_other_class [OF r s] r s
  show ?thesis by (auto simp: demo_cross_env_def demo_env_def gen_eval)
qed

text \<open>The stores have the widths the generator's arrays were allocated with.\<close>

definition wf_env :: "'a gen_env \<Rightarrow> bool" where
  "wf_env env =
     (fwidth (vgg_feats env) = X_COLS \<and> list_all (\<lambda>r. length r = X_COLS) (frows (vgg_feats env)) \<and>
      fwidth (embeddings env) = Y_COLS \<and> list_all (\<lambda>r. length r = Y_COLS) (frows (embeddings env)))"

lemma sample_negatives_length: "sample_negatives s e n k g = Inr (sel, g') \<Longrightarrow> length sel = k"
  by (auto simp: sample_negatives_def dest!: np_choice_noreplace_Inr)

lemma read_row_Inr: "read_row ds i = Inr r \<Longrightarrow> i < length (frows ds) \<and> r = frows ds ! i"
  by (simp add: read_row_def split: if_splits)

lemma embedding_of_Inr:
  "embedding_of env w = Inr e \<Longrightarrow>
     \<exists>k. word_mapping env w = Some k \<and> k < length (frows (embeddings env)) \<and> e = frows (embeddings env) ! k"
  by (auto simp: embedding_of_def dest: read_row_Inr split: option.splits)

lemma np_setrow_exact: "np_setrow n w 0 v = Inr x \<Longrightarrow> length v = w \<Longrightarrow> x = v"
  by (simp add: np_setrow_def split: if_splits)

lemma anchor_rows_wf:
  assumes "wf_env env" and "anchor_rows env i = Inr (x0, y0)"
  shows "x0 = frows (vgg_feats env) ! i \<and> length x0 = X_COLS \<and> length y0 = Y_COLS \<and>
         (\<exists>c k. label_of env i = Inr c \<and> word_mapping env c = Some k \<and> y0 = frows (embeddings env) ! k)"
proof -
  let ?n = "nat (batch_size env + 1)"
  obtain f where f: "read_row (vgg_feats env) i = Inr f" and x: "np_setrow ?n X_COLS 0 f = Inr x0"
    and rest: "bind_py (label_of env i) (\<lambda>c. bind_py (embedding_of env c) (\<lambda>e.
                 bind_py (np_setrow ?n Y_COLS 0 e) (\<lambda>y0. Inr (x0, y0)))) = Inr (x0, y0)"
    using assms(2) by (auto simp: anchor_rows_def Let_def)
  obtain c e where c: "label_of env i = Inr c" and e: "embedding_of env c = Inr e"
    and y: "np_setrow ?n Y_COLS 0 e = Inr y0"
    using rest by auto
  have fi: "i < length (frows (vgg_feats env))" "f = frows (vgg_feats env) ! i" using read_row_Inr [OF f] by auto
  have "length f = X_COLS" using assms(1) fi by (simp add: wf_env_def list_all_iff)
  then have x0: "x0 = f" using np_setrow_exact [OF x] by simp
  obtain k where k: "word_mapping env c = Some k" "k < length (frows (embeddings env))"
    "e = frows (embeddings env) ! k" using embedding_of_Inr [OF e] by blast
  have "length e = Y_COLS" using assms(1) k by (simp add: wf_env_def list_all_iff)
  then have y0: "y0 = e" using np_setrow_exact [OF y] by simp
  show ?thesis using x0 y0 fi k c \<open>length f = X_COLS\<close> \<open>length e = Y_COLS\<close> by auto
qed

lemma map_py_embedding_of:
  assumes "list_all (\<lambda>r. length r = Y_COLS) (frows (embeddings env))" and "map_py (embedding_of env) ws = Inr es"
  shows "length es = length ws \<and> list_all (\<lambda>r. length r = Y_COLS) es \<and>
         (\<forall>t < length ws. \<exists>k. word_mapping env (ws ! t) = Some k \<and> es ! t = frows (embeddings env) ! k)"
proof -
  have le: "length es = length ws" "\<forall>t < length ws. embedding_of env (ws ! t) = Inr (es ! t)"
    using assms(2) by (simp_all add: map_py_Inr_iff)
  have "\<forall>t < length ws. \<exists>k. word_mapping env (ws ! t) = Some k \<and> k < length (frows (embeddings env)) \<and>
          es ! t = frows (embeddings env) ! k"
    using le(2) embedding_of_Inr by blast
  then show ?thesis using assms(1) le(1) by (auto simp: list_all_length)
qed

lemma negative_rows_wf:
  assumes "wf_env env" and "negative_rows env sel = Inr (xs, ys)"
  shows "xs = map (\<lambda>j. frows (vgg_feats env) ! j) sel \<and> length ys = length sel \<and>
         list_all (\<lambda>r. length r = X_COLS) xs \<and> list_all (\<lambda>r. length r = Y_COLS) ys \<and>
         (\<forall>t < length sel. \<exists>c k. label_of env (sel ! t) = Inr c \<and> word_mapping env c = Some k \<and>
                               ys ! t = frows (embeddings env) ! k)"
proof -
  have wx: "fwidth (vgg_feats env) = X_COLS" and wy: "fwidth (embeddings env) = Y_COLS"
    and rx: "list_all (\<lambda>r. length r = X_COLS) (frows (vgg_feats env))"
    and ry: "list_all (\<lambda>r. length r = Y_COLS) (frows (embeddings env))"
    using assms(1) by (simp_all add: wf_env_def)
  obtain fs ws es where fs: "read_rows (vgg_feats env) sel = Inr fs"
    and xs: "np_setblock X_COLS (fwidth (vgg_feats env)) fs = Inr xs"
    and ws: "map_py (label_of env) sel = Inr ws" and es: "map_py (embedding_of env) ws = Inr es"
    and ys: "np_setblock Y_COLS (fwidth (embeddings env)) es = Inr ys"
    using assms(2) by (auto simp: negative_rows_def split: if_splits)
  have bnd: "list_all (\<lambda>j. j < length (frows (vgg_feats env))) sel"
    and fs': "fs = map (\<lambda>j. frows (vgg_feats env) ! j) sel"
    using fs by (simp_all add: read_rows_def split: if_splits)
  have xs': "xs = fs" using xs wx by (simp add: np_setblock_def)
  have ys': "ys = es" using ys wy by (simp add: np_setblock_def)
  have lw: "length ws = length sel" "\<forall>t < length sel. label_of env (sel ! t) = Inr (ws ! t)"
    using ws by (simp_all add: map_py_Inr_iff)
  have e: "length es = length ws" "list_all (\<lambda>r. length r = Y_COLS) es"
    "\<forall>t < length ws. \<exists>k. word_mapping env (ws ! t) = Some k \<and> es ! t = frows (embeddings env) ! k"
    using map_py_embedding_of [OF ry es] by simp_all
  have wxs: "list_all (\<lambda>r. length r = X_COLS) xs"
    using bnd rx xs' fs' by (auto simp: list_all_iff)
  show ?thesis using xs' fs' ys' e lw wxs by auto
qed

text \<open>
  C3 (functional): on stores of the allocated widths, a yielded batch has
  \<open>1 + batch_size\<close> rows of width 4096 in \<open>X\<close> and of width 50 in \<open>y\<close>; row 0 holds the
  anchor's feature, the other rows the features of the drawn rows in increasing order,
  and every row of \<open>y\<close> is the embedding of the class of the matching row of \<open>X\<close> (for
  row 0 the anchor's class, for the others each negative's own class).
\<close>

theorem gen_step_batch_content:
  assumes "wf_env env" and "gen_step env i g = (Inr (X, Y), g')"
  shows "\<exists>sel. length sel = nat (batch_size env) \<and>
           X = map (\<lambda>j. frows (vgg_feats env) ! j) (i # sel) \<and> length Y = length X \<and>
           list_all (\<lambda>r. length r = X_COLS) X \<and> list_all (\<lambda>r. length r = Y_COLS) Y \<and>
           (\<forall>t < length Y. \<exists>c k. label_of env ((i # sel) ! t) = Inr c \<and> word_mapping env c = Some k \<and>
                                 Y ! t = frows (embeddings env) ! k)"
proof -
  obtain x0 y0 s e sel xs ys where a: "anchor_rows env i = Inr (x0, y0)"
    and sm: "sample_negatives s e (length (image_fnames env)) (nat (batch_size env)) g = Inr (sel, g')"
    and n: "negative_rows env sel = Inr (xs, ys)" and bg: "(X, Y) = (x0 # xs, y0 # ys)"
    using gen_step_Inr [OF assms(2)] by metis
  have A: "x0 = frows (vgg_feats env) ! i \<and> length x0 = X_COLS \<and> length y0 = Y_COLS \<and>
         (\<exists>c k. label_of env i = Inr c \<and> word_mapping env c = Some k \<and> y0 = frows (embeddings env) ! k)"
    using anchor_rows_wf [OF assms(1) a] .
  have B: "xs = map (\<lambda>j. frows (vgg_feats env) ! j) sel \<and> length ys = length sel \<and>
         list_all (\<lambda>r. length r = X_COLS) xs \<and> list_all (\<lambda>r. length r = Y_COLS) ys \<and>
         (\<forall>t < length sel. \<exists>c k. label_of env (sel ! t) = Inr c \<and> word_mapping env c = Some k \<and>
                               ys ! t = frows (embeddings env) ! k)"
    using negative_rows_wf [OF assms(1) n] .
  have rows: "\<forall>t < length Y. \<exists>c k. label_of env ((i # sel) ! t) = Inr c \<and> word_mapping env c = Some k \<and>
                                 Y ! t = frows (embeddings env) ! k"
  proof (intro allI impI)
    fix t assume t: "t < length Y"
    show "\<exists>c k. label_of env ((i # sel) ! t) = Inr c \<and> word_mapping env c = Some k \<and>
                Y ! t = frows (embeddings env) ! k"
    proof (cases t)
      case 0
      then show ?thesis using A bg by auto
    next
      case (Suc t')
      then show ?thesis using B bg t by auto
    qed
  qed
  show ?thesis using A B bg rows sample_negatives_length [OF sm] by auto
qed

theorem gen_step_batch_content_witness:
  "wf_env demo_env \<and>
   gen_step demo_env 0 zero_draws =
     (Inr ([replicate 4096 1, replicate 4096 2], [replicate 50 3, replicate 50 4]), zero_draws) \<and>
   [replicate 4096 1, replicate 4096 2] = map (\<lambda>j. frows (vgg_feats demo_env) ! j) [0, 1 :: nat]"
proof -
  have w: "wf_env demo_env" by (simp add: wf_env_def demo_env_def X_COLS_def Y_COLS_def)
  have s: "gen_step demo_env 0 zero_draws =
     (Inr ([replicate 4096 1, replicate 4096 2], [replicate 50 3, replicate 50 4]), zero_draws)"
    by (simp add: gen_eval demo_env_def zero_draws_def)
  from gen_step_batch_content [OF w s] w s
  show ?thesis by (simp add: demo_env_def)
qed

lemma negative_rows_Nil: "negative_rows env [] = Inl ValueError"
  by (simp add: negative_rows_def read_rows_def np_setblock_def)

text \<open>
  C18 (error): with \<open>batch_size = 0\<close> the generator never yields: a step that gets as far
  as the negatives calls \<open>np.concatenate\<close> on an empty list and raises ValueError.
\<close>

theorem gen_step_zero_batch:
  assumes "batch_size env = 0"
  shows "\<exists>e. fst (gen_step env i g) = Inl e"
proof (cases "fst (gen_step env i g)")
  case (Inr b)
  then have "gen_step env i g = (Inr b, snd (gen_step env i g))" by (metis prod.collapse)
  then obtain s e sel g' xs ys where
    sm: "sample_negatives s e (length (image_fnames env)) (nat (batch_size env)) g = Inr (sel, g')"
    and n: "negative_rows env sel = Inr (xs, ys)"
    by (rule gen_step_Inr) blast
  have "sel = []" using sample_negatives_length [OF sm] assms by simp
  with n show ?thesis by (simp add: negative_rows_Nil)
qed simp

theorem gen_step_zero_batch_witness:
  "batch_size (demo_env\<lparr>batch_size := 0\<rparr>) = 0 \<and>
   fst (gen_step (demo_env\<lparr>batch_size := 0\<rparr>) 0 zero_draws) = Inl ValueError"
proof -
  have b: "batch_size (demo_env\<lparr>batch_size := 0\<rparr>) = 0" by simp
  have "fst (gen_step (demo_env\<lparr>batch_size := 0\<rparr>) 0 zero_draws) = Inl ValueError"
    by (simp add: gen_eval demo_env_def zero_draws_def)
  with gen_step_zero_batch [OF b, of 0 zero_draws] show ?thesis by simp
qed

text \<open>
  On a well-formed environment with \<open>batch_size \<ge> 0\<close>, the genuine pair of an anchor
  row whose file has class \<open>c\<close> is its feature row and the embedding of \<open>c\<close>, or the
  error of that lookup.
\<close>

lemma anchor_rows_label:
  assumes "wf_env env" and "0 \<le> batch_size env" and "i < length (frows (vgg_feats env))"
    and "label_of env i = Inr c"
  shows "anchor_rows env i = map_sum id (\<lambda>e. (frows (vgg_feats env) ! i, e)) (embedding_of env c)"
proof (cases "embedding_of env c")
  case (Inl err)
  then show ?thesis using assms by (simp add: anchor_rows_def np_setrow_def read_row_def wf_env_def list_all_iff)
next
  case (Inr e)
  then have "length e = Y_COLS"
    using embedding_of_Inr [OF Inr] assms(1) by (auto simp: wf_env_def list_all_iff)
  then show ?thesis using assms Inr by (simp add: anchor_rows_def np_setrow_def read_row_def wf_env_def list_all_iff)
qed

text \<open>
  C19 (error): the missing-mapping errors of the specification.  When the anchor's
  class has no entry in the word mapping (\<open>word_mapping[...]\<close> on line 102), or has an
  embedding but no entry in the pickled class ranges (a stale ranges file, line 106),
  the step raises KeyError before any draw, so the random state is left unchanged.
\<close>

theorem gen_step_missing_mapping:
  assumes "wf_env env" and "0 \<le> batch_size env" and "i < length (frows (vgg_feats env))"
    and "label_of env i = Inr c"
  shows "(word_mapping env c = None \<longrightarrow> gen_step env i g = (Inl KeyError, g)) \<and>
         (word_mapping env c = Some k \<and> k < length (frows (embeddings env)) \<and> ranges env c = None \<longrightarrow>
            gen_step env i g = (Inl KeyError, g))"
  using anchor_rows_label [OF assms] assms(2,4)
  by (auto simp: gen_step_def embedding_of_def anchor_range_def read_row_def)

theorem gen_step_missing_mapping_witness:
  "gen_step \<lparr>image_fnames = [''r/a/1.jpg''], ranges = Map.empty,
       vgg_feats = \<lparr>frows = [replicate 4096 (1 :: int)], fwidth = 4096, fmaxwidth = 4096\<rparr>,
       embeddings = \<lparr>frows = [replicate 50 2], fwidth = 50, fmaxwidth = 50\<rparr>, word_mapping = Map.empty,
       batch_size = 1\<rparr>
     0 zero_draws = (Inl KeyError, zero_draws)"
  using gen_step_missing_mapping [of "\<lparr>image_fnames = [''r/a/1.jpg''], ranges = Map.empty,
       vgg_feats = \<lparr>frows = [replicate 4096 (1 :: int)], fwidth = 4096, fmaxwidth = 4096\<rparr>,
       embeddings = \<lparr>frows = [replicate 50 2], fwidth = 50, fmaxwidth = 50\<rparr>, word_mapping = Map.empty,
       batch_size = 1\<rparr>"
      0 "''a''" zero_draws 0]
  by (simp add: wf_env_def X_COLS_def Y_COLS_def label_of_def py_index_def class_index_eval)

text \<open>
  A store the generator can serve forever: the pickled ranges are those of the stored
  names, the widths are the allocated ones, every name has a feature row and a class
  with an embedding row, and the batch size is at least 1 and leaves enough rows
  outside every anchor's class range.
\<close>

definition ready_env :: "'a gen_env \<Rightarrow> bool" where
  "ready_env env =
     (image_fnames env \<noteq> [] \<and> get_class_ranges (image_fnames env) = Inr (ranges env) \<and> wf_env env \<and>
      length (image_fnames env) \<le> length (frows (vgg_feats env)) \<and> 1 \<le> batch_size env \<and>
      (\<forall>j < length (image_fnames env).
         (case label_of env j of
            Inl _ \<Rightarrow> False
          | Inr c \<Rightarrow> (case word_mapping env c of
                       None \<Rightarrow> False
                     | Some k \<Rightarrow> k < length (frows (embeddings env)))) \<and>
         (case anchor_range env j of
            Inl _ \<Rightarrow> False
          | Inr (s, e) \<Rightarrow> nat (batch_size env) \<le> s + (length (image_fnames env) - Suc e))))"

lemma ready_row:
  assumes "ready_env env" and "j < length (image_fnames env)"
  shows "(case label_of env j of
            Inl _ \<Rightarrow> False
          | Inr c \<Rightarrow> (case word_mapping env c of
                       None \<Rightarrow> False
                     | Some k \<Rightarrow> k < length (frows (embeddings env)))) \<and>
         (case anchor_range env j of
            Inl _ \<Rightarrow> False
          | Inr (s, e) \<Rightarrow> nat (batch_size env) \<le> s + (length (image_fnames env) - Suc e))"
proof -
  have "\<forall>j < length (image_fnames env).
         (case label_of env j of
            Inl _ \<Rightarrow> False
          | Inr c \<Rightarrow> (case word_mapping env c of
                       None \<Rightarrow> False
                     | Some k \<Rightarrow> k < length (frows (embeddings env)))) \<and>
         (case anchor_range env j of
            Inl _ \<Rightarrow> False
          | Inr (s, e) \<Rightarrow> nat (batch_size env) \<le> s + (length (image_fnames env) - Suc e))"
    using assms(1) unfolding ready_env_def by blast
  then show ?thesis using assms(2) by blast
qed

lemma ready_label:
  assumes "ready_env env" and "j < length (image_fnames env)"
  obtains c k where "label_of env j = Inr c" and "word_mapping env c = Some k"
    and "k < length (frows (embeddings env))"
proof -
  have "case label_of env j of
            Inl _ \<Rightarrow> False
          | Inr c \<Rightarrow> (case word_mapping env c of
                       None \<Rightarrow> False
                     | Some k \<Rightarrow> k < length (frows (embeddings env)))"
    using ready_row [OF assms] by blast
  then show ?thesis using that by (auto split: sum.splits option.splits)
qed

lemma ready_room:
  assumes "ready_env env" and "j < length (image_fnames env)"
  obtains s e where "anchor_range env j = Inr (s, e)"
    and "nat (batch_size env) \<le> s + (length (image_fnames env) - Suc e)"
proof -
  have "case anchor_range env j of
            Inl _ \<Rightarrow> False
          | Inr (s, e) \<Rightarrow> nat (batch_size env) \<le> s + (length (image_fnames env) - Suc e)"
    using ready_row [OF assms] by blast
  then show ?thesis using that by (auto split: sum.splits)
qed

lemma ready_embedding:
  assumes "ready_env env" and "j < length (image_fnames env)" and "label_of env j = Inr c"
  shows "embedding_of env c = Inr (frows (embeddings env) ! the (word_mapping env c))"
proof -
  obtain c' k where "label_of env j = Inr c'" "word_mapping env c' = Some k"
    "k < length (frows (embeddings env))" using ready_label [OF assms(1,2)] by blast
  then show ?thesis using assms(3) by (simp add: embedding_of_def read_row_def)
qed

lemma anchor_rows_ready:
  assumes "ready_env env" and "i < length (image_fnames env)"
  shows "\<exists>x0 y0. anchor_rows env i = Inr (x0, y0)"
proof -
  have w: "wf_env env" and len: "length (image_fnames env) \<le> length (frows (vgg_feats env))"
    and bs: "1 \<le> batch_size env" using assms(1) by (simp_all add: ready_env_def)
  obtain c k where c: "label_of env i = Inr c" and k: "word_mapping env c = Some k"
    and kl: "k < length (frows (embeddings env))" using ready_label [OF assms] by blast
  have il: "i < length (frows (vgg_feats env))" using assms(2) len by simp
  have fx: "length (frows (vgg_feats env) ! i) = X_COLS"
    using w il by (simp add: wf_env_def list_all_iff)
  have fy: "length (frows (embeddings env) ! k) = Y_COLS"
    using w kl by (simp add: wf_env_def list_all_iff)
  have n: "0 < nat (batch_size env + 1)" using bs by simp
  show ?thesis
    using il fx fy n c k kl
    by (simp add: anchor_rows_def read_row_def np_setrow_def embedding_of_def Let_def)
qed

lemma negative_rows_ready:
  assumes "ready_env env" and "sorted_wrt (<) sel" and "sel \<noteq> []"
    and "\<forall>j \<in> set sel. j < length (image_fnames env)"
  shows "\<exists>xs ys. negative_rows env sel = Inr (xs, ys)"
proof -
  have w: "wf_env env" and len: "length (image_fnames env) \<le> length (frows (vgg_feats env))"
    using assms(1) by (simp_all add: ready_env_def)
  have rr: "read_rows (vgg_feats env) sel = Inr (map (\<lambda>j. frows (vgg_feats env) ! j) sel)"
    using assms(2,4) len by (auto simp: read_rows_def list_all_iff)
  have sx: "np_setblock X_COLS (fwidth (vgg_feats env)) (map (\<lambda>j. frows (vgg_feats env) ! j) sel) =
            Inr (map (\<lambda>j. frows (vgg_feats env) ! j) sel)"
    using w by (simp add: np_setblock_def wf_env_def)
  obtain ws where ws: "map_py (label_of env) sel = Inr ws"
    using map_py_total [of sel "label_of env"] assms(1,4) ready_label by metis
  have lw: "length ws = length sel" "\<forall>t < length sel. label_of env (sel ! t) = Inr (ws ! t)"
    using ws by (simp_all add: map_py_Inr_iff)
  have "\<forall>c \<in> set ws. \<exists>e. embedding_of env c = Inr e"
  proof
    fix c assume "c \<in> set ws"
    then obtain t where t: "t < length sel" "c = ws ! t" using lw by (auto simp: in_set_conv_nth)
    then have "sel ! t < length (image_fnames env)" using assms(4) by simp
    then show "\<exists>e. embedding_of env c = Inr e"
      using ready_embedding [OF assms(1)] lw t by blast
  qed
  then obtain es where es: "map_py (embedding_of env) ws = Inr es" using map_py_total by blast
  have ne: "es \<noteq> []" using es lw assms(3) by (auto simp: map_py_Inr_iff)
  have sy: "np_setblock Y_COLS (fwidth (embeddings env)) es = Inr es"
    using w by (simp add: np_setblock_def wf_env_def)
  show ?thesis using rr sx ws es ne sy by (simp add: negative_rows_def)
qed

lemma gen_step_ready:
  assumes "ready_env env" and "i < length (image_fnames env)"
  shows "\<exists>b g'. gen_step env i g = (Inr b, g')"
proof -
  let ?N = "length (image_fnames env)"
  have bs: "1 \<le> batch_size env" and gr: "get_class_ranges (image_fnames env) = Inr (ranges env)"
    using assms(1) by (simp_all add: ready_env_def)
  obtain x0 y0 where a: "anchor_rows env i = Inr (x0, y0)" using anchor_rows_ready [OF assms] by blast
  obtain s e where r: "anchor_range env i = Inr (s, e)" and room: "nat (batch_size env) \<le> s + (?N - Suc e)"
    using ready_room [OF assms] by blast
  obtain ls where ls: "map_py class_name (image_fnames env) = Inr ls" and rs: "ranges env = ranges_spec ls"
    using gr by (auto simp: get_class_ranges_Inr_iff)
  obtain c where "ranges env c = Some (s, e)" using anchor_range_Inr [OF r] by blast
  then have h: "s \<le> e \<and> e < length ls" using ranges_spec_hull [of ls c s e] rs by simp
  have len: "length ls = ?N" using ls by (simp add: map_py_Inr_iff)
  obtain sel g' where sm: "sample_negatives s e ?N (nat (batch_size env)) g = Inr (sel, g')"
    using sample_negatives_room [OF room] by blast
  have sc: "length sel = nat (batch_size env) \<and> sorted_wrt (<) sel \<and> (\<forall>x \<in> set sel. x < ?N \<and> (x < s \<or> e < x))"
    using sample_negatives_Inr [OF sm] h len by (auto simp: set_population)
  then have "sel \<noteq> []" using bs by auto
  then obtain xs ys where n: "negative_rows env sel = Inr (xs, ys)"
    using negative_rows_ready [OF assms(1)] sc by blast
  show ?thesis using bs a r sm n by (simp add: gen_step_def)
qed

lemma gen_next_ready:
  assumes "ready_env env" and "st \<noteq> Closed"
  shows "\<exists>b a g'. gen_next env st g = Some (Yield b, Suspended a, g')"
proof -
  have ne: "image_fnames env \<noteq> []" using assms(1) by (simp add: ready_env_def)
  obtain i where adv: "gen_next env st g = gen_resume env i g" using assms(2) by (cases st) auto
  let ?j = "if i < length (image_fnames env) then i else 0"
  have "?j < length (image_fnames env)" using ne by simp
  then obtain b g' where s: "gen_step env ?j g = (Inr b, g')" using gen_step_ready [OF assms(1)] by blast
  show ?thesis using adv s ne by (simp add: gen_resume_def gen_advance_nonempty Let_def)
qed

text \<open>
  C11 (liveness): on a store the generator can serve (\<open>ready_env\<close>), every one of any
  number of pulls returns a batch and the generator stays suspended, never closed.
\<close>

theorem gen_run_ready:
  assumes "ready_env env" and "st \<noteq> Closed"
  shows "\<exists>evs st' g'. gen_run env n st g = Some (evs, st', g') \<and> length evs = n \<and>
           (\<forall>ev \<in> set evs. \<exists>b. ev = Yield b) \<and> st' \<noteq> Closed"
  using assms(2)
proof (induction n arbitrary: st g)
  case 0
  then show ?case by simp
next
  case (Suc n)
  obtain b a g1 where nx: "gen_next env st g = Some (Yield b, Suspended a, g1)"
    using gen_next_ready [OF assms(1) Suc.prems] by blast
  obtain evs st' g' where run: "gen_run env n (Suspended a) g1 = Some (evs, st', g')"
    and rest: "length evs = n" "\<forall>ev \<in> set evs. \<exists>b. ev = Yield b" "st' \<noteq> Closed"
    using Suc.IH [of "Suspended a" g1] by auto
  show ?case using nx run rest by auto
qed

lemma ready_demo_env: "ready_env demo_env"
  by (simp add: ready_env_def demo_env_def gen_eval wf_env_def numeral_2_eq_2 All_less_Suc)

theorem gen_run_ready_witness:
  "ready_env demo_env \<and> Created \<noteq> Closed \<and>
   (\<exists>evs st' g'. gen_run demo_env 5 Created zero_draws = Some (evs, st', g') \<and> length evs = 5 \<and>
      (\<forall>ev \<in> set evs. \<exists>b. ev = Yield b) \<and> st' \<noteq> Closed)"
  using gen_run_ready [OF ready_demo_env, of Created 5 zero_draws] ready_demo_env by simp

end
