(* ===== verification/Driver.thy ===== *)
theory Driver
  imports ClassIndex FeatureStore
begin

text \<open>
  The extraction driver of \<open>extract_features_and_dump.py\<close>: \<open>create_indices\<close>
  (lines 214-217) cuts the file list into chunks of \<open>VGG_BATCH\<close> files with two Python 2
  \<open>xrange\<close>s, and \<open>main\<close> (lines 246-298) creates the datasets when absent, loads and
  embeds each chunk and appends it with \<open>dump_to_h5\<close>, and finally rebuilds the class
  ranges over all stored names.  The image loader (\<open>load_img\<close> and \<open>img_to_array\<close>)
  and the network (\<open>preprocess_input\<close> and \<open>model.predict\<close>) are parameters; the
  directory walk is given as its result, the list of files in traversal order.  The
  outcome is the exception that ended the run, if any, the store left behind, and the
  ranges that were pickled (\<open>None\<close> when the run did not get that far).
\<close>

section \<open>Chunks\<close>

definition create_indices :: "int \<Rightarrow> int \<Rightarrow> py_error + (int \<times> int) list" where
  "create_indices total_length batch_size =
     (let bs = (if total_length \<le> batch_size then total_length - 1 else batch_size) in
      bind_py (py_xrange 0 total_length bs) (\<lambda>starts.
      bind_py (py_xrange bs (total_length + bs) bs) (\<lambda>ends. Inr (zip starts ends))))"

section \<open>The extraction loop\<close>

text \<open>
  Lines 274-293 for one chunk \<open>(i, j)\<close>: clip \<open>j\<close>, then for each \<open>k\<close> in
  \<open>range(i, j)\<close> record the name and load the image; embed the chunk and append it.
\<close>

definition process_chunk ::
  "(string \<Rightarrow> py_error + 'img) \<Rightarrow> ('img list \<Rightarrow> 'a::zero list list) \<Rightarrow> nat \<Rightarrow> string list \<Rightarrow>
   int \<times> int \<Rightarrow> 'a h5table \<Rightarrow> 'a h5table outcome" where
  "process_chunk load predict image_dim files ij hf =
     (case ij of (i, j) \<Rightarrow>
       (let j' = min j (int (length files)) in
        case map_py (\<lambda>k. bind_py (py_index files k) (\<lambda>f. bind_py (load f) (\<lambda>img. Inr (f, img))))
               (xrange_list i j' 1) of
          Inl e \<Rightarrow> (Some e, hf)
        | Inr loaded \<Rightarrow> dump_to_h5 image_dim (map fst loaded) (predict (map snd loaded)) hf))"

fun process_chunks ::
  "(string \<Rightarrow> py_error + 'img) \<Rightarrow> ('img list \<Rightarrow> 'a::zero list list) \<Rightarrow> nat \<Rightarrow> string list \<Rightarrow>
   (int \<times> int) list \<Rightarrow> 'a h5table \<Rightarrow> 'a h5table outcome" where
  "process_chunks load predict image_dim files [] hf = (None, hf)"
| "process_chunks load predict image_dim files (c # cs) hf =
     (case process_chunk load predict image_dim files c hf of
        (Some e, hf') \<Rightarrow> (Some e, hf')
      | (None, hf') \<Rightarrow> process_chunks load predict image_dim files cs hf')"

text \<open>
  Lines 256-298: the datasets are created when absent, the chunks are processed, and
  the class ranges of all stored names (also those of earlier runs) are computed and
  pickled.
\<close>

definition extract_and_dump ::
  "(string \<Rightarrow> py_error + 'img) \<Rightarrow> ('img list \<Rightarrow> 'a::zero list list) \<Rightarrow> nat \<Rightarrow> int \<Rightarrow> string list \<Rightarrow>
   'a h5table \<Rightarrow> py_error option \<times> 'a h5table \<times> class_ranges option" where
  "extract_and_dump load predict image_dim vgg_batch list_of_files hf =
     (let hf1 = create_or_get_names (create_or_get_vecs image_dim hf) in
      case create_indices (int (length list_of_files)) vgg_batch of
        Inl e \<Rightarrow> (Some e, hf1, None)
      | Inr chunks \<Rightarrow>
          (case process_chunks load predict image_dim list_of_files chunks hf1 of
             (Some e, hf2) \<Rightarrow> (Some e, hf2, None)
           | (None, hf2) \<Rightarrow>
               (case names hf2 of
                  None \<Rightarrow> (Some KeyError, hf2, None)
                | Some fnames \<Rightarrow>
                    (case get_class_ranges fnames of
                       Inl e \<Rightarrow> (Some e, hf2, None)
                     | Inr cr \<Rightarrow> (None, hf2, Some cr)))))"

section \<open>Lemmas on the chunks\<close>

lemma xrange_one_append:
  "a \<le> m \<Longrightarrow> m \<le> b \<Longrightarrow> xrange_list a m 1 @ xrange_list m b 1 = xrange_list a b 1"
proof (induction a m "1::int" rule: xrange_list.induct)
  case (1 a m)
  show ?case
  proof (cases "a < m")
    case True
    then have "xrange_list (a + 1) m 1 @ xrange_list m b 1 = xrange_list (a + 1) b 1"
      using "1" by simp
    then show ?thesis using True "1.prems" by (simp add: xrange_list_Cons_pos)
  next
    case False
    then show ?thesis using "1.prems" by (simp add: xrange_list_empty_pos)
  qed
qed

lemma chunks_cover:
  assumes "0 < s" and "a \<le> b"
  shows "concat (map (\<lambda>i. xrange_list i (min (i + s) b) 1) (xrange_list a b s)) = xrange_list a b 1"
  using assms
proof (induction a b s rule: xrange_list.induct)
  case (1 a b s)
  show ?case
  proof (cases "a < b")
    case True
    have step: "xrange_list a b s = a # xrange_list (a + s) b s"
      using True "1.prems"(1) by (simp add: xrange_list_Cons_pos)
    show ?thesis
    proof (cases "a + s \<le> b")
      case True
      then have "concat (map (\<lambda>i. xrange_list i (min (i + s) b) 1) (xrange_list (a + s) b s)) =
                 xrange_list (a + s) b 1"
        using "1.IH" \<open>a < b\<close> "1.prems"(1) by simp
      then show ?thesis
        using step True "1.prems"(1) xrange_one_append [of a "a + s" b] by simp
    next
      case False
      then have "xrange_list (a + s) b s = []" using "1.prems"(1) by (simp add: xrange_list_empty_pos)
      then show ?thesis using step False by simp
    qed
  next
    case False
    then show ?thesis using "1.prems" by (simp add: xrange_list_empty_pos)
  qed
qed

lemma create_indices_pos:
  assumes "0 < bs" and "bs = (if n \<le> b then n - 1 else b)"
  shows "create_indices n b = Inr (map (\<lambda>i. (i, i + bs)) (xrange_list 0 n bs))"
proof -
  have "xrange_list bs (n + bs) bs = map (\<lambda>x. x + bs) (xrange_list 0 n bs)"
    using xrange_list_shift [of 0 bs n bs] by simp
  then show ?thesis
    using assms by (simp add: create_indices_def py_xrange_def Let_def zip_map2 zip_same_conv_map
      o_def)
qed

lemma create_indices_starts:
  assumes "2 \<le> n" and "1 \<le> b"
  obtains bs where "0 < bs" and "create_indices (int n) b = Inr (map (\<lambda>i. (i, i + bs)) (xrange_list 0 (int n) bs))"
proof -
  let ?bs = "if int n \<le> b then int n - 1 else b"
  have "0 < ?bs" using assms by simp
  then show ?thesis using create_indices_pos [of ?bs "int n" b] that by simp
qed

lemma chunk_files_cover:
  assumes "0 < bs"
  shows "concat (map (\<lambda>(i, j). map (\<lambda>k. files ! nat k) (xrange_list i (min j (int (length files))) 1))
            (map (\<lambda>i. (i, i + bs)) (xrange_list 0 (int (length files)) bs))) = files"
proof -
  have "concat (map (\<lambda>i. xrange_list i (min (i + bs) (int (length files))) 1)
          (xrange_list 0 (int (length files)) bs)) = map int [0..<length files]"
    using chunks_cover [OF assms, of 0 "int (length files)"] xrange_list_one [of 0] by simp
  then have "map (\<lambda>k. files ! nat k) (concat (map (\<lambda>i. xrange_list i (min (i + bs) (int (length files))) 1)
          (xrange_list 0 (int (length files)) bs))) = files"
    by (simp add: o_def map_nth)
  then show ?thesis by (simp add: map_concat o_def)
qed

lemma map_py_load:
  assumes "\<forall>k \<in> set ks. 0 \<le> k \<and> k < int (length files)"
    and "\<forall>f \<in> set files. load f = Inr (img f)"
  shows "map_py (\<lambda>k. bind_py (py_index files k) (\<lambda>f. bind_py (load f) (\<lambda>im. Inr (f, im)))) ks =
           Inr (map (\<lambda>k. (files ! nat k, img (files ! nat k))) ks)"
  using assms
proof (induction ks)
  case Nil
  then show ?case by simp
next
  case (Cons k ks)
  then have "nat k < length files" by (simp add: nat_less_iff)
  then have "py_index files k = Inr (files ! nat k)" and "files ! nat k \<in> set files"
    using Cons.prems(1) by (simp_all add: py_index_def)
  then show ?case using Cons by simp
qed

definition well_shaped :: "('img list \<Rightarrow> 'a list list) \<Rightarrow> nat \<Rightarrow> bool" where
  "well_shaped predict d =
     (\<forall>imgs. length (predict imgs) = length imgs \<and> list_all (\<lambda>v. length v = d) (predict imgs))"

lemma process_chunk_ok:
  assumes "wf_table hf" and "vecs hf = Some x" and "names hf = Some fn" and "fwidth x = d"
    and "\<forall>f \<in> set files. load f = Inr (img f)" and "well_shaped predict d" and "0 \<le> i"
  shows "\<exists>x'. process_chunk load predict d files (i, j) hf =
           (None, hf\<lparr>vecs := Some x',
                     names := Some (fn @ map (\<lambda>k. files ! nat k) (xrange_list i (min j (int (length files))) 1))\<rparr>) \<and>
           fwidth x' = d \<and>
           wf_table (hf\<lparr>vecs := Some x',
                     names := Some (fn @ map (\<lambda>k. files ! nat k) (xrange_list i (min j (int (length files))) 1))\<rparr>)"
proof -
  let ?ks = "xrange_list i (min j (int (length files))) 1"
  have "\<forall>k \<in> set ?ks. 0 \<le> k \<and> k < int (length files)"
    using xrange_list_pos_bounds [of 1 _ i] assms(7) by fastforce
  from map_py_load [OF this assms(5)]
  have m: "map_py (\<lambda>k. bind_py (py_index files k) (\<lambda>f. bind_py (load f) (\<lambda>im. Inr (f, im)))) ?ks =
           Inr (map (\<lambda>k. (files ! nat k, img (files ! nat k))) ?ks)" .
  let ?scores = "predict (map (\<lambda>k. img (files ! nat k)) ?ks)"
  have "length ?scores = length (map (\<lambda>k. files ! nat k) ?ks)"
    and "list_all (\<lambda>v. length v = d) ?scores"
    using assms(6) by (simp_all add: well_shaped_def)
  from dump_to_h5_append_rows [OF assms(1-4) this]
  show ?thesis using m assms(4)
    by (intro exI [of _ "x\<lparr>frows := frows x @ ?scores\<rparr>"]) (simp add: process_chunk_def o_def)
qed

lemma process_chunks_ok:
  assumes "wf_table hf" and "vecs hf = Some x" and "names hf = Some fn" and "fwidth x = d"
    and "\<forall>f \<in> set files. load f = Inr (img f)" and "well_shaped predict d"
    and "\<forall>c \<in> set cs. 0 \<le> fst c"
  shows "\<exists>x'. process_chunks load predict d files cs hf =
           (None, hf\<lparr>vecs := Some x',
              names := Some (fn @ concat (map (\<lambda>(i, j). map (\<lambda>k. files ! nat k)
                                   (xrange_list i (min j (int (length files))) 1)) cs))\<rparr>) \<and>
           fwidth x' = d \<and>
           wf_table (hf\<lparr>vecs := Some x',
              names := Some (fn @ concat (map (\<lambda>(i, j). map (\<lambda>k. files ! nat k)
                                   (xrange_list i (min j (int (length files))) 1)) cs))\<rparr>)"
  using assms
proof (induction cs arbitrary: hf x fn)
  case Nil
  have "hf\<lparr>vecs := Some x, names := Some fn\<rparr> = hf" using Nil.prems(2,3) by (cases hf) simp
  then show ?case using Nil.prems(1,4) by (intro exI [of _ x]) simp
next
  case (Cons c cs)
  obtain i j where c: "c = (i, j)" by fastforce
  let ?nm = "map (\<lambda>k. files ! nat k) (xrange_list i (min j (int (length files))) 1)"
  obtain x1 where p: "process_chunk load predict d files (i, j) hf =
      (None, hf\<lparr>vecs := Some x1, names := Some (fn @ ?nm)\<rparr>)"
    and w1: "fwidth x1 = d" and wf1: "wf_table (hf\<lparr>vecs := Some x1, names := Some (fn @ ?nm)\<rparr>)"
    using process_chunk_ok [OF Cons.prems(1-6)] Cons.prems(7) c by auto
  have "\<forall>c \<in> set cs. 0 \<le> fst c" using Cons.prems(7) by simp
  from Cons.IH [OF wf1 _ _ w1 Cons.prems(5,6) this]
  show ?case using p c by simp
qed

lemma extract_and_dump_ranges:
  "extract_and_dump load predict d vb files hf = (None, hf', Some cr) \<Longrightarrow>
     \<exists>fnames. names hf' = Some fnames \<and> get_class_ranges fnames = Inr cr"
  by (auto simp: extract_and_dump_def Let_def split: sum.splits prod.splits option.splits)

section \<open>Properties of the driver\<close>

text \<open>
  C8 (functional): with at least two files and \<open>VGG_BATCH \<ge> 1\<close>, \<open>create_indices\<close>
  succeeds and its chunks, clipped to the number of files as \<open>main\<close> clips them, list
  every file index exactly once and in order.
\<close>

theorem create_indices_partition:
  assumes "2 \<le> n" and "1 \<le> b"
  shows "\<exists>cs. create_indices (int n) b = Inr cs \<and>
           concat (map (\<lambda>(i, j). xrange_list i (min j (int n)) 1) cs) = map int [0..<n]"
proof -
  obtain bs where bs: "0 < bs"
    and c: "create_indices (int n) b = Inr (map (\<lambda>i. (i, i + bs)) (xrange_list 0 (int n) bs))"
    using create_indices_starts [OF assms] by blast
  have "concat (map (\<lambda>i. xrange_list i (min (i + bs) (int n)) 1) (xrange_list 0 (int n) bs)) =
        map int [0..<n]"
    using chunks_cover [OF bs, of 0 "int n"] xrange_list_one [of 0] by simp
  then show ?thesis using c by (simp add: o_def)
qed

theorem create_indices_partition_witness:
  "\<exists>cs. create_indices (int 5) 2 = Inr cs \<and>
     concat (map (\<lambda>(i, j). xrange_list i (min j (int 5)) 1) cs) = map int [0..<5]"
  using create_indices_partition [of 5 2] by simp

text \<open>
  C23 (error): \<open>create_indices\<close> raises exactly when the step it computes is zero, and it
  then raises ValueError: a directory holding a single file (for any \<open>VGG_BATCH \<ge> 1\<close>),
  or \<open>VGG_BATCH = 0\<close> with more than zero files.
\<close>

theorem create_indices_error_iff:
  "create_indices n b = Inl e \<longleftrightarrow> e = ValueError \<and> (if n \<le> b then n = 1 else b = 0)"
  by (auto simp: create_indices_def py_xrange_def Let_def)

text \<open>
  C24 (error): run on a directory with a single image and \<open>VGG_BATCH \<ge> 0\<close>, the
  extraction creates the two datasets and then raises ValueError from \<open>xrange\<close>
  before any image is loaded: nothing is appended and no class ranges are written.
\<close>

theorem extract_single_file:
  assumes "0 \<le> vgg_batch"
  shows "extract_and_dump load predict d vgg_batch [f] hf =
           (Some ValueError, create_or_get_names (create_or_get_vecs d hf), None)"
proof -
  have "create_indices 1 vgg_batch = Inl ValueError"
    using assms by (simp add: create_indices_def py_xrange_def Let_def)
  then show ?thesis by (simp add: extract_and_dump_def)
qed

theorem extract_single_file_witness:
  "extract_and_dump (\<lambda>f. Inr f) (map (\<lambda>_. [0 :: int])) 1 4 [''r/a/1.jpg''] \<lparr>vecs = None, names = None\<rparr> =
     (Some ValueError, \<lparr>vecs = Some \<lparr>frows = [], fwidth = 1, fmaxwidth = 1\<rparr>, names = Some []\<rparr>, None)"
  using extract_single_file [of 4 "\<lambda>f. Inr f" "map (\<lambda>_. [0 :: int])" 1 "''r/a/1.jpg''"]
  by (simp add: create_or_get_vecs_def create_or_get_names_def)

lemma extract_and_dump_ok:
  assumes "wf_table hf" and "vecs hf = Some x" and "names hf = Some fn" and "fwidth x = d"
    and "2 \<le> length files" and "1 \<le> vgg_batch"
    and "\<forall>f \<in> set files. load f = Inr (img f)" and "well_shaped predict d"
    and "get_class_ranges (fn @ files) = Inr cr"
  shows "\<exists>x'. extract_and_dump load predict d vgg_batch files hf =
            (None, hf\<lparr>vecs := Some x', names := Some (fn @ files)\<rparr>, Some cr) \<and>
          wf_table (hf\<lparr>vecs := Some x', names := Some (fn @ files)\<rparr>) \<and> fwidth x' = d"
proof -
  have hf1: "create_or_get_names (create_or_get_vecs d hf) = hf"
    using assms(2,3) by (simp add: create_or_get_vecs_def create_or_get_names_def)
  obtain bs where bs: "0 < bs" and c: "create_indices (int (length files)) vgg_batch =
      Inr (map (\<lambda>i. (i, i + bs)) (xrange_list 0 (int (length files)) bs))"
    using create_indices_starts [OF assms(5,6)] by blast
  have "\<forall>c \<in> set (map (\<lambda>i. (i, i + bs)) (xrange_list 0 (int (length files)) bs)). 0 \<le> fst c"
    using xrange_list_pos_bounds [OF bs, of _ 0] by auto
  from process_chunks_ok [OF assms(1-4,7,8) this]
  obtain x' where p: "process_chunks load predict d files
      (map (\<lambda>i. (i, i + bs)) (xrange_list 0 (int (length files)) bs)) hf =
      (None, hf\<lparr>vecs := Some x', names := Some (fn @ files)\<rparr>)"
    and w: "fwidth x' = d" and wf: "wf_table (hf\<lparr>vecs := Some x', names := Some (fn @ files)\<rparr>)"
    unfolding chunk_files_cover [OF bs] by blast
  show ?thesis using hf1 c p w wf assms(9)
    by (intro exI [of _ x']) (simp add: extract_and_dump_def)
qed

text \<open>\<open>main\<close> creates the datasets itself, so a store without them extracts as the created one.\<close>

lemma extract_and_dump_create:
  "extract_and_dump load predict d vgg_batch files hf =
     extract_and_dump load predict d vgg_batch files (create_or_get_names (create_or_get_vecs d hf))"
  by (simp add: extract_and_dump_def create_or_get_vecs_def create_or_get_names_def split: option.splits)

text \<open>
  C7 (functional): on a well-formed store whose vector dataset has the network's width,
  with at least two files, \<open>VGG_BATCH \<ge> 1\<close>, every image loadable and a network that
  returns one vector of width \<open>D\<close> per image, one run of the extraction succeeds: the
  name dataset becomes the old names followed by all files in traversal order, the
  store stays well formed (so it holds one vector per name), and the pickled class
  ranges are those of all stored names.
\<close>

theorem extract_and_dump_appends:
  assumes "wf_table hf" and "vecs hf = Some x" and "names hf = Some fn" and "fwidth x = d"
    and "2 \<le> length files" and "1 \<le> vgg_batch"
    and "\<forall>f \<in> set files. load f = Inr (img f)" and "well_shaped predict d"
    and "get_class_ranges (fn @ files) = Inr cr"
  shows "\<exists>x'. extract_and_dump load predict d vgg_batch files hf =
            (None, hf\<lparr>vecs := Some x', names := Some (fn @ files)\<rparr>, Some cr) \<and>
          wf_table (hf\<lparr>vecs := Some x', names := Some (fn @ files)\<rparr>) \<and> fwidth x' = d"
  using extract_and_dump_ok [OF assms] .

definition demo_store :: "int h5table" where
  "demo_store = \<lparr>vecs = Some \<lparr>frows = [[1, 2]], fwidth = 2, fmaxwidth = 2\<rparr>, names = Some [''r/a/0.jpg'']\<rparr>"

theorem extract_and_dump_appends_witness:
  "\<exists>x'. extract_and_dump (\<lambda>f. Inr f) (map (\<lambda>_. [7, 7 :: int])) 2 1 [''r/a/1.jpg'', ''r/b/2.jpg''] demo_store =
     (None, demo_store\<lparr>vecs := Some x', names := Some [''r/a/0.jpg'', ''r/a/1.jpg'', ''r/b/2.jpg'']\<rparr>,
      Some [''a'' \<mapsto> (0, 1), ''b'' \<mapsto> (2, 2)]) \<and>
     wf_table (demo_store\<lparr>vecs := Some x', names := Some [''r/a/0.jpg'', ''r/a/1.jpg'', ''r/b/2.jpg'']\<rparr>) \<and>
     fwidth x' = 2"
proof -
  have wf: "wf_table demo_store" by (simp add: demo_store_def wf_table_def)
  have ws: "well_shaped (map (\<lambda>_. [7, 7 :: int])) 2" by (simp add: well_shaped_def list_all_iff)
  have cr: "get_class_ranges ([''r/a/0.jpg''] @ [''r/a/1.jpg'', ''r/b/2.jpg'']) =
      Inr [''a'' \<mapsto> (0, 1), ''b'' \<mapsto> (2, 2)]"
    by (simp add: class_index_eval)
  show ?thesis
    using extract_and_dump_appends [where x = "\<lparr>frows = [[1, 2]], fwidth = 2, fmaxwidth = 2\<rparr>"
        and vgg_batch = 1 and img = "\<lambda>f. f" and load = "\<lambda>f. Inr f", OF wf _ _ _ _ _ _ ws cr]
    by (simp add: demo_store_def)
qed


end
