(* ===== verification/Config.thy ===== *)
theory Config
  imports Prelude
begin

text \<open>
  The configuration loader \<open>load_configs\<close> of \<open>extract_features_and_dump.py\<close>
  (lines 23-55).  The parsed \<open>local.cfg\<close> is the list of its entries
  \<open>(section, option, value)\<close> in file order, option names stored after
  \<open>str.lower\<close>; \<open>RawConfigParser\<close> matches sections exactly and options after
  \<open>str.lower\<close>, a later entry overriding an earlier one, and
  a missing section or option raises (NoSectionError, NoOptionError: both are
  \<open>ConfigError\<close> here).  \<open>getint\<close> is Python 2's \<open>int()\<close> on the stored string.  The
  module globals the loader assigns are a record of options (\<open>None\<close>: not yet
  assigned); the assignments run in source order and those made before an exception
  stay in place.
\<close>

type_synonym config = "(string \<times> string \<times> string) list"

section \<open>\<open>RawConfigParser.get\<close> and \<open>getint\<close>\<close>

definition py_lower_char :: "char \<Rightarrow> char" where
  "py_lower_char c = (let n = (of_char c :: nat) in if 65 \<le> n \<and> n \<le> 90 then char_of (n + 32) else c)"

definition py_lower :: "string \<Rightarrow> string" where
  "py_lower s = map py_lower_char s"

text \<open>
  \<open>config.read\<close>: every option name of the file goes through \<open>optionxform\<close>
  (\<open>str.lower\<close>) when it is stored.
\<close>

definition config_read :: "(string \<times> string \<times> string) list \<Rightarrow> config" where
  "config_read entries = map (\<lambda>(s, o', v). (s, py_lower o', v)) entries"

text \<open>\<open>config.get(section, option)\<close>: the last stored value for \<open>optionxform(option)\<close>.\<close>

definition config_get :: "config \<Rightarrow> string \<Rightarrow> string \<Rightarrow> py_error + string" where
  "config_get cfg sec opt =
     (case filter (\<lambda>(s, o', v). s = sec \<and> o' = py_lower opt) cfg of
        [] \<Rightarrow> Inl ConfigError
      | es \<Rightarrow> Inr (snd (snd (last es))))"

definition is_space :: "char \<Rightarrow> bool" where
  "is_space c = (let n = (of_char c :: nat) in c = CHR '' '' \<or> (9 \<le> n \<and> n \<le> 13))"

definition is_digit :: "char \<Rightarrow> bool" where
  "is_digit c = (let n = (of_char c :: nat) in 48 \<le> n \<and> n \<le> 57)"

definition py_strip :: "string \<Rightarrow> string" where
  "py_strip s = rev (dropWhile is_space (rev (dropWhile is_space s)))"

definition digits_val :: "string \<Rightarrow> nat" where
  "digits_val ds = foldl (\<lambda>n c. 10 * n + (of_char c - 48)) (0::nat) ds"

definition parse_nat :: "string \<Rightarrow> nat option" where
  "parse_nat ds = (if ds \<noteq> [] \<and> list_all is_digit ds then Some (digits_val ds) else None)"

text \<open>\<open>int(s)\<close>: surrounding whitespace, an optional sign, then decimal digits.\<close>

definition parse_int :: "string \<Rightarrow> int option" where
  "parse_int s =
     (case py_strip s of
        [] \<Rightarrow> None
      | c # ds \<Rightarrow>
          (if c = CHR ''-'' then map_option (\<lambda>n. - int n) (parse_nat ds)
           else if c = CHR ''+'' then map_option int (parse_nat ds)
           else map_option int (parse_nat (c # ds))))"

definition config_getint :: "config \<Rightarrow> string \<Rightarrow> string \<Rightarrow> py_error + int" where
  "config_getint cfg sec opt =
     bind_py (config_get cfg sec opt)
       (\<lambda>v. case parse_int v of None \<Rightarrow> Inl ValueError | Some i \<Rightarrow> Inr i)"




section \<open>The module globals and the loader\<close>

record cfg_globals =
  IMAGE_DIM :: "int option"
  WORD_DIM :: "int option"
  h5_training :: "string option"
  h5_validation :: "string option"
  embeddings_path :: "string option"
  weights_path :: "string option"
  VGG_BATCH :: "int option"
  images_path :: "string option"
  dump_path :: "string option"
  image_class_ranges :: "string option"

definition no_globals :: cfg_globals where
  "no_globals = \<lparr>IMAGE_DIM = None, WORD_DIM = None, h5_training = None, h5_validation = None,
     embeddings_path = None, weights_path = None, VGG_BATCH = None, images_path = None,
     dump_path = None, image_class_ranges = None\<rparr>"

text \<open>A sequence of assignment statements, stopped by the first exception.\<close>

fun exec_assigns :: "('g \<Rightarrow> py_error + 'g) list \<Rightarrow> 'g \<Rightarrow> 'g outcome" where
  "exec_assigns [] g = (None, g)"
| "exec_assigns (a # as) g = (case a g of Inl e \<Rightarrow> (Some e, g) | Inr g' \<Rightarrow> exec_assigns as g')"

definition assign_int :: "config \<Rightarrow> string \<Rightarrow> string \<Rightarrow> (int \<Rightarrow> 'g \<Rightarrow> 'g) \<Rightarrow> 'g \<Rightarrow> py_error + 'g" where
  "assign_int cfg sec opt upd g = bind_py (config_getint cfg sec opt) (\<lambda>v. Inr (upd v g))"

definition assign_str :: "config \<Rightarrow> string \<Rightarrow> string \<Rightarrow> (string \<Rightarrow> 'g \<Rightarrow> 'g) \<Rightarrow> 'g \<Rightarrow> py_error + 'g" where
  "assign_str cfg sec opt upd g = bind_py (config_get cfg sec opt) (\<lambda>v. Inr (upd v g))"

text \<open>Lines 33-39: the settings read for every run type.\<close>

definition common_assigns :: "config \<Rightarrow> (cfg_globals \<Rightarrow> py_error + cfg_globals) list" where
  "common_assigns cfg =
     [assign_int cfg ''training'' ''IMAGE_DIM'' (\<lambda>v g. g\<lparr>IMAGE_DIM := Some v\<rparr>),
      assign_int cfg ''training'' ''WORD_DIM'' (\<lambda>v g. g\<lparr>WORD_DIM := Some v\<rparr>),
      assign_str cfg ''h5'' ''h5_training'' (\<lambda>v g. g\<lparr>h5_training := Some v\<rparr>),
      assign_str cfg ''h5'' ''h5_validation'' (\<lambda>v g. g\<lparr>h5_validation := Some v\<rparr>),
      assign_str cfg ''h5'' ''h5_embeddings'' (\<lambda>v g. g\<lparr>embeddings_path := Some v\<rparr>),
      assign_str cfg ''other'' ''WEIGHTS_PATH'' (\<lambda>v g. g\<lparr>weights_path := Some v\<rparr>),
      assign_int cfg ''training'' ''VGG_BATCH'' (\<lambda>v g. g\<lparr>VGG_BATCH := Some v\<rparr>)]"

text \<open>Lines 41-53: the branch on the run type.\<close>

definition mode_assigns :: "string \<Rightarrow> config \<Rightarrow> (cfg_globals \<Rightarrow> py_error + cfg_globals) list" where
  "mode_assigns run_type cfg =
     (if run_type = ''TRAIN'' then
        [assign_str cfg ''data location'' ''TRAINING_DATA_FOLDER_CLEAN'' (\<lambda>v g. g\<lparr>images_path := Some v\<rparr>),
         (\<lambda>g. Inr (g\<lparr>dump_path := h5_training g\<rparr>)),
         assign_str cfg ''other'' ''TRAINING_CLASS_RANGES'' (\<lambda>v g. g\<lparr>image_class_ranges := Some v\<rparr>)]
      else if run_type = ''VALID'' then
        [assign_str cfg ''data location'' ''VALIDATION_DATA_FOLDER_CLEAN'' (\<lambda>v g. g\<lparr>images_path := Some v\<rparr>),
         (\<lambda>g. Inr (g\<lparr>dump_path := h5_validation g\<rparr>)),
         assign_str cfg ''other'' ''VALIDATION_CLASS_RANGES'' (\<lambda>v g. g\<lparr>image_class_ranges := Some v\<rparr>)]
      else [\<lambda>_. Inl ValueError])"

definition load_configs :: "string \<Rightarrow> config \<Rightarrow> cfg_globals \<Rightarrow> cfg_globals outcome" where
  "load_configs run_type cfg g = exec_assigns (common_assigns cfg @ mode_assigns run_type cfg) g"

text \<open>
  Line 55 runs \<open>load_configs()\<close> (run type TRAIN) when the module is imported, and
  \<open>main\<close> (line 237) runs it again with the command-line run type.
\<close>

definition startup_configs :: "string \<Rightarrow> config \<Rightarrow> cfg_globals outcome" where
  "startup_configs argv1 cfg =
     (case load_configs ''TRAIN'' cfg no_globals of
        (Some e, g) \<Rightarrow> (Some e, g)
      | (None, g) \<Rightarrow> load_configs argv1 cfg g)"

section \<open>The integer round trip\<close>







section \<open>Lemmas on the loader\<close>

definition py_value :: "'e + 'a \<Rightarrow> 'a option" where
  "py_value r = (case r of Inl _ \<Rightarrow> None | Inr v \<Rightarrow> Some v)"

definition int_options :: "(string \<times> string) list" where
  "int_options = [(''training'', ''IMAGE_DIM''), (''training'', ''WORD_DIM''), (''training'', ''VGG_BATCH'')]"

definition str_options :: "string \<Rightarrow> (string \<times> string) list" where
  "str_options rt =
     [(''h5'', ''h5_training''), (''h5'', ''h5_validation''), (''h5'', ''h5_embeddings''), (''other'', ''WEIGHTS_PATH''),
      if rt = ''TRAIN'' then (''data location'', ''TRAINING_DATA_FOLDER_CLEAN'')
      else (''data location'', ''VALIDATION_DATA_FOLDER_CLEAN''),
      if rt = ''TRAIN'' then (''other'', ''TRAINING_CLASS_RANGES'') else (''other'', ''VALIDATION_CLASS_RANGES'')]"

text \<open>The configuration surface of the specification: a known run mode and every option it needs.\<close>

definition config_complete :: "string \<Rightarrow> config \<Rightarrow> bool" where
  "config_complete rt cfg =
     ((rt = ''TRAIN'' \<or> rt = ''VALID'') \<and>
      list_all (\<lambda>(s, o'). \<not> isl (config_getint cfg s o')) int_options \<and>
      list_all (\<lambda>(s, o'). \<not> isl (config_get cfg s o')) (str_options rt))"

text \<open>The globals a successful load leaves, read off the specification's option list.\<close>

definition configured :: "string \<Rightarrow> config \<Rightarrow> cfg_globals \<Rightarrow> cfg_globals" where
  "configured rt cfg g =
     g\<lparr>IMAGE_DIM := py_value (config_getint cfg ''training'' ''IMAGE_DIM''),
       WORD_DIM := py_value (config_getint cfg ''training'' ''WORD_DIM''),
       h5_training := py_value (config_get cfg ''h5'' ''h5_training''),
       h5_validation := py_value (config_get cfg ''h5'' ''h5_validation''),
       embeddings_path := py_value (config_get cfg ''h5'' ''h5_embeddings''),
       weights_path := py_value (config_get cfg ''other'' ''WEIGHTS_PATH''),
       VGG_BATCH := py_value (config_getint cfg ''training'' ''VGG_BATCH''),
       images_path := py_value (config_get cfg ''data location''
         (if rt = ''TRAIN'' then ''TRAINING_DATA_FOLDER_CLEAN'' else ''VALIDATION_DATA_FOLDER_CLEAN'')),
       dump_path := py_value (config_get cfg ''h5'' (if rt = ''TRAIN'' then ''h5_training'' else ''h5_validation'')),
       image_class_ranges := py_value (config_get cfg ''other''
         (if rt = ''TRAIN'' then ''TRAINING_CLASS_RANGES'' else ''VALIDATION_CLASS_RANGES''))\<rparr>"

lemma exec_assigns_append:
  "exec_assigns (as @ bs) g =
     (case exec_assigns as g of (Some e, g') \<Rightarrow> (Some e, g') | (None, g') \<Rightarrow> exec_assigns bs g')"
  by (induction as g rule: exec_assigns.induct) (simp_all split: sum.split)

lemma exec_assigns_inv:
  assumes "\<And>a g g'. a \<in> set as \<Longrightarrow> a g = Inr g' \<Longrightarrow> P g \<Longrightarrow> P g'" and "P g"
  shows "P (snd (exec_assigns as g))"
  using assms by (induction as g rule: exec_assigns.induct) (auto split: sum.split)

lemma exec_assigns_None_iff:
  assumes "\<And>a. a \<in> set as \<Longrightarrow> (\<forall>g. \<not> isl (a g)) \<or> (\<forall>g. isl (a g))"
  shows "fst (exec_assigns as g) = None \<longleftrightarrow> (\<forall>a \<in> set as. \<forall>g. \<not> isl (a g))"
  using assms
proof (induction as g rule: exec_assigns.induct)
  case (2 a as g)
  have d: "(\<forall>g. \<not> isl (a g)) \<or> (\<forall>g. isl (a g))" using "2.prems" by simp
  show ?case
  proof (cases "a g")
    case (Inl e)
    then have "\<not> (\<forall>g. \<not> isl (a g))" by (intro notI) (drule spec [of _ g], simp)
    then show ?thesis using Inl by simp
  next
    case (Inr g')
    then have "\<not> isl (a g)" by simp
    then have "\<forall>g. \<not> isl (a g)" using d by blast
    then show ?thesis using Inr "2.IH" "2.prems" by simp
  qed
qed simp

lemma isl_assign_int [simp]: "isl (assign_int cfg s o' upd g) = isl (config_getint cfg s o')"
  by (cases "config_getint cfg s o'") (simp_all add: assign_int_def)

lemma isl_assign_str [simp]: "isl (assign_str cfg s o' upd g) = isl (config_get cfg s o')"
  by (cases "config_get cfg s o'") (simp_all add: assign_str_def)

lemmas config_eval = load_configs_def common_assigns_def mode_assigns_def assign_int_def assign_str_def

lemma load_configs_None_iff:
  "fst (load_configs rt cfg g) = None \<longleftrightarrow> config_complete rt cfg"
proof -
  let ?as = "common_assigns cfg @ mode_assigns rt cfg"
  have eq: "fst (load_configs rt cfg g) = None \<longleftrightarrow> (\<forall>a \<in> set ?as. \<forall>g. \<not> isl (a g))"
    unfolding load_configs_def
    by (rule exec_assigns_None_iff) (auto simp: common_assigns_def mode_assigns_def split: if_splits)
  show ?thesis
    unfolding eq
    by (cases "rt = ''TRAIN''"; cases "rt = ''VALID''")
      (simp_all add: common_assigns_def mode_assigns_def config_complete_def
        int_options_def str_options_def conj_ac)
qed

lemma assign_int_ok: "\<not> isl (config_getint cfg s o') \<Longrightarrow>
    assign_int cfg s o' upd g = Inr (upd (projr (config_getint cfg s o')) g)"
  by (cases "config_getint cfg s o'") (simp_all add: assign_int_def)

lemma assign_str_ok: "\<not> isl (config_get cfg s o') \<Longrightarrow>
    assign_str cfg s o' upd g = Inr (upd (projr (config_get cfg s o')) g)"
  by (cases "config_get cfg s o'") (simp_all add: assign_str_def)

lemma py_value_ok: "\<not> isl r \<Longrightarrow> py_value r = Some (projr r)"
  by (cases r) (simp_all add: py_value_def)

lemma load_configs_complete:
  assumes "config_complete rt cfg"
  shows "load_configs rt cfg g = (None, configured rt cfg g)"
proof -
  have m: "rt = ''TRAIN'' \<or> rt = ''VALID''"
    and i: "list_all (\<lambda>(s, o'). \<not> isl (config_getint cfg s o')) int_options"
    and s: "list_all (\<lambda>(s, o'). \<not> isl (config_get cfg s o')) (str_options rt)"
    using assms by (simp_all add: config_complete_def)
  show ?thesis
  proof (cases "rt = ''TRAIN''")
    case True
    then show ?thesis using i s
      by (simp add: load_configs_def common_assigns_def mode_assigns_def configured_def
          int_options_def str_options_def assign_int_ok assign_str_ok py_value_ok)
  next
    case False
    then show ?thesis using m i s
      by (simp add: load_configs_def common_assigns_def mode_assigns_def configured_def
          int_options_def str_options_def assign_int_ok assign_str_ok py_value_ok)
  qed
qed

lemma exec_assigns_keeps:
  assumes "\<And>a g g'. a \<in> set as \<Longrightarrow> a g = Inr g' \<Longrightarrow>
      images_path g' = images_path g \<and> dump_path g' = dump_path g \<and> image_class_ranges g' = image_class_ranges g"
  shows "images_path (snd (exec_assigns as g)) = images_path g \<and> dump_path (snd (exec_assigns as g)) = dump_path g \<and>
         image_class_ranges (snd (exec_assigns as g)) = image_class_ranges g"
  using exec_assigns_inv [where P = "\<lambda>g'. images_path g' = images_path g \<and> dump_path g' = dump_path g \<and>
      image_class_ranges g' = image_class_ranges g", of as g] assms by fastforce

definition demo_cfg :: config where
  "demo_cfg =
     [(''training'', ''image_dim'', ''4096''), (''training'', ''word_dim'', ''50''),
      (''training'', ''vgg_batch'', '' 32 ''),
      (''h5'', ''h5_training'', ''train.h5''), (''h5'', ''h5_validation'', ''valid.h5''),
      (''h5'', ''h5_embeddings'', ''emb.h5''), (''other'', ''weights_path'', ''vgg16.h5''),
      (''data location'', ''validation_data_folder_clean'', ''data/valid''),
      (''other'', ''validation_class_ranges'', ''valid_ranges.pkl'')]"

lemma demo_cfg_complete: "config_complete ''VALID'' demo_cfg"
  by code_simp

section \<open>Properties of the loader\<close>

text \<open>
  C25 (functional): \<open>load_configs\<close> returns normally exactly when the run type is TRAIN
  or VALID and every option of that run type is present (the three integer options
  parsing as integers), and it then leaves the globals the specification's option
  list names, the dump path being the training or the validation store of the run type.
\<close>

theorem load_configs_result:
  "load_configs rt cfg g = (None, g') \<longleftrightarrow> config_complete rt cfg \<and> g' = configured rt cfg g"
proof (cases "config_complete rt cfg")
  case False
  then show ?thesis using load_configs_None_iff [of rt cfg g] by (cases "load_configs rt cfg g") auto
next
  case True
  then show ?thesis using load_configs_complete [OF True, of g] by auto
qed

theorem load_configs_result_witness:
  "load_configs ''VALID'' demo_cfg no_globals = (None, configured ''VALID'' demo_cfg no_globals) \<and>
   dump_path (configured ''VALID'' demo_cfg no_globals) = Some ''valid.h5'' \<and>
   VGG_BATCH (configured ''VALID'' demo_cfg no_globals) = Some 32"
proof -
  from demo_cfg_complete have "load_configs ''VALID'' demo_cfg no_globals = (None, configured ''VALID'' demo_cfg no_globals)"
    using load_configs_result [of "''VALID''" demo_cfg no_globals] by simp
  moreover have "dump_path (configured ''VALID'' demo_cfg no_globals) = Some ''valid.h5'' \<and>
      VGG_BATCH (configured ''VALID'' demo_cfg no_globals) = Some 32"
    unfolding configured_def by simp code_simp
  ultimately show ?thesis by simp
qed

text \<open>
  C26 (error): with any other run type \<open>load_configs\<close> raises, and it leaves the
  image folder, the dump path and the class-range path as they were; when the seven
  settings common to both run types are present it raises ValueError only after
  assigning all of them.
\<close>

theorem load_configs_bad_mode:
  assumes "rt \<noteq> ''TRAIN''" and "rt \<noteq> ''VALID''"
  shows "fst (load_configs rt cfg g) \<noteq> None \<and>
         images_path (snd (load_configs rt cfg g)) = images_path g \<and>
         dump_path (snd (load_configs rt cfg g)) = dump_path g \<and>
         image_class_ranges (snd (load_configs rt cfg g)) = image_class_ranges g \<and>
         (config_complete ''TRAIN'' cfg \<longrightarrow>
            load_configs rt cfg g = (Some ValueError, (configured ''TRAIN'' cfg g)\<lparr>images_path := images_path g,
               dump_path := dump_path g, image_class_ranges := image_class_ranges g\<rparr>))"
proof -
  have l: "load_configs rt cfg g = exec_assigns (common_assigns cfg @ [\<lambda>_. Inl ValueError]) g"
    using assms by (simp add: load_configs_def mode_assigns_def)
  have "fst (load_configs rt cfg g) \<noteq> None"
    using load_configs_None_iff [of rt cfg g] assms by (simp add: config_complete_def)
  moreover have "images_path (snd (load_configs rt cfg g)) = images_path g \<and>
         dump_path (snd (load_configs rt cfg g)) = dump_path g \<and>
         image_class_ranges (snd (load_configs rt cfg g)) = image_class_ranges g"
    unfolding l by (rule exec_assigns_keeps) (auto simp: common_assigns_def assign_int_def assign_str_def)
  moreover have "load_configs rt cfg g = (Some ValueError, (configured ''TRAIN'' cfg g)\<lparr>images_path := images_path g,
               dump_path := dump_path g, image_class_ranges := image_class_ranges g\<rparr>)"
    if c: "config_complete ''TRAIN'' cfg"
  proof -
    have "list_all (\<lambda>(s, o'). \<not> isl (config_getint cfg s o')) int_options"
      and "list_all (\<lambda>(s, o'). \<not> isl (config_get cfg s o')) (str_options ''TRAIN'')"
      using c by (simp_all add: config_complete_def)
    then show ?thesis unfolding l
      by (simp add: common_assigns_def configured_def int_options_def str_options_def
          assign_int_ok assign_str_ok py_value_ok)
  qed
  ultimately show ?thesis by blast
qed

theorem load_configs_bad_mode_witness:
  "fst (load_configs ''TEST'' demo_cfg no_globals) \<noteq> None \<and>
   images_path (snd (load_configs ''TEST'' demo_cfg no_globals)) = None \<and>
   dump_path (snd (load_configs ''TEST'' demo_cfg no_globals)) = None"
  using load_configs_bad_mode [of "''TEST''" demo_cfg no_globals] by (simp add: no_globals_def)





text \<open>
  C28 (safety): importing the module already runs \<open>load_configs()\<close> with run type
  TRAIN, so a configuration without the training image folder stops the program at
  start-up whatever run type \<open>main\<close> is given, also VALID with a complete validation
  configuration.
\<close>

theorem startup_configs_needs_train:
  assumes "isl (config_get cfg ''data location'' ''TRAINING_DATA_FOLDER_CLEAN'')"
  shows "fst (startup_configs rt cfg) \<noteq> None"
proof -
  have "\<not> config_complete ''TRAIN'' cfg" using assms by (simp add: config_complete_def str_options_def)
  then have "fst (load_configs ''TRAIN'' cfg no_globals) \<noteq> None"
    using load_configs_None_iff by blast
  then show ?thesis by (auto simp: startup_configs_def split: prod.splits option.splits)
qed

theorem startup_configs_needs_train_witness:
  "config_complete ''VALID'' demo_cfg \<and> fst (startup_configs ''VALID'' demo_cfg) \<noteq> None"
proof -
  have "isl (config_get demo_cfg ''data location'' ''TRAINING_DATA_FOLDER_CLEAN'')" by code_simp
  then show ?thesis using demo_cfg_complete startup_configs_needs_train by blast
qed

end
