(* ===== verification/StoreHistory.thy ===== *)
theory StoreHistory
  imports FeatureStore "HOL-Library.Sublist"
begin

text \<open>
  The history of a feature file across runs of \<open>extract_features_and_dump.py\<close>.
  \<open>main\<close> opens the file in append mode and creates the two datasets when they are
  absent (lines 259-268); every later chunk is appended by \<open>dump_to_h5\<close>
  (lines 128-146).  The stores a file can hold are the inductive set
  \<open>store_reach D\<close>: the freshly created store, and whatever one call of
  \<open>dump_to_h5\<close> with \<open>IMAGE_DIM = D\<close> leaves, whether the call returns or raises.
  Rule induction shows that every such store is well formed with width and maximal
  width \<open>D\<close>, and that any sequence of further appends only extends both datasets.
  When the configured \<open>IMAGE_DIM\<close> is lowered between two runs, the same code cuts the
  stored vectors down to the new width instead.
\<close>

section \<open>Reachable stores\<close>

text \<open>A new file: both datasets created, empty, of width \<open>D\<close>.\<close>

definition created_store :: "nat \<Rightarrow> 'a h5table" where
  "created_store dim = create_or_get_names (create_or_get_vecs dim \<lparr>vecs = None, names = None\<rparr>)"

text \<open>One call of \<open>dump_to_h5\<close> with some names and vectors, returning or raising.\<close>

inductive store_step :: "nat \<Rightarrow> 'a::zero h5table \<Rightarrow> 'a h5table \<Rightarrow> bool" for dim where
  dump: "dump_to_h5 dim nms scores hf = (err, hf') \<Longrightarrow> store_step dim hf hf'"

inductive store_reach :: "nat \<Rightarrow> 'a::zero h5table \<Rightarrow> bool" for dim where
  created: "store_reach dim (created_store dim)"
| dumped: "store_reach dim hf \<Longrightarrow> store_step dim hf hf' \<Longrightarrow> store_reach dim hf'"


text \<open>The invariant of a store of width \<open>D\<close>.\<close>

definition store_inv :: "nat \<Rightarrow> 'a h5table \<Rightarrow> bool" where
  "store_inv dim hf =
     (case (vecs hf, names hf) of
        (Some x, Some fn) \<Rightarrow> fwidth x = dim \<and> fmaxwidth x = dim \<and> wf_table hf
      | _ \<Rightarrow> False)"

section \<open>Lemmas on one append\<close>

lemma take_update_ge: "r \<le> i \<Longrightarrow> take r (xs[i := v]) = take r xs"
  by (simp add: take_update_cancel)

text \<open>The write loop started at row \<open>r\<close> never touches the rows before \<open>r\<close>.\<close>

lemma write_loop_keeps_before:
  assumes "write_loop r nms vs ds fn = (err, ds', fn')"
  shows "take r (frows ds') = take r (frows ds) \<and> take r fn' = take r fn"
  using assms
proof (induction r nms vs ds fn rule: write_loop.induct)
  case (1 r nm nms v vs ds fn)
  show ?case
  proof (cases "write_row r v ds")
    case (Inl e)
    then show ?thesis using "1.prems" by simp
  next
    case (Inr ds1)
    then obtain v' where ds1: "ds1 = ds\<lparr>frows := (frows ds)[r := v']\<rparr>"
      using write_row_Inr by blast
    show ?thesis
    proof (cases "write_name r nm fn")
      case (Inl e)
      then have "ds' = ds1 \<and> fn' = fn" using "1.prems" Inr by simp
      then show ?thesis using ds1 by (simp add: take_update_ge)
    next
      case (Inr fn1)
      then have fn1: "fn1 = fn[r := nm]" by (simp add: write_name_def split: if_splits)
      have "write_loop (Suc r) nms vs ds1 fn1 = (err, ds', fn')"
        using "1.prems" \<open>write_row r v ds = Inr ds1\<close> Inr by simp
      then have "take (Suc r) (frows ds') = take (Suc r) (frows ds1) \<and> take (Suc r) fn' = take (Suc r) fn1"
        using "1.IH" [OF \<open>write_row r v ds = Inr ds1\<close> Inr] by simp
      then have "take r (take (Suc r) (frows ds')) = take r (take (Suc r) (frows ds1)) \<and>
                 take r (take (Suc r) fn') = take r (take (Suc r) fn1)"
        by simp
      then show ?thesis using ds1 fn1 by (simp add: min_def take_update_ge)
    qed
  qed
qed simp_all

lemma take_prefix: "take (length xs) ys = xs \<Longrightarrow> prefix xs ys"
  by (metis take_is_prefix)

text \<open>
  \<open>resize((n, d))\<close> to a width \<open>d\<close> up to the current one keeps the first \<open>d\<close>
  entries of every stored vector.
\<close>

lemma resize_vecs_narrow:
  assumes "list_all (\<lambda>r. length r = fwidth x) (frows x)" and "d \<le> fwidth x" and "fwidth x \<le> fmaxwidth x"
    and "length (frows x) \<le> n"
  shows "resize_vecs n d x =
           Inr (x\<lparr>frows := map (take d) (frows x) @ replicate (n - length (frows x)) (replicate d 0), fwidth := d\<rparr>)"
proof -
  have "map (fit_row d) (frows x) = map (take d) (frows x)"
    using assms(1,2) by (simp add: list_all_iff fit_row_def)
  then show ?thesis using assms(2-4) by (simp add: resize_vecs_def)
qed

text \<open>
  On a well-formed table, a call of \<open>dump_to_h5\<close> at a width \<open>d\<close> up to the stored
  one with as many vectors as names is its write loop from the old tail, over the
  vectors cut to \<open>d\<close> and the names, both padded for the new rows.
\<close>

lemma dump_to_h5_narrow:
  assumes "wf_table hf" and "vecs hf = Some x" and "names hf = Some fn" and "d \<le> fwidth x"
    and "length scores = length nms"
  shows "dump_to_h5 d nms scores hf =
           (case write_loop (length (frows x)) nms scores
                   (x\<lparr>frows := map (take d) (frows x) @ replicate (length nms) (replicate d 0), fwidth := d\<rparr>)
                   (fn @ replicate (length nms) '''') of
              (err, x'', fn'') \<Rightarrow> (err, hf\<lparr>vecs := Some x'', names := Some fn''\<rparr>))"
proof -
  have rows: "length (frows x) = length fn" "fwidth x \<le> fmaxwidth x"
    "list_all (\<lambda>r. length r = fwidth x) (frows x)"
    using assms(1-3) by (simp_all add: wf_table_def)
  have "resize_vecs (length (frows x) + length nms) d x =
          Inr (x\<lparr>frows := map (take d) (frows x) @ replicate (length nms) (replicate d 0), fwidth := d\<rparr>)"
    using resize_vecs_narrow [OF rows(3) assms(4) rows(2)] by simp
  moreover have "resize_names (length (frows x) + length nms) fn = fn @ replicate (length nms) ''''"
    using rows(1) by (simp add: resize_names_grow)
  ultimately show ?thesis using assms(2,3,5) by (simp add: dump_to_h5_def)
qed

lemma map_take_width: "list_all (\<lambda>r. length r = d) xs \<Longrightarrow> map (take d) xs = xs"
  by (induction xs) simp_all

text \<open>
  One call of \<open>dump_to_h5\<close> at the store's own width, returning or raising, keeps the
  invariant and keeps the old rows and names as prefixes of the new datasets.
\<close>

lemma dump_to_h5_extends:
  assumes "store_inv dim hf" and "dump_to_h5 dim nms scores hf = (err, hf')"
  shows "\<exists>x fn x' fn'. vecs hf = Some x \<and> names hf = Some fn \<and> vecs hf' = Some x' \<and>
           names hf' = Some fn' \<and> prefix (frows x) (frows x') \<and> prefix fn fn' \<and> store_inv dim hf'"
proof -
  obtain x fn where x: "vecs hf = Some x" and fn: "names hf = Some fn" and w: "fwidth x = dim"
    and m: "fmaxwidth x = dim" and wf: "wf_table hf"
    using assms(1) by (auto simp: store_inv_def split: option.splits)
  have wf': "wf_table hf'" using dump_to_h5_wf [OF wf assms(2)] .
  have rows: "length (frows x) = length fn" "list_all (\<lambda>r. length r = dim) (frows x)"
    using wf x fn w by (simp_all add: wf_table_def)
  show ?thesis
  proof (cases "length scores = length nms")
    case False
    then have "hf' = hf" using assms(2) by (simp add: dump_to_h5_def)
    then show ?thesis using x fn assms(1) by simp
  next
    case True
    let ?x1 = "x\<lparr>frows := frows x @ replicate (length nms) (replicate dim 0), fwidth := dim\<rparr>"
    obtain err' x2 fn2 where wl: "write_loop (length (frows x)) nms scores ?x1 (fn @ replicate (length nms) '''') =
        (err', x2, fn2)"
      by (metis prod_cases3)
    have h: "hf' = hf\<lparr>vecs := Some x2, names := Some fn2\<rparr>"
      using assms(2) dump_to_h5_narrow [OF wf x fn _ True] w wl map_take_width [OF rows(2)] by simp
    have keep: "take (length (frows x)) (frows x2) = frows x \<and> take (length fn) fn2 = fn"
      using write_loop_keeps_before [OF wl] rows(1) by simp
    have shape: "fwidth x2 = dim \<and> fmaxwidth x2 = dim"
      using write_loop_shape [OF wl] m by simp
    show ?thesis
      using x fn h keep shape wf' by (auto simp: store_inv_def intro: take_prefix)
  qed
qed

lemma store_step_extends:
  assumes "store_inv dim hf" and "store_step dim hf hf'"
  shows "\<exists>x fn x' fn'. vecs hf = Some x \<and> names hf = Some fn \<and> vecs hf' = Some x' \<and>
           names hf' = Some fn' \<and> prefix (frows x) (frows x') \<and> prefix fn fn' \<and> store_inv dim hf'"
  using assms(2)
proof (cases rule: store_step.cases)
  case (dump nms scores err)
  then show ?thesis by (rule dump_to_h5_extends [OF assms(1)])
qed

lemma created_store_inv: "store_inv dim (created_store dim)"
  by (simp add: store_inv_def created_store_def create_or_get_vecs_def create_or_get_names_def wf_table_def)

lemma store_reach_inv: "store_reach dim hf \<Longrightarrow> store_inv dim hf"
proof (induction rule: store_reach.induct)
  case created
  then show ?case by (rule created_store_inv)
next
  case (dumped hf hf')
  then show ?case using store_step_extends by blast
qed

lemma store_steps_extend:
  assumes "(store_step dim)\<^sup>*\<^sup>* hf hf'" and "store_inv dim hf"
  shows "\<exists>x fn x' fn'. vecs hf = Some x \<and> names hf = Some fn \<and> vecs hf' = Some x' \<and>
           names hf' = Some fn' \<and> prefix (frows x) (frows x') \<and> prefix fn fn' \<and> store_inv dim hf'"
  using assms
proof (induction rule: rtranclp_induct)
  case base
  then show ?case by (auto simp: store_inv_def split: option.splits)
next
  case (step hf1 hf2)
  then obtain x fn x1 fn1 where a: "vecs hf = Some x" "names hf = Some fn" "vecs hf1 = Some x1"
    "names hf1 = Some fn1" "prefix (frows x) (frows x1)" "prefix fn fn1" "store_inv dim hf1"
    by blast
  then obtain x2 fn2 where "vecs hf2 = Some x2" "names hf2 = Some fn2" "prefix (frows x1) (frows x2)"
    "prefix fn1 fn2" "store_inv dim hf2"
    using store_step_extends [OF a(7) step.hyps(2)] by auto
  then show ?case using a by (meson prefix_order.order_trans)
qed

section \<open>Properties of the history\<close>

text \<open>
  C15 (invariant): on a file created by \<open>main\<close> and grown only by calls of
  \<open>dump_to_h5\<close> with the same \<open>IMAGE_DIM\<close>, any further sequence of such calls,
  including calls that raise in the middle of their write loop, keeps the file well
  formed and never rewrites a stored row or name: the old contents of both datasets
  stay prefixes of the new ones.
\<close>

theorem store_history_append_only:
  assumes "store_reach dim hf" and "(store_step dim)\<^sup>*\<^sup>* hf hf'"
  shows "\<exists>x fn x' fn'. vecs hf = Some x \<and> names hf = Some fn \<and> vecs hf' = Some x' \<and>
           names hf' = Some fn' \<and> prefix (frows x) (frows x') \<and> prefix fn fn' \<and> wf_table hf'"
  using store_steps_extend [OF assms(2) store_reach_inv [OF assms(1)]] by (auto simp: store_inv_def split: option.splits)

theorem store_history_append_only_witness:
  "\<exists>x fn x' fn'.
     vecs (snd (dump_to_h5 2 [''r/a/1.jpg''] [[1, 2 :: int]] (created_store 2))) = Some x \<and>
     names (snd (dump_to_h5 2 [''r/a/1.jpg''] [[1, 2 :: int]] (created_store 2))) = Some fn \<and>
     vecs (snd (dump_to_h5 2 [''r/b/2.jpg''] [[3, 4 :: int]] (snd (dump_to_h5 2 [''r/a/1.jpg''] [[1, 2 :: int]] (created_store 2))))) = Some x' \<and>
     names (snd (dump_to_h5 2 [''r/b/2.jpg''] [[3, 4 :: int]] (snd (dump_to_h5 2 [''r/a/1.jpg''] [[1, 2 :: int]] (created_store 2))))) = Some fn' \<and>
     prefix (frows x) (frows x') \<and> prefix fn fn' \<and>
     wf_table (snd (dump_to_h5 2 [''r/b/2.jpg''] [[3, 4 :: int]] (snd (dump_to_h5 2 [''r/a/1.jpg''] [[1, 2 :: int]] (created_store 2)))))"
proof -
  let ?hf1 = "snd (dump_to_h5 2 [''r/a/1.jpg''] [[1, 2 :: int]] (created_store 2))"
  let ?hf2 = "snd (dump_to_h5 2 [''r/b/2.jpg''] [[3, 4]] ?hf1)"
  have s1: "store_step 2 (created_store 2) ?hf1"
    by (rule store_step.dump [where err = "fst (dump_to_h5 2 [''r/a/1.jpg''] [[1, 2 :: int]] (created_store 2))"]) simp
  have s2: "store_step 2 ?hf1 ?hf2"
    by (rule store_step.dump [where err = "fst (dump_to_h5 2 [''r/b/2.jpg''] [[3, 4]] ?hf1)"]) simp
  have r: "store_reach 2 ?hf1" using store_reach.dumped [OF store_reach.created s1] .
  show ?thesis using store_history_append_only [OF r r_into_rtranclp [of "store_step 2", OF s2]] by simp
qed

text \<open>
  C16 (safety): the append-only promise depends on \<open>IMAGE_DIM\<close> staying fixed.  When a
  file built with \<open>IMAGE_DIM = D\<close> is extended by a run configured with a smaller
  \<open>d\<close>, \<open>resize((n, d))\<close> succeeds (\<open>d\<close> is within \<open>maxshape\<close>), every stored
  vector is cut to its first \<open>d\<close> entries, the new vectors are appended at width
  \<open>d\<close>, and the call returns normally; the old rows are then no longer a prefix of the
  dataset.
\<close>

theorem dump_to_h5_lower_dim_truncates:
  assumes "store_reach dim hf" and "vecs hf = Some x" and "names hf = Some fn" and "d < dim"
    and "length scores = length nms" and "list_all (\<lambda>v. length v = d) scores"
  shows "dump_to_h5 d nms scores hf =
           (None, hf\<lparr>vecs := Some (x\<lparr>frows := map (take d) (frows x) @ scores, fwidth := d\<rparr>),
                     names := Some (fn @ nms)\<rparr>) \<and>
         (frows x \<noteq> [] \<longrightarrow> \<not> prefix (frows x) (map (take d) (frows x) @ scores))"
proof -
  have inv: "fwidth x = dim" "fmaxwidth x = dim" "wf_table hf"
    using store_reach_inv [OF assms(1)] assms(2,3) by (simp_all add: store_inv_def)
  have rows: "length (frows x) = length fn" "list_all (\<lambda>r. length r = dim) (frows x)"
    using inv(1,3) assms(2,3) by (simp_all add: wf_table_def)
  let ?x1 = "x\<lparr>frows := map (take d) (frows x) @ replicate (length nms) (replicate d 0), fwidth := d\<rparr>"
  have "write_loop (length (frows x)) nms scores ?x1 (fn @ replicate (length nms) '''') =
          (None, ?x1\<lparr>frows := map (take d) (frows x) @ scores\<rparr>, fn @ nms)"
    using write_loop_ok [of nms scores "length (frows x)" ?x1 "fn @ replicate (length nms) ''''"]
      assms(5,6) rows(1) by simp
  then have eq: "dump_to_h5 d nms scores hf =
           (None, hf\<lparr>vecs := Some (x\<lparr>frows := map (take d) (frows x) @ scores, fwidth := d\<rparr>),
                     names := Some (fn @ nms)\<rparr>)"
    using dump_to_h5_narrow [OF inv(3) assms(2,3) _ assms(5)] inv(1) assms(4) by simp
  have "frows x \<noteq> [] \<longrightarrow> \<not> prefix (frows x) (map (take d) (frows x) @ scores)"
  proof
    assume "frows x \<noteq> []"
    then obtain a l where a: "frows x = a # l" by (cases "frows x") simp_all
    then have "length (take d a) \<noteq> length a" using rows(2) inv(1) assms(4) by simp
    then have "take d a \<noteq> a" by metis
    then show "\<not> prefix (frows x) (map (take d) (frows x) @ scores)" using a by (metis Cons_prefix_Cons list.simps(9) append_Cons)
  qed
  then show ?thesis using eq by simp
qed

theorem dump_to_h5_lower_dim_truncates_witness:
  "dump_to_h5 2 [''r/b/2.jpg''] [[4, 5]] (snd (dump_to_h5 3 [''r/a/1.jpg''] [[1, 2, 3 :: int]] (created_store 3))) =
     (None, \<lparr>vecs = Some \<lparr>frows = [[1, 2], [4, 5]], fwidth = 2, fmaxwidth = 3\<rparr>,
             names = Some [''r/a/1.jpg'', ''r/b/2.jpg'']\<rparr>) \<and>
   \<not> prefix [[1, 2, 3 :: int]] [[1, 2], [4, 5]]"
proof -
  let ?hf = "snd (dump_to_h5 3 [''r/a/1.jpg''] [[1, 2, 3 :: int]] (created_store 3))"
  have s: "store_step 3 (created_store 3) ?hf"
    by (rule store_step.dump [where err = "fst (dump_to_h5 3 [''r/a/1.jpg''] [[1, 2, 3 :: int]] (created_store 3))"]) simp
  have r: "store_reach 3 ?hf" using store_reach.dumped [OF store_reach.created s] .
  have hf: "?hf = \<lparr>vecs = Some \<lparr>frows = [[1, 2, 3]], fwidth = 3, fmaxwidth = 3\<rparr>, names = Some [''r/a/1.jpg'']\<rparr>"
    by (simp add: dump_to_h5_def created_store_def create_or_get_vecs_def create_or_get_names_def
        resize_vecs_def resize_names_def fit_row_def write_row_def write_name_def)
  show ?thesis
    using dump_to_h5_lower_dim_truncates [OF r, of "\<lparr>frows = [[1, 2, 3]], fwidth = 3, fmaxwidth = 3\<rparr>"
        "[''r/a/1.jpg'']" 2 "[[4, 5]]" "[''r/b/2.jpg'']"] hf by simp
qed

end
