(* ===== verification/Similarity.thy ===== *)
theory Similarity
  imports Complex_Main Prelude
begin

text \<open>
  The caption-image similarity model of \<open>simplified_complete_model.py\<close>: the class
  \<open>FullModel\<close> checks the caption's shape when it is built (lines 18-35), and
  \<open>predict\<close> (lines 67-78) checks the image's shape, runs the VGG16 \<open>fc2\<close> network and
  the trained caption network, and returns the value of \<open>custom_distance_function\<close>
  (lines 37-65) on the caption network's output.  The two networks are parameters.
  Tensor entries are reals (floating-point rounding is not modelled) or NaN, written
  \<open>None\<close>: the only NaN the code can produce is \<open>0 / 0\<close> in the L2 normalisation
  of an all-zero vector.  Keras' shape errors of the element-wise product are
  ValueError.
\<close>

section \<open>Tensor helpers\<close>

type_synonym fval = "real option"

definition fdiv :: "real \<Rightarrow> real \<Rightarrow> fval" where
  "fdiv a d = (if d = 0 then None else Some (a / d))"

definition fmul :: "fval \<Rightarrow> fval \<Rightarrow> fval" where
  "fmul x y = (case (x, y) of (Some a, Some b) \<Rightarrow> Some (a * b) | _ \<Rightarrow> None)"

text \<open>\<open>K.sum\<close> of a vector: NaN as soon as one entry is NaN.\<close>

fun fsum :: "fval list \<Rightarrow> fval" where
  "fsum [] = Some 0"
| "fsum (x # xs) = (case (x, fsum xs) of (Some a, Some s) \<Rightarrow> Some (a + s) | _ \<Rightarrow> None)"

text \<open>The element-wise product of two rows with NumPy's broadcasting of a length-1 row.\<close>

definition np_multiply :: "fval list \<Rightarrow> fval list \<Rightarrow> py_error + fval list" where
  "np_multiply a b =
     (let w = (if length a = 1 then length b else length a) in
      case (broadcast_row w a, broadcast_row w b) of
        (Some a', Some b') \<Rightarrow> Inr (map2 fmul a' b')
      | _ \<Rightarrow> Inl ValueError)"

section \<open>\<open>custom_distance_function\<close>\<close>

text \<open>Lines 39-42: \<open>x[:, :WORD_DIM]\<close>, \<open>x[:, WORD_DIM:]\<close> and \<open>x[0:1, :]\<close>.\<close>

definition select_images :: "nat \<Rightarrow> real list list \<Rightarrow> real list list" where
  "select_images wd x = map (take wd) x"

definition select_words :: "nat \<Rightarrow> real list list \<Rightarrow> real list list" where
  "select_words wd x = map (drop wd) x"

definition slice_first :: "'a list \<Rightarrow> 'a list" where
  "slice_first x = take 1 x"

text \<open>Lines 55-56: \<open>l2(x) = sqrt(sum(square(x), axis=1))\<close> and \<open>x / l2(x)\<close> for one row.\<close>

definition l2 :: "real list \<Rightarrow> real" where
  "l2 r = sqrt (sum_list (map (\<lambda>a. a\<^sup>2) r))"

definition l2norm :: "real list \<Rightarrow> fval list" where
  "l2norm r = map (\<lambda>a. fdiv a (l2 r)) r"

text \<open>
  Lines 44-65: the first image row and the first word row are normalised, multiplied
  element-wise and summed along the row, and the per-row sums are summed again.
\<close>

definition custom_distance_function :: "nat \<Rightarrow> real list list \<Rightarrow> py_error + fval" where
  "custom_distance_function wd y_pred =
     (let correct_image = map l2norm (slice_first (select_images wd y_pred));
          correct_word = map l2norm (slice_first (select_words wd y_pred)) in
      bind_py (map_py (\<lambda>(ci, cw). np_multiply ci cw) (zip correct_image correct_word))
        (\<lambda>prods. Inr (fsum (map fsum prods))))"

section \<open>The model\<close>

record 'caption full_model =
  fm_WORD_DIM :: nat
  fm_BATCH :: nat
  fm_caption :: "'caption"

text \<open>
  \<open>__init__\<close>: the caption must have shape \<open>(1, 20)\<close> and the caption network's
  file must exist (\<open>rnn_file_exists\<close>); loading the two networks is not modelled.
\<close>

definition full_model_init :: "int list list \<Rightarrow> bool \<Rightarrow> py_error + int list list full_model" where
  "full_model_init caption rnn_file_exists =
     (if \<not> (length caption = 1 \<and> length (hd caption) = 20) then Inl AssertionError
      else if \<not> rnn_file_exists then Inl AssertionError
      else Inr \<lparr>fm_WORD_DIM = 300, fm_BATCH = 1, fm_caption = caption\<rparr>)"

text \<open>
  \<open>predict(x)\<close>: the image tensor's shape must be \<open>(1, 3, 224, 224)\<close>; the value is
  the loss of \<open>test_on_batch\<close>, which is \<open>custom_distance_function\<close> of the caption
  network's output (the targets \<open>np.zeros(1)\<close> are not read).
\<close>

definition predict ::
  "('x \<Rightarrow> 'feat) \<Rightarrow> ('feat \<Rightarrow> 'caption \<Rightarrow> real list list) \<Rightarrow> 'caption full_model \<Rightarrow> nat list \<Rightarrow> 'x \<Rightarrow>
   py_error + fval" where
  "predict top_model rnn_model self x_shape x =
     (if x_shape \<noteq> [1, 3, 224, 224] then Inl AssertionError
      else custom_distance_function (fm_WORD_DIM self) (rnn_model (top_model x) (fm_caption self)))"

section \<open>The reference: cosine similarity\<close>

definition inner :: "real list \<Rightarrow> real list \<Rightarrow> real" where
  "inner u v = sum_list (map2 (*) u v)"

text \<open>
  The cosine of two vectors, written with the inner product alone: its norms are
  \<open>sqrt (inner u u)\<close>, independent of the code's \<open>l2\<close>.
\<close>

definition cosine :: "real list \<Rightarrow> real list \<Rightarrow> real" where
  "cosine u v = inner u v / (sqrt (inner u u) * sqrt (inner v v))"

section \<open>Lemmas on the tensor helpers\<close>

lemma l2_inner: "l2 r = sqrt (inner r r)"
  by (simp add: l2_def inner_def zip_same_conv_map o_def power2_eq_square)

lemma cosine_l2: "cosine u v = inner u v / (l2 u * l2 v)"
  by (simp add: cosine_def l2_inner)

lemma fsum_Some [simp]: "fsum (map Some xs) = Some (sum_list xs)"
  by (induction xs) auto

lemma fsum_Some_comp [simp]: "fsum (map (Some \<circ> f) xs) = Some (sum_list (map f xs))"
  by (induction xs) auto

lemma fsum_Some_lambda [simp]: "fsum (map (\<lambda>x. Some (f x)) xs) = Some (sum_list (map f xs))"
  by (induction xs) auto

lemma fsum_None: "None \<in> set xs \<Longrightarrow> fsum xs = None"
  by (induction xs) (auto split: option.splits)

lemma map2_fmul_Some [simp]:
  "map2 fmul (map (\<lambda>x. Some (f x)) xs) (map (\<lambda>y. Some (g y)) ys) = map Some (map2 (\<lambda>x y. f x * g y) xs ys)"
  by (induction xs arbitrary: ys) (auto simp: fmul_def zip_Cons1 split: list.splits)

lemma np_multiply_same: "length a = length b \<Longrightarrow> np_multiply a b = Inr (map2 fmul a b)"
  by (simp add: np_multiply_def Let_def)

lemma l2norm_nonzero: "l2 r \<noteq> 0 \<Longrightarrow> l2norm r = map (\<lambda>a. Some (a / l2 r)) r"
  by (simp add: l2norm_def fdiv_def)

lemma l2norm_zero: "l2 r = 0 \<Longrightarrow> l2norm r = replicate (length r) None"
  by (simp add: l2norm_def fdiv_def map_replicate_const)

lemma l2_replicate_zero [simp]: "l2 (replicate n 0) = 0"
  by (simp add: l2_def sum_list_replicate)

lemma sum_sq_nonneg: "0 \<le> sum_list (map (\<lambda>a. a\<^sup>2) (r :: real list))"
  by (induction r) auto

lemma l2_sq: "(l2 r)\<^sup>2 = sum_list (map (\<lambda>a. a\<^sup>2) r)"
  by (simp add: l2_def sum_sq_nonneg)

lemma map2_scale:
  "map2 (*) (map (\<lambda>a. a / c) u) (map (\<lambda>b. b / d) v) = map2 (\<lambda>a b. a * b / (c * d)) u (v :: real list)"
  by (induction u arbitrary: v) (auto simp: zip_Cons1 split: list.splits)

lemma inner_scale:
  "inner (map (\<lambda>a. a / c) u) (map (\<lambda>b. b / d) v) = inner u v / (c * d)"
proof (induction u arbitrary: v)
  case Nil
  then show ?case by (simp add: inner_def)
next
  case (Cons x u)
  then show ?case
    by (cases v) (simp_all add: inner_def add_divide_distrib)
qed

lemma sum_sq_scale:
  "sum_list (map (\<lambda>a. (a / c)\<^sup>2) r) = sum_list (map (\<lambda>a. a\<^sup>2) r) / (c :: real)\<^sup>2"
  by (induction r) (simp_all add: add_divide_distrib power_divide)

lemma sum_sq_unit: "l2 r \<noteq> 0 \<Longrightarrow> sum_list (map (\<lambda>a. (a / l2 r)\<^sup>2) r) = 1"
  by (simp add: sum_sq_scale l2_sq [symmetric])

lemma sum_sq_diff:
  "length a = length b \<Longrightarrow>
   sum_list (map2 (\<lambda>x y. (x - y)\<^sup>2) a b) =
     sum_list (map (\<lambda>x. x\<^sup>2) a) - 2 * inner a b + sum_list (map (\<lambda>y. y\<^sup>2) b)"
  by (induction a b rule: list_induct2) (simp_all add: inner_def power2_diff)

lemma sum_sq_sum:
  "length a = length b \<Longrightarrow>
   sum_list (map2 (\<lambda>x y. (x + y)\<^sup>2) a b) =
     sum_list (map (\<lambda>x. x\<^sup>2) a) + 2 * inner a b + sum_list (map (\<lambda>y. y\<^sup>2) b)"
  by (induction a b rule: list_induct2) (simp_all add: inner_def power2_sum)

lemma sum_map2_nonneg: "(\<And>x y. 0 \<le> (f x y :: real)) \<Longrightarrow> 0 \<le> sum_list (map2 f a b)"
  by (induction a b rule: list_induct2') (simp_all add: add_nonneg_nonneg)

text \<open>Cauchy-Schwarz for unit vectors: the inner product of two unit rows lies in \<open>[-1, 1]\<close>.\<close>

lemma inner_unit_bounds:
  assumes "length a = length b"
    and "sum_list (map (\<lambda>x. x\<^sup>2) a) = 1" and "sum_list (map (\<lambda>x. x\<^sup>2) b) = 1"
  shows "-1 \<le> inner a b \<and> inner a b \<le> 1"
proof -
  have "0 \<le> sum_list (map2 (\<lambda>x y. (x - y)\<^sup>2) a b)" by (rule sum_map2_nonneg) simp
  moreover have "0 \<le> sum_list (map2 (\<lambda>x y. (x + y)\<^sup>2) a b)" by (rule sum_map2_nonneg) simp
  ultimately show ?thesis using sum_sq_diff [OF assms(1)] sum_sq_sum [OF assms(1)] assms(2,3) by simp
qed

lemma cosine_bounds:
  assumes "length u = length v" and "l2 u \<noteq> 0" and "l2 v \<noteq> 0"
  shows "-1 \<le> cosine u v \<and> cosine u v \<le> 1"
proof -
  have "-1 \<le> inner (map (\<lambda>a. a / l2 u) u) (map (\<lambda>b. b / l2 v) v) \<and>
        inner (map (\<lambda>a. a / l2 u) u) (map (\<lambda>b. b / l2 v) v) \<le> 1"
    using assms by (intro inner_unit_bounds) (simp_all add: o_def sum_sq_unit)
  then show ?thesis by (simp add: inner_scale cosine_l2)
qed

lemma custom_distance_first_row:
  assumes "length r = 2 * wd" and "l2 (take wd r) \<noteq> 0" and "l2 (drop wd r) \<noteq> 0"
  shows "custom_distance_function wd (r # rs) =
           Inr (Some (inner (map (\<lambda>a. a / l2 (take wd r)) (take wd r))
                            (map (\<lambda>b. b / l2 (drop wd r)) (drop wd r))))"
  using assms
  by (simp add: custom_distance_function_def select_images_def select_words_def slice_first_def
      l2norm_nonzero np_multiply_same inner_def map2_scale)

lemma fsum_map2_None:
  assumes "length a = length b" and "0 < length a"
    and "a = replicate (length a) None \<or> b = replicate (length b) None"
  shows "fsum (map2 fmul a b) = None"
proof -
  obtain x xs y ys where a: "a = x # xs" and b: "b = y # ys"
    using assms(1,2) by (cases a; cases b) auto
  have "fmul x y = None" using assms(3) a b by (cases x; cases y) (auto simp: fmul_def)
  then show ?thesis using a b by simp
qed

lemma custom_distance_zero_norm:
  assumes "length r = 2 * wd" and "0 < wd" and "l2 (take wd r) = 0 \<or> l2 (drop wd r) = 0"
  shows "custom_distance_function wd (r # rs) = Inr None"
proof -
  let ?a = "l2norm (take wd r)" and ?b = "l2norm (drop wd r)"
  have l: "length ?a = wd" "length ?b = wd" using assms(1) by (simp_all add: l2norm_def)
  have "?a = replicate (length ?a) None \<or> ?b = replicate (length ?b) None"
    using assms(3) by (auto simp: l2norm_zero)
  with l assms(2) have "fsum (map2 fmul ?a ?b) = None" by (intro fsum_map2_None) simp_all
  then show ?thesis using l
    by (simp add: custom_distance_function_def select_images_def select_words_def slice_first_def
        np_multiply_same)
qed

lemma custom_distance_bounds_row:
  assumes "length r = 2 * wd" and "custom_distance_function wd (r # rs) = Inr (Some c)"
  shows "-1 \<le> c \<and> c \<le> 1"
proof (cases "wd = 0")
  case True
  then have "r = []" using assms(1) by simp
  then show ?thesis using assms(2) True
    by (simp add: custom_distance_function_def select_images_def select_words_def slice_first_def
        l2norm_def np_multiply_def)
next
  case False
  show ?thesis
  proof (cases "l2 (take wd r) = 0 \<or> l2 (drop wd r) = 0")
    case True
    then show ?thesis using custom_distance_zero_norm [OF assms(1) _ True] False assms(2) by simp
  next
    case nz: False
    then have "c = cosine (take wd r) (drop wd r)"
      using custom_distance_first_row [OF assms(1)] assms(2) by (simp add: inner_scale cosine_l2)
    then show ?thesis using cosine_bounds [of "take wd r" "drop wd r"] nz assms(1) by simp
  qed
qed

section \<open>Properties of the similarity model\<close>

text \<open>
  C29 (equivalence): on an output row of width \<open>2 * WORD_DIM\<close> whose image half and
  word half are not zero, \<open>custom_distance_function\<close> computes exactly the cosine
  similarity of the two halves (the reference definition \<open>cosine\<close>); the other rows
  of the batch are not read.
\<close>

theorem custom_distance_cosine:
  assumes "length r = 2 * wd" and "l2 (take wd r) \<noteq> 0" and "l2 (drop wd r) \<noteq> 0"
  shows "custom_distance_function wd (r # rs) = Inr (Some (cosine (take wd r) (drop wd r)))"
  using custom_distance_first_row [OF assms] by (simp add: inner_scale cosine_l2)

theorem custom_distance_cosine_witness:
  "custom_distance_function 1 [[3, -4], [5, 5]] = Inr (Some (cosine [3] [-4])) \<and> cosine [3] [-4] = -1"
proof -
  have "l2 [3] \<noteq> 0" and "l2 [-4] \<noteq> 0" by (simp_all add: l2_def)
  moreover have "sqrt 9 = (3 :: real)" and "sqrt 16 = (4 :: real)"
    by (simp_all add: real_sqrt_unique)
  ultimately show ?thesis using custom_distance_cosine [of "[3, -4]" 1 "[[5, 5]]"]
    by (simp add: cosine_def inner_def)
qed

text \<open>
  C31 (error): the two error paths of the loss.  When the image half or the word half
  of the first row is all zeros, the L2 normalisation divides \<open>0\<close> by \<open>0\<close> and the
  similarity is NaN, without an exception.  When the word half has neither the image
  half's width nor width 1 (and the image half is not of width 1), the element-wise
  product cannot be broadcast and the loss raises ValueError.
\<close>

theorem custom_distance_errors:
  "(length r = 2 * wd \<and> 0 < wd \<and> (take wd r = replicate wd 0 \<or> drop wd r = replicate wd 0) \<longrightarrow>
      custom_distance_function wd (r # rs) = Inr None) \<and>
   (wd \<le> length r \<and> length r - wd \<noteq> wd \<and> length r - wd \<noteq> 1 \<and> wd \<noteq> 1 \<longrightarrow>
      custom_distance_function wd (r # rs) = Inl ValueError)"
proof (intro conjI impI)
  assume "length r = 2 * wd \<and> 0 < wd \<and> (take wd r = replicate wd 0 \<or> drop wd r = replicate wd 0)"
  then show "custom_distance_function wd (r # rs) = Inr None"
    using custom_distance_zero_norm [of r wd] by auto
next
  assume "wd \<le> length r \<and> length r - wd \<noteq> wd \<and> length r - wd \<noteq> 1 \<and> wd \<noteq> 1"
  then show "custom_distance_function wd (r # rs) = Inl ValueError"
    by (auto simp: custom_distance_function_def select_images_def select_words_def slice_first_def
        np_multiply_def broadcast_row_def l2norm_def min_def)
qed

theorem custom_distance_errors_witness:
  "custom_distance_function 2 [[0, 0, 1, 2]] = Inr None \<and>
   custom_distance_function 2 [[1, 2, 3, 4, 5]] = Inl ValueError"
  using custom_distance_errors [of "[0, 0, 1, 2]" 2 "[]"] custom_distance_errors [of "[1, 2, 3, 4, 5]" 2 "[]"]
  by (simp add: numeral_2_eq_2)

lemma map2_replicate_right: "map2 f xs (replicate (length xs) y) = map (\<lambda>x. f x y) xs"
  by (induction xs) simp_all

text \<open>NumPy broadcasts a one-entry right operand along the left one.\<close>

lemma np_multiply_single:
  assumes "length a = wd" and "0 < wd"
  shows "np_multiply a [b] = Inr (map (\<lambda>x. fmul x b) a)"
proof (cases "wd = 1")
  case True
  then obtain x where "a = [x]" using assms(1) by (cases a) auto
  then show ?thesis by (simp add: np_multiply_def)
next
  case False
  then have "broadcast_row wd [b] = Some (replicate wd b)" by (simp add: broadcast_row_def)
  then show ?thesis using assms False map2_replicate_right [of fmul a b] by (simp add: np_multiply_def)
qed

text \<open>
  C32 (functional): \<open>custom_distance_function\<close> does not check that the two halves
  have the same width.  When the caption network's output row has a single entry
  \<open>w \<noteq> 0\<close> after the first \<open>WORD_DIM\<close> entries, NumPy broadcasts it, and the value
  is \<open>sgn w\<close> times the sum of the image half divided by its norm, which is no cosine:
  for \<open>WORD_DIM = 300\<close> and a row of ones it is \<open>sqrt 300\<close>.
\<close>

theorem custom_distance_broadcast_word:
  assumes "length r = Suc wd" and "l2 (take wd r) \<noteq> 0" and "r ! wd \<noteq> 0"
  shows "custom_distance_function wd (r # rs) =
           Inr (Some (sgn (r ! wd) * sum_list (take wd r) / l2 (take wd r)))"
proof -
  let ?a = "take wd r" and ?w = "r ! wd"
  have wd: "0 < wd" using assms(2) by (cases wd) (simp_all add: l2_def)
  have d: "drop wd r = [?w]"
    using assms(1) Cons_nth_drop_Suc [of wd r] by simp
  have n: "l2norm [?w] = [Some (sgn ?w)]"
    using assms(3) by (simp add: l2norm_def l2_def fdiv_def real_sgn_eq)
  have a: "l2norm ?a = map (\<lambda>a. Some (a / l2 ?a)) ?a" using l2norm_nonzero [OF assms(2)] .
  have m: "np_multiply (l2norm ?a) [Some (sgn ?w)] = Inr (map (\<lambda>a. Some (a / l2 ?a * sgn ?w)) ?a)"
    using np_multiply_single [of "l2norm ?a" wd "Some (sgn ?w)"] assms(1) wd a
    by (simp add: fmul_def l2norm_def)
  have "sum_list (map (\<lambda>a. a / l2 ?a * sgn ?w) ?a) = sgn ?w * sum_list ?a / l2 ?a"
    using sum_list_const_mult [of "sgn ?w / l2 ?a" "\<lambda>a. a" ?a] by (simp add: field_simps)
  then show ?thesis using d n m
    by (simp add: custom_distance_function_def select_images_def select_words_def slice_first_def o_def)
qed

theorem custom_distance_broadcast_word_witness:
  "custom_distance_function 300 [replicate 301 1] = Inr (Some (sqrt 300)) \<and> 1 < sqrt (300 :: real)"
proof -
  have l: "l2 (take 300 (replicate 301 1)) = sqrt 300" by (simp add: l2_def sum_list_replicate)
  then have "l2 (take 300 (replicate 301 1)) \<noteq> 0" by simp
  moreover have "300 / sqrt 300 = sqrt (300 :: real)" by (simp add: real_div_sqrt)
  ultimately show ?thesis
    using custom_distance_broadcast_word [of "replicate 301 1" 300 "[]"] l by (simp add: sum_list_replicate)
qed

text \<open>
  C30 (bounds): for a model built by \<open>FullModel\<close> and a caption network whose output
  rows have width \<open>2 * WORD_DIM = 600\<close>, every similarity \<open>predict\<close> returns that is
  not NaN lies in \<open>[-1, 1]\<close>.
\<close>

theorem predict_bounds:
  assumes "full_model_init caption ok = Inr self"
    and "\<forall>f. rnn_model f caption \<noteq> [] \<and> length (hd (rnn_model f caption)) = 600"
    and "predict top_model rnn_model self x_shape x = Inr (Some c)"
  shows "-1 \<le> c \<and> c \<le> 1"
proof -
  have s: "fm_WORD_DIM self = 300" "fm_caption self = caption"
    using assms(1) by (auto simp: full_model_init_def split: if_splits)
  have ne: "rnn_model (top_model x) caption \<noteq> []"
    and w: "length (hd (rnn_model (top_model x) caption)) = 600"
    using assms(2) by blast+
  obtain r rs where r: "rnn_model (top_model x) caption = r # rs"
    using ne by (cases "rnn_model (top_model x) caption") auto
  have l: "length r = 2 * 300" using w r by simp
  have "custom_distance_function 300 (r # rs) = Inr (Some c)"
    using assms(3) s r by (simp add: predict_def split: if_splits)
  then show ?thesis using custom_distance_bounds_row [OF l] by blast
qed

theorem predict_bounds_witness:
  "\<exists>c. predict id (\<lambda>_ _. [replicate 600 1]) \<lparr>fm_WORD_DIM = 300, fm_BATCH = 1, fm_caption = [replicate 20 (0 :: int)]\<rparr>
         [1, 3, 224, 224] (0 :: nat) = Inr (Some c) \<and> -1 \<le> c \<and> c \<le> 1"
proof -
  let ?self = "\<lparr>fm_WORD_DIM = 300, fm_BATCH = 1, fm_caption = [replicate 20 (0 :: int)]\<rparr>"
  have i: "full_model_init [replicate 20 0] True = Inr ?self" by (simp add: full_model_init_def)
  have "l2 (take 300 (replicate 600 1)) \<noteq> 0" "l2 (drop 300 (replicate 600 1)) \<noteq> 0"
    by (simp_all add: l2_def sum_list_replicate)
  from custom_distance_first_row [of "replicate 600 1" 300, OF _ this]
  obtain c where c: "predict id (\<lambda>_ _. [replicate 600 1]) ?self [1, 3, 224, 224] (0 :: nat) = Inr (Some c)"
    by (simp add: predict_def)
  have "\<forall>f. (\<lambda>_ _. [replicate 600 (1 :: real)]) f [replicate 20 (0 :: int)] \<noteq> [] \<and>
      length (hd ((\<lambda>_ _. [replicate 600 (1 :: real)]) f [replicate 20 (0 :: int)])) = 600" by simp
  from predict_bounds [OF i this c] c show ?thesis by blast
qed

end
