(* ===== verification/Network.thy ===== *)
theory Network
  imports Prelude
begin

text \<open>
  The VGG16 feature network of \<open>define_model\<close> (lines 163-212 of
  \<open>extract_features_and_dump.py\<close>) at the level of tensor shapes: the layers in
  source order and Keras' shape inference, which raises ValueError when a pooling
  window does not fit, and the loading of the weights, which raises IOError when the
  weight file is missing.  Shapes leave out the batch axis.  Whether the channel axis
  comes first or last is Keras' global \<open>image_data_format\<close>, which the source does not
  set.  The weight values and the activation values are not modelled.
\<close>

datatype data_format = ChannelsFirst | ChannelsLast

datatype layer =
  Conv2D nat "nat \<times> nat"
  | MaxPooling2D "nat \<times> nat" "nat \<times> nat"
  | Flatten
  | Dense nat

text \<open>Lines 168-199: the sixteen layers after the input.\<close>

definition vgg16_layers :: "nat \<Rightarrow> layer list" where
  "vgg16_layers image_dim =
     [Conv2D 64 (3, 3), Conv2D 64 (3, 3), MaxPooling2D (2, 2) (2, 2),
      Conv2D 128 (3, 3), Conv2D 128 (3, 3), MaxPooling2D (2, 2) (2, 2),
      Conv2D 256 (3, 3), Conv2D 256 (3, 3), Conv2D 256 (3, 3), MaxPooling2D (2, 2) (2, 2),
      Conv2D 512 (3, 3), Conv2D 512 (3, 3), Conv2D 512 (3, 3), MaxPooling2D (2, 2) (2, 2),
      Conv2D 512 (3, 3), Conv2D 512 (3, 3), Conv2D 512 (3, 3), MaxPooling2D (2, 2) (2, 2),
      Flatten, Dense image_dim, Dense image_dim]"

text \<open>Line 165: \<open>input_shape = (3, 224, 224)\<close>.\<close>

definition vgg16_input :: "nat list" where
  "vgg16_input = [3, 224, 224]"

text \<open>
  Keras' output length of a \<open>'valid'\<close> window: \<open>(n - k) // s + 1\<close>, and TensorFlow
  rejects a window larger than the input.
\<close>

definition pool_length :: "nat \<Rightarrow> nat \<Rightarrow> nat \<Rightarrow> py_error + nat" where
  "pool_length n k s = (if n < k \<or> s = 0 then Inl ValueError else Inr ((n - k) div s + 1))"

text \<open>
  The shape a layer gives a 3-axis input: \<open>'same'\<close> convolutions keep the spatial axes
  and replace the channels, pooling shrinks the two spatial axes, \<open>Flatten\<close> multiplies
  out, \<open>Dense\<close> replaces the last axis.
\<close>

fun layer_shape :: "data_format \<Rightarrow> layer \<Rightarrow> nat list \<Rightarrow> py_error + nat list" where
  "layer_shape ChannelsFirst (Conv2D f _) [c, h, w] = Inr [f, h, w]"
| "layer_shape ChannelsLast (Conv2D f _) [h, w, c] = Inr [h, w, f]"
| "layer_shape ChannelsFirst (MaxPooling2D (ph, pw) (sh, sw)) [c, h, w] =
     bind_py (pool_length h ph sh) (\<lambda>h'. bind_py (pool_length w pw sw) (\<lambda>w'. Inr [c, h', w']))"
| "layer_shape ChannelsLast (MaxPooling2D (ph, pw) (sh, sw)) [h, w, c] =
     bind_py (pool_length h ph sh) (\<lambda>h'. bind_py (pool_length w pw sw) (\<lambda>w'. Inr [h', w', c]))"
| "layer_shape _ Flatten s = (if s = [] then Inl ValueError else Inr [prod_list s])"
| "layer_shape _ (Dense u) s = (if s = [] then Inl ValueError else Inr (butlast s @ [u]))"
| "layer_shape _ _ _ = Inl ValueError"

fun model_shape :: "data_format \<Rightarrow> layer list \<Rightarrow> nat list \<Rightarrow> py_error + nat list" where
  "model_shape df [] s = Inr s"
| "model_shape df (l # ls) s = bind_py (layer_shape df l s) (model_shape df ls)"

text \<open>\<open>define_model\<close>: building the graph either fails or gives the shape of \<open>fc2\<close>.\<close>

definition define_model_shape :: "data_format \<Rightarrow> nat \<Rightarrow> py_error + nat list" where
  "define_model_shape df image_dim = model_shape df (vgg16_layers image_dim) vgg16_input"

text \<open>
  Lines 203-212: \<open>model.load_weights(path, by_name=True)\<close> opens the HDF5 file at
  \<open>path\<close>, which raises IOError when there is no such file (\<open>weights_exist\<close>), and
  \<open>convert_all_kernels_in_model\<close> flips the kernels in place; neither changes a shape.
\<close>

definition define_model :: "data_format \<Rightarrow> nat \<Rightarrow> bool \<Rightarrow> py_error + nat list" where
  "define_model df image_dim weights_exist =
     bind_py (define_model_shape df image_dim) (\<lambda>s. if weights_exist then Inr s else Inl IOError)"

section \<open>Properties of the network\<close>

lemma define_model_channels_first_ok: "define_model ChannelsFirst image_dim True = Inr [image_dim]"
  by (simp add: define_model_def define_model_shape_def vgg16_layers_def vgg16_input_def pool_length_def)

text \<open>A \<open>2 x 2\<close> pooling with stride 2 halves an axis of length at least 2.\<close>

lemma pool_half: "pool_length n 2 2 = (if n < 2 then Inl ValueError else Inr (n div 2))"
  by (simp add: pool_length_def le_div_geq)

lemma vgg16_shape_first:
  "model_shape ChannelsFirst (take 19 (vgg16_layers image_dim)) [c, h, w] =
     (if 32 \<le> h \<and> 32 \<le> w then Inr [512 * (h div 32) * (w div 32)] else Inl ValueError) \<and>
   model_shape ChannelsFirst (vgg16_layers image_dim) [c, h, w] =
     (if 32 \<le> h \<and> 32 \<le> w then Inr [image_dim] else Inl ValueError)"
  by (simp add: vgg16_layers_def pool_half div_mult2_eq [symmetric] div_less_iff_less_mult)

lemma vgg16_shape_last:
  "model_shape ChannelsLast (vgg16_layers image_dim) [h, w, c] =
     (if 32 \<le> h \<and> 32 \<le> w then Inr [image_dim] else Inl ValueError)"
  by (simp add: vgg16_layers_def pool_half div_mult2_eq [symmetric] div_less_iff_less_mult)

text \<open>
  C35 (type): the network's shapes for every input.  With \<open>c\<close> channels and a
  spatial size \<open>h x w\<close>, the five pooling blocks succeed exactly when both sides are at
  least 32; then \<open>Flatten\<close> has \<open>512 * (h div 32) * (w div 32)\<close> entries (25088 for
  \<open>224 x 224\<close>, as the comment on line 208 says) and \<open>fc2\<close> exactly \<open>IMAGE_DIM\<close>;
  otherwise a pooling raises ValueError.  The same holds with the channel axis last.
  For the source's input \<open>(3, 224, 224)\<close> this means: with the channel axis first
  \<open>define_model\<close> builds a network of output width \<open>IMAGE_DIM\<close>; with Keras' default
  channel-last format the input is read as height 3 and \<open>define_model\<close> fails.
\<close>

theorem define_model_formats:
  "model_shape ChannelsFirst (take 19 (vgg16_layers image_dim)) [c, h, w] =
     (if 32 \<le> h \<and> 32 \<le> w then Inr [512 * (h div 32) * (w div 32)] else Inl ValueError) \<and>
   model_shape ChannelsFirst (vgg16_layers image_dim) [c, h, w] =
     (if 32 \<le> h \<and> 32 \<le> w then Inr [image_dim] else Inl ValueError) \<and>
   model_shape ChannelsLast (vgg16_layers image_dim) [h, w, c] =
     (if 32 \<le> h \<and> 32 \<le> w then Inr [image_dim] else Inl ValueError) \<and>
   define_model_shape ChannelsFirst image_dim = Inr [image_dim] \<and>
   define_model_shape ChannelsLast image_dim = Inl ValueError"
  using vgg16_shape_first [of image_dim c h w] vgg16_shape_last [of image_dim h w c]
    vgg16_shape_first [of image_dim 3 224 224] vgg16_shape_last [of image_dim 3 224 224]
  by (simp add: define_model_shape_def vgg16_input_def)

end
