(* ===== verification/Harness.thy ===== *)
theory Harness
  imports Similarity Network
begin

text \<open>
  The interactive check \<open>TEST\<close> of \<open>simplified_complete_model.py\<close> (lines 81-97):
  it loads one image at \<open>224 x 224\<close>, turns it into an array, adds the batch axis,
  builds a \<open>FullModel\<close> for a fixed caption and prints \<open>predict\<close> for it; then it
  assigns a second caption to \<open>model.caption\<close> and prints \<open>predict\<close> again.  The image
  tensor and the two networks are parameters, as in \<open>Similarity\<close>; what the model
  follows is the tensor's shape, which \<open>img_to_array\<close> lays out by Keras' global
  \<open>image_data_format\<close>, and the assertions on the way.  The printed values are the
  result, in order.
\<close>

section \<open>The harness\<close>

text \<open>
  \<open>image.img_to_array\<close> on an RGB image of \<open>target_size = (h, w)\<close>: the channel
  axis goes first or last by the data format.
\<close>

definition img_to_array_shape :: "data_format \<Rightarrow> nat \<times> nat \<Rightarrow> nat list" where
  "img_to_array_shape df hw =
     (case df of ChannelsFirst \<Rightarrow> [3, fst hw, snd hw] | ChannelsLast \<Rightarrow> [fst hw, snd hw, 3])"

text \<open>Lines 82 and 91: the two captions, padded with zeros to 20 tokens.\<close>

definition cap_input :: "int list list" where
  "cap_input = [[8, 214, 23, 1, 626] @ replicate 15 0]"

definition cap_random :: "int list list" where
  "cap_random = [[8, 199, 23, 1] @ replicate 16 0]"

text \<open>
  Lines 83-92.  \<open>np.expand_dims(x, axis=0)\<close> puts the batch axis in front and
  \<open>preprocess_input\<close> keeps the shape.  The assignment on line 91 replaces the caption
  without the shape check of \<open>__init__\<close>.
\<close>

definition TEST ::
  "data_format \<Rightarrow> ('x \<Rightarrow> 'feat) \<Rightarrow> ('feat \<Rightarrow> int list list \<Rightarrow> real list list) \<Rightarrow> bool \<Rightarrow> 'x \<Rightarrow>
   py_error + fval list" where
  "TEST df top_model rnn_model rnn_file_exists x =
     (let x_shape = 1 # img_to_array_shape df (224, 224) in
      bind_py (full_model_init cap_input rnn_file_exists) (\<lambda>model.
      bind_py (predict top_model rnn_model model x_shape x) (\<lambda>correct.
      bind_py (predict top_model rnn_model (model\<lparr>fm_caption := cap_random\<rparr>) x_shape x) (\<lambda>random.
      Inr [correct, random]))))"

section \<open>Properties of the harness\<close>

lemma full_model_init_cap_input:
  "full_model_init cap_input ok =
     (if ok then Inr \<lparr>fm_WORD_DIM = 300, fm_BATCH = 1, fm_caption = cap_input\<rparr> else Inl AssertionError)"
  by (simp add: full_model_init_def cap_input_def)

text \<open>
  C36 (functional): what \<open>TEST\<close> prints.  With the channel axis first, a present
  caption-network file, and a caption network whose first output row for each of the
  two captions has width \<open>2 * WORD_DIM = 600\<close> and non-zero halves, \<open>TEST\<close> returns,
  in this order, the cosine similarity of the two halves of the row for the first
  caption and then of the row for the reassigned second caption.  With Keras'
  channel-last format it stops at \<open>predict\<close>'s shape assertion whatever the networks.
\<close>

theorem TEST_cosines:
  assumes "rnn_model (top_model x) cap_input = r1 # rs1" and "rnn_model (top_model x) cap_random = r2 # rs2"
    and "length r1 = 600" and "length r2 = 600"
    and "l2 (take 300 r1) \<noteq> 0" and "l2 (drop 300 r1) \<noteq> 0"
    and "l2 (take 300 r2) \<noteq> 0" and "l2 (drop 300 r2) \<noteq> 0"
  shows "TEST ChannelsFirst top_model rnn_model True x =
           Inr [Some (cosine (take 300 r1) (drop 300 r1)), Some (cosine (take 300 r2) (drop 300 r2))] \<and>
         TEST ChannelsLast top_model rnn_model ok x = Inl AssertionError"
proof -
  have c1: "custom_distance_function 300 (r1 # rs1) = Inr (Some (cosine (take 300 r1) (drop 300 r1)))"
    using custom_distance_first_row [of r1 300 rs1] assms(3,5,6) by (simp add: inner_scale cosine_l2)
  have c2: "custom_distance_function 300 (r2 # rs2) = Inr (Some (cosine (take 300 r2) (drop 300 r2)))"
    using custom_distance_first_row [of r2 300 rs2] assms(4,7,8) by (simp add: inner_scale cosine_l2)
  show ?thesis
    using assms(1,2) c1 c2
    by (simp add: TEST_def full_model_init_cap_input img_to_array_shape_def predict_def)
qed

theorem TEST_cosines_witness:
  "TEST ChannelsFirst id (\<lambda>_ _. [replicate 600 (1 :: real)]) True (0 :: nat) =
     Inr [Some (cosine (replicate 300 1) (replicate 300 1)), Some (cosine (replicate 300 1) (replicate 300 1))] \<and>
   TEST ChannelsLast id (\<lambda>_ _. [replicate 600 (1 :: real)]) True (0 :: nat) = Inl AssertionError"
proof -
  have "l2 (replicate 300 (1 :: real)) \<noteq> 0" by (simp add: l2_def sum_list_replicate)
  then show ?thesis
    using TEST_cosines [of "\<lambda>_ _. [replicate 600 (1 :: real)]" id "0 :: nat" "replicate 600 1" "[]"
        "replicate 600 1" "[]" True]
    by simp
qed

end
