(* ===== verification/Walk.thy ===== *)
theory Walk
  imports ClassIndex
begin

text \<open>
  The file list of \<open>main\<close> (lines 246-250 of \<open>extract_features_and_dump.py\<close>):
  \<open>os.walk(images_path)\<close> visits the folder tree top-down, each folder before its
  sub-folders and the sub-folders in listing order, and every folder with files adds
  \<open>os.path.join(dirpath, fn)\<close> for its files.  A folder is its name, its files and its
  sub-folders, in the order \<open>os.listdir\<close> returns them.
\<close>

datatype dir_tree = Dir (dir_name: string) (dir_files: "string list") (dir_subdirs: "dir_tree list")

text \<open>\<open>os.path.join(a, b)\<close> (POSIX): an absolute \<open>b\<close> wins; otherwise one \<open>/\<close> between.\<close>

definition path_join :: "string \<Rightarrow> string \<Rightarrow> string" where
  "path_join a b =
     (if b \<noteq> [] \<and> hd b = CHR ''/'' then b
      else if a = [] \<or> last a = CHR ''/'' then a @ b
      else a @ CHR ''/'' # b)"

text \<open>\<open>os.walk(root)\<close>, top-down: \<open>(dirpath, dirnames, filenames)\<close> of every folder.\<close>

fun os_walk :: "string \<Rightarrow> dir_tree \<Rightarrow> (string \<times> string list \<times> string list) list" where
  "os_walk root (Dir n fs ds) =
     (root, map dir_name ds, fs) # concat (map (\<lambda>d. os_walk (path_join root (dir_name d)) d) ds)"

text \<open>Lines 246-250: \<open>dir_fnames += [os.path.join(dirpath, fn) for fn in filenames]\<close>.\<close>

definition collect_files :: "(string \<times> string list \<times> string list) list \<Rightarrow> string list" where
  "collect_files walk =
     concat (map (\<lambda>(dirpath, dirnames, filenames).
        if filenames \<noteq> [] then map (path_join dirpath) filenames else []) walk)"

definition list_of_files :: "string \<Rightarrow> dir_tree \<Rightarrow> string list" where
  "list_of_files images_path t = collect_files (os_walk images_path t)"

section \<open>Folders and their labels\<close>

text \<open>A folder's label is the last component of its path, the class name its files get.\<close>

definition dir_label :: "string \<Rightarrow> string" where
  "dir_label dirpath = last (py_split CHR ''/'' dirpath)"

definition walk_labels :: "string \<Rightarrow> dir_tree \<Rightarrow> string list" where
  "walk_labels images_path t =
     map (\<lambda>w. dir_label (fst w)) (filter (\<lambda>w. snd (snd w) \<noteq> []) (os_walk images_path t))"

text \<open>Names as \<open>os.listdir\<close> returns them: not empty and without \<open>/\<close>.\<close>

definition plain_name :: "string \<Rightarrow> bool" where
  "plain_name s = (s \<noteq> [] \<and> CHR ''/'' \<notin> set s)"

fun well_named :: "dir_tree \<Rightarrow> bool" where
  "well_named (Dir n fs ds) = (list_all plain_name fs \<and> (\<forall>d \<in> set ds. plain_name (dir_name d) \<and> well_named d))"

text \<open>The folder of the specification's end-to-end scenario.\<close>

definition demo_tree :: dir_tree where
  "demo_tree = Dir ''root'' [] [Dir ''classA'' [''1.jpg'', ''2.jpg''] [], Dir ''classB'' [''3.jpg''] []]"

section \<open>Lemmas on the walk\<close>

lemma path_join_plain:
  "plain_name b \<Longrightarrow> path_join a b = (if a = [] \<or> last a = CHR ''/'' then a @ b else a @ CHR ''/'' # b)"
  by (cases b) (auto simp: path_join_def plain_name_def)

lemma path_join_plain_last: "plain_name b \<Longrightarrow> path_join a b \<noteq> [] \<and> last (path_join a b) \<noteq> CHR ''/''"
  by (cases b rule: rev_cases) (auto simp: path_join_plain plain_name_def)

lemma class_name_join:
  assumes "plain_name fn" and "dp \<noteq> []" and "last dp \<noteq> CHR ''/''"
  shows "class_name (path_join dp fn) = Inr (dir_label dp)"
proof -
  have j: "path_join dp fn = dp @ CHR ''/'' # fn" using assms by (simp add: path_join_plain)
  have s: "py_split CHR ''/'' (dp @ CHR ''/'' # fn) = py_split CHR ''/'' dp @ [fn]"
    using assms(1) by (simp add: py_split_append_sep py_split_no_sep plain_name_def)
  obtain xs x where "py_split CHR ''/'' dp = xs @ [x]"
    using py_split_not_Nil [of "CHR ''/''" dp] by (cases "py_split CHR ''/'' dp" rule: rev_cases) auto
  then show ?thesis using j s by (simp add: class_name_def py_index_minus_two dir_label_def nth_append)
qed

lemma map_py_append:
  "map_py f (xs @ ys) = bind_py (map_py f xs) (\<lambda>a. bind_py (map_py f ys) (\<lambda>b. Inr (a @ b)))"
  by (induction xs) (auto simp: bind_py_def split: sum.split)

lemma map_py_class_name_dir:
  "list_all plain_name fns \<Longrightarrow> dp \<noteq> [] \<Longrightarrow> last dp \<noteq> CHR ''/'' \<Longrightarrow>
     map_py class_name (map (path_join dp) fns) = Inr (replicate (length fns) (dir_label dp))"
  by (induction fns) (simp_all add: class_name_join)

lemma os_walk_entries:
  "well_named t \<Longrightarrow> (dp, dns, fns) \<in> set (os_walk root t) \<Longrightarrow>
     (dp = root \<or> (dp \<noteq> [] \<and> last dp \<noteq> CHR ''/'')) \<and> list_all plain_name fns"
proof (induction root t rule: os_walk.induct)
  case (1 root n fs ds)
  show ?case
  proof (cases "(dp, dns, fns) = (root, map dir_name ds, fs)")
    case True
    then show ?thesis using "1.prems"(1) by simp
  next
    case False
    then obtain d where d: "d \<in> set ds" and e: "(dp, dns, fns) \<in> set (os_walk (path_join root (dir_name d)) d)"
      using "1.prems"(2) by auto
    have pn: "plain_name (dir_name d)" and wn: "well_named d" using "1.prems"(1) d by auto
    have "(dp = path_join root (dir_name d) \<or> (dp \<noteq> [] \<and> last dp \<noteq> CHR ''/'')) \<and> list_all plain_name fns"
      using "1.IH" [OF d wn e] .
    then show ?thesis using path_join_plain_last [OF pn, of root] by auto
  qed
qed

definition dir_blocks :: "(string \<times> string list \<times> string list) list \<Rightarrow> string list" where
  "dir_blocks walk = concat (map (\<lambda>(dp, _, fns). replicate (length fns) (dir_label dp)) walk)"

lemma map_py_collect_files:
  "\<forall>(dp, dns, fns) \<in> set W. dp \<noteq> [] \<and> last dp \<noteq> CHR ''/'' \<and> list_all plain_name fns \<Longrightarrow>
     map_py class_name (collect_files W) = Inr (dir_blocks W)"
  by (induction W) (auto simp: collect_files_def dir_blocks_def map_py_append map_py_class_name_dir)

lemma set_dir_blocks:
  "set (dir_blocks W) = set (map (\<lambda>w. dir_label (fst w)) (filter (\<lambda>w. snd (snd w) \<noteq> []) W))"
  by (induction W) (auto simp: dir_blocks_def)

lemma contiguous_replicate_append:
  "c \<notin> set ys \<Longrightarrow> class_contiguous ys \<Longrightarrow> class_contiguous (replicate k c @ ys)"
  by (induction k) (auto simp: hd_append)

lemma contiguous_dir_blocks:
  "distinct (map (\<lambda>w. dir_label (fst w)) (filter (\<lambda>w. snd (snd w) \<noteq> []) W)) \<Longrightarrow>
     class_contiguous (dir_blocks W)"
proof (induction W)
  case Nil
  then show ?case by (simp add: dir_blocks_def)
next
  case (Cons w W)
  obtain dp dns fns where w: "w = (dp, dns, fns)" by (cases w) auto
  have "class_contiguous (dir_blocks W)" using Cons by (cases "fns = []") (simp_all add: w)
  moreover have "fns \<noteq> [] \<Longrightarrow> dir_label dp \<notin> set (dir_blocks W)"
    using Cons.prems by (simp add: w set_dir_blocks)
  ultimately show ?case
    by (cases "fns = []") (simp_all add: w dir_blocks_def contiguous_replicate_append)
qed

section \<open>Properties of the walk\<close>

text \<open>
  The precondition of the class index is established by the walk.  When the folder
  and file names are plain, \<open>images_path\<close> does not end in \<open>/\<close> and the
  folders that hold files have distinct names, the class names of the walked file
  list are contiguous, so the stored range of every class contains exactly its rows.
\<close>

lemma walk_ranges_exact:
  assumes "well_named t" and "root \<noteq> []" and "last root \<noteq> CHR ''/''"
    and "distinct (walk_labels root t)"
  shows "\<exists>ls cr. map_py class_name (list_of_files root t) = Inr ls \<and>
           get_class_ranges (list_of_files root t) = Inr cr \<and>
           (\<forall>c s e i. cr c = Some (s, e) \<longrightarrow> i < length ls \<longrightarrow> (s \<le> i \<and> i \<le> e \<longleftrightarrow> ls ! i = c))"
proof -
  let ?W = "os_walk root t"
  have "\<forall>(dp, dns, fns) \<in> set ?W. dp \<noteq> [] \<and> last dp \<noteq> CHR ''/'' \<and> list_all plain_name fns"
    using os_walk_entries [OF assms(1)] assms(2,3) by fastforce
  then have m: "map_py class_name (list_of_files root t) = Inr (dir_blocks ?W)"
    by (simp add: list_of_files_def map_py_collect_files)
  have c: "class_contiguous (dir_blocks ?W)"
    using contiguous_dir_blocks assms(4) by (simp add: walk_labels_def)
  show ?thesis
    using m c get_class_ranges_Inr [OF m] ranges_spec_exact [OF c] by blast
qed

text \<open>
  C34 (type): every path the walk produces has the shape \<open>dirpath/name\<close>, so the label
  extraction \<open>split("/")[-2]\<close> never raises on it and the class index of any walked
  file list is computed, whatever the folder names.
\<close>

theorem walk_paths_labelled:
  assumes "well_named t" and "root \<noteq> []" and "last root \<noteq> CHR ''/''"
  shows "(\<forall>f \<in> set (list_of_files root t). CHR ''/'' \<in> set f) \<and>
         (\<exists>cr. get_class_ranges (list_of_files root t) = Inr cr)"
proof -
  have "\<forall>(dp, dns, fns) \<in> set (os_walk root t). dp \<noteq> [] \<and> last dp \<noteq> CHR ''/'' \<and> list_all plain_name fns"
    using os_walk_entries [OF assms(1)] assms(2,3) by fastforce
  then have m: "map_py class_name (list_of_files root t) = Inr (dir_blocks (os_walk root t))"
    by (simp add: list_of_files_def map_py_collect_files)
  then have "\<forall>f \<in> set (list_of_files root t). CHR ''/'' \<in> set f"
    using map_py_class_name_error [of "list_of_files root t" IndexError] by auto
  then show ?thesis using get_class_ranges_Inr [OF m] by blast
qed

theorem walk_paths_labelled_witness:
  "list_of_files ''data'' (Dir ''data'' [''0.jpg''] [Dir ''a'' [''1.jpg''] []]) = [''data/0.jpg'', ''data/a/1.jpg''] \<and>
   (\<exists>cr. get_class_ranges (list_of_files ''data'' (Dir ''data'' [''0.jpg''] [Dir ''a'' [''1.jpg''] []])) = Inr cr)"
proof -
  have "well_named (Dir ''data'' [''0.jpg''] [Dir ''a'' [''1.jpg''] []])" by (simp add: plain_name_def)
  from walk_paths_labelled [where root = "''data''", OF this] show ?thesis
    by (simp add: list_of_files_def collect_files_def path_join_def)
qed

end
