(* ===== verification/Spec2Isabelle.thy ===== *)
theory Spec2Isabelle
  imports Generator Driver Config StoreHistory Harness Walk
begin

text \<open>
  A shallow embedding of devise-keras: \<open>src/extract_features_and_dump.py\<close> (feature
  extraction into an HDF5 store, the class index, the training batch generator, the
  configuration loader) and \<open>src/simplified_complete_model.py\<close> (the caption-image
  similarity model and its interactive check \<open>TEST\<close>).  Python exceptions are values of \<open>py_error\<close>; a function that can
  raise returns \<open>py_error + 'a\<close>, and a procedure that mutates a store returns
  \<open>py_error option \<times> state\<close>, so that an exception keeps the writes made before it.

  \<^bold>\<open>How the parts interact.\<close>  \<open>main\<close> walks the image folder, cuts the file list
  into chunks (\<open>create_indices\<close>), appends the network's vectors and the file names to
  the store (\<open>dump_to_h5\<close>), then computes the class ranges of all stored names
  (\<open>get_class_ranges\<close>) and pickles them.  \<open>data_generator\<close> reads the store, the
  ranges and the word embeddings, and for each row in turn yields a batch of the row
  and \<open>batch_size\<close> negatives drawn outside the row's class range.  Both read their
  settings from \<open>load_configs\<close>.  \<open>FullModel\<close> scores an image against a caption with
  the trained network.

  \<^bold>\<open>Theories.\<close>
  \<^item> \<open>Prelude\<close>: \<open>py_error\<close>, \<open>bind_py\<close> and \<open>map_py\<close> (exception propagation),
    negative list indexing \<open>py_index\<close>, \<open>str.split\<close> (\<open>py_split\<close>), Python 2
    \<open>xrange\<close> (\<open>xrange_list\<close>, \<open>py_xrange\<close>) and NumPy row broadcasting.
  \<^item> \<open>ClassIndex\<close>: \<open>get_class_ranges\<close> (lines 58-68) as \<open>class_name\<close>,
    \<open>range_step\<close> and the scan \<open>get_class_ranges_from\<close>; the abstract specification
    \<open>ranges_spec\<close> (first and last occurrence of every label) and the refinement.
  \<^item> \<open>Sampler\<close>: lines 105-109 of \<open>data_generator\<close> (\<open>population\<close>,
    \<open>sample_negatives\<close>) over a model of NumPy's generator (\<open>rng_state\<close>: an arbitrary
    stream of draws) and of \<open>choice(replace=False)\<close> as the prefix of a Fisher-Yates
    permutation.
  \<^item> \<open>FeatureStore\<close>: the two HDF5 datasets as a record \<open>h5table\<close>, \<open>dump_to_h5\<close>
    (lines 128-145) with the assertion, \<open>resize\<close> and the row-by-row write loop, and
    the reads \<open>read_row\<close>, \<open>read_rows\<close>; the invariant \<open>wf_table\<close>.
  \<^item> \<open>StoreHistory\<close>: the life of a feature file across runs: the store \<open>main\<close>
    creates (lines 259-268, \<open>created_store\<close>), one call of \<open>dump_to_h5\<close> as the
    step relation \<open>store_step\<close>, and the stores reachable with a fixed \<open>IMAGE_DIM\<close>
    as the inductive predicate \<open>store_reach\<close>, with its invariant \<open>store_inv\<close>.
  \<^item> \<open>Generator\<close>: \<open>data_generator\<close> (lines 70-125): \<open>gen_step\<close> is the loop body for
    one anchor, \<open>gen_advance\<close> the infinite \<open>while 1: for i in range(N)\<close> loop, and
    \<open>gen_next\<close> the generator protocol (created, suspended at an anchor, closed).
  \<^item> \<open>Driver\<close>: \<open>create_indices\<close> (lines 214-217) and \<open>main\<close> (lines 256-298) as
    \<open>process_chunk\<close>, \<open>process_chunks\<close> and \<open>extract_and_dump\<close>.
  \<^item> \<open>Config\<close>: \<open>load_configs\<close> (lines 23-55) over a model of \<open>RawConfigParser\<close>,
    and the two calls at import and in \<open>main\<close> (\<open>startup_configs\<close>).
  \<^item> \<open>Similarity\<close>: \<open>FullModel\<close> (\<open>full_model_init\<close>, \<open>predict\<close>,
    \<open>custom_distance_function\<close>) with the reference \<open>cosine\<close>.
  \<^item> \<open>Harness\<close>: \<open>TEST\<close> (lines 81-97): the image tensor's shape by Keras'
    \<open>image_data_format\<close> (\<open>img_to_array_shape\<close>), the model built for the first
    caption, and \<open>predict\<close> before and after the caption is replaced.
  \<^item> \<open>Walk\<close>: the file list of \<open>main\<close> (lines 246-250): the folder tree
    \<open>dir_tree\<close>, \<open>os.walk\<close> (\<open>os_walk\<close>), \<open>os.path.join\<close> (\<open>path_join\<close>) and
    \<open>collect_files\<close>, with the labels the class index gives the walked files.
  \<^item> \<open>Network\<close>: \<open>define_model\<close> (lines 163-212) as its layer list, Keras' shape
    inference under either \<open>image_data_format\<close> (\<open>define_model_shape\<close>), and the
    weight loading, which fails on a missing weight file.
  \<^item> This theory: \<open>run_main\<close>, \<open>main\<close> from its start (lines 237-250) composed with
    the configuration, the network, the walk and the extraction; and the composition
    of extraction and training.

  \<^bold>\<open>What is proved.\<close>  The class index refines its specification, is the hull of each
  class's rows and exact under contiguity; the sampler's draws are sorted, distinct,
  of the requested size and outside the class range, and it fails exactly when the
  pool is too small; an append keeps the store well formed and appends in order, and
  a bad row leaves a partial append; any history of appends at a fixed \<open>IMAGE_DIM\<close>
  only extends a file (proved by rule induction over \<open>store_reach\<close>), while lowering
  \<open>IMAGE_DIM\<close> between runs truncates every stored vector; a generator step yields
  the anchor and negatives of other classes with their own embeddings, and raises
  KeyError before drawing when the anchor's class has no embedding or no stored
  range; the generator cycles through the rows, always answers on a non-empty store
  and never on an empty one; extraction stores every file once in order and raises on
  a single-file folder; the loader returns exactly on complete configurations and
  reads the integer settings back as written; the similarity is the cosine of the two
  halves (against a reference cosine written with the inner product only) and lies in
  \<open>[-1, 1]\<close> for well-shaped output, is NaN or raises on the inputs where the code
  does, and is no cosine when a one-entry word half is broadcast; \<open>TEST\<close> prints the
  cosines for its two captions with the channel axis first and stops at
  \<open>predict\<close>'s assertion with it last.  The walk makes the classes contiguous when the
  folders holding files have distinct names.  For every input size the network's
  pooling succeeds exactly when both spatial sides are at least 32, and then its
  output has width \<open>IMAGE_DIM\<close>; so it is built for the source's input with the
  channel axis first and cannot be built with it last.  \<open>main\<close> aborts on its
  fatal start-up errors before touching the store, and on its success path the configuration, network, walk,
  extraction and class index compose: a fresh file receives one vector per walked
  file in walk order and class ranges that are exact for every class.  After a
  successful extraction, the generator built on its store never draws a negative of
  the anchor's class.

  \<^bold>\<open>Bounds and fuel.\<close>  No fuel is used.  The only loop that may not end, \<open>while 1\<close>,
  is a \<open>partial_function (option)\<close>; that it returns on a non-empty store and does not
  on an empty one are both proved.  All other loops are structural recursion or
  \<open>xrange_list\<close> with its termination measure.  Tensor entries are unbounded reals or
  integers; rounding and overflow of NumPy's floats are not modelled.

  \<^bold>\<open>Not modelled.\<close>  The values computed by the VGG16 network (its shapes are
  modelled; in the driver and the similarity model the networks are parameters), the
  values of its weights (only whether the weight file exists is modelled), the trained caption
  network, image loading and preprocessing (a parameter \<open>load\<close>), symbolic links and
  the listing order of folders (the tree gives that order), reading \<open>local.cfg\<close> from disk (its
  parsed entries are the input), pickling and HDF5 file handles, the file system
  beyond the tests \<open>isdir\<close> and \<open>isfile\<close> of \<open>main\<close> and \<open>define_model\<close>, printing, \<open>tqdm\<close>, \<open>K.clear_session\<close>, and, in \<open>TEST\<close>, reading
  the image from its fixed local path and the pixel values \<open>preprocess_input\<close>
  computes (the tensor is a parameter; its shape is modelled).  NumPy's \<open>random_interval\<close> is
  abstracted to one draw reduced modulo the bound: the properties hold for every stream,
  so the fixed seed \<open>np.random.seed(123)\<close> of line 21 (the Mersenne Twister state it
  selects) is not modelled either.
\<close>

section \<open>The program \<open>main\<close>\<close>

text \<open>
  \<open>main\<close> (lines 220-302) from the start: the configuration of the module import and
  of the command-line run type, the two assertions of lines 240-241 on the file system
  (\<open>isdir\<close>, \<open>isfile\<close>), building the network and loading its weights from \<open>weights_path\<close> (line 244;
  a negative \<open>IMAGE_DIM\<close> is rejected there, a missing weight file raises IOError), the walk of the image folder, whose tree is \<open>tree\<close>, and the
  extraction into the store \<open>hf\<close> opened at \<open>dump_path\<close>.
\<close>

definition run_main ::
  "string \<Rightarrow> config \<Rightarrow> (string \<Rightarrow> bool) \<Rightarrow> (string \<Rightarrow> bool) \<Rightarrow> data_format \<Rightarrow> dir_tree \<Rightarrow>
   (string \<Rightarrow> py_error + 'img) \<Rightarrow> ('img list \<Rightarrow> 'a::zero list list) \<Rightarrow> 'a h5table \<Rightarrow>
   py_error option \<times> 'a h5table \<times> class_ranges option" where
  "run_main argv1 cfg isdir isfile df tree load net hf =
     (case startup_configs argv1 cfg of
        (Some e, _) \<Rightarrow> (Some e, hf, None)
      | (None, g) \<Rightarrow>
          (case (images_path g, dump_path g, IMAGE_DIM g, VGG_BATCH g, weights_path g) of
             (Some ip, Some dp, Some d, Some vb, Some wp) \<Rightarrow>
               if \<not> isdir ip then (Some AssertionError, hf, None)
               else if \<not> isfile dp then (Some AssertionError, hf, None)
               else if d < 0 then (Some ValueError, hf, None)
               else (case define_model df (nat d) (isfile wp) of
                       Inl e \<Rightarrow> (Some e, hf, None)
                     | Inr _ \<Rightarrow> extract_and_dump load net (nat d) vb (list_of_files ip tree) hf)
           | _ \<Rightarrow> (Some ConfigError, hf, None)))"

text \<open>
  A TRAIN configuration: the entries of \<open>demo_cfg\<close> and the two TRAIN paths; its
  globals after the two loads of \<open>startup_configs\<close>.
\<close>

definition demo_train_cfg :: config where
  "demo_train_cfg = demo_cfg @ [(''data location'', ''training_data_folder_clean'', ''data/train''),
       (''other'', ''training_class_ranges'', ''train.pkl'')]"

definition demo_train_globals :: cfg_globals where
  "demo_train_globals = configured ''TRAIN'' demo_train_cfg (configured ''TRAIN'' demo_train_cfg no_globals)"

section \<open>Extraction followed by training\<close>

text \<open>
  C10 (safety): the two phases composed.  After a successful extraction run, a batch
  generator set up from the resulting store and the pickled class ranges draws, for
  anchor row \<open>i\<close>, only negatives whose stored file name has a class other than the
  anchor's, and the rows after row 0 of every batch it yields are those negatives.
\<close>

theorem pipeline_negatives_other_class:
  assumes "extract_and_dump load net d vb files hf = (None, hf', Some cr)"
    and "data_generator_setup bs hf' cr words = Inr env"
    and "gen_step env i g = (Inr b, g')"
  shows "\<exists>fnames sel. names hf' = Some fnames \<and> i < length fnames \<and> length sel = nat bs \<and>
           (\<forall>j \<in> set sel. j < length fnames \<and> class_name (fnames ! j) \<noteq> class_name (fnames ! i)) \<and>
           negative_rows env sel = Inr (tl (fst b), tl (snd b))"
proof -
  obtain fnames where fn: "names hf' = Some fnames" and gr: "get_class_ranges fnames = Inr cr"
    using extract_and_dump_ranges [OF assms(1)] by blast
  have env: "image_fnames env = fnames" "ranges env = cr" "batch_size env = bs"
    using data_generator_setup_Inr [OF assms(2)] fn by simp_all
  obtain ls where ls: "map_py class_name fnames = Inr ls" and rs: "cr = ranges_spec ls"
    using gr by (auto simp: get_class_ranges_Inr_iff)
  have cn: "\<And>j. j < length fnames \<Longrightarrow> class_name (fnames ! j) = Inr (ls ! j)" and len: "length ls = length fnames"
    using ls by (simp_all add: map_py_Inr_iff)
  obtain sel where i: "i < length ls" and sel: "length sel = nat bs \<and>
      (\<forall>j \<in> set sel. j < length ls \<and> ls ! j \<noteq> ls ! i) \<and> negative_rows env sel = Inr (tl (fst b), tl (snd b))"
    using gen_step_negatives_labels [of env ls i g b g'] ls rs env assms(3) by auto
  have "\<forall>j \<in> set sel. j < length fnames \<and> class_name (fnames ! j) \<noteq> class_name (fnames ! i)"
    using sel i len cn by auto
  then show ?thesis using fn i len sel by auto
qed

definition demo_words :: "int h5table" where
  "demo_words = \<lparr>vecs = Some \<lparr>frows = [[3], [4]], fwidth = 1, fmaxwidth = 1\<rparr>,
     names = Some [''classA'', ''classB'']\<rparr>"

theorem pipeline_negatives_other_class_witness:
  "\<exists>hf' cr env fnames sel.
     extract_and_dump (\<lambda>f. Inr f) (map (\<lambda>_. [7 :: int])) 1 2
        [''root/classA/1.jpg'', ''root/classA/2.jpg'', ''root/classB/3.jpg''] \<lparr>vecs = None, names = None\<rparr> =
       (None, hf', Some cr) \<and>
     data_generator_setup 1 hf' cr demo_words = Inr env \<and>
     gen_step env 0 zero_draws = (Inr ([replicate 4096 7, replicate 4096 7], [replicate 50 3, replicate 50 4]), zero_draws) \<and>
     names hf' = Some fnames \<and> length sel = 1 \<and>
     (\<forall>j \<in> set sel. j < length fnames \<and> class_name (fnames ! j) \<noteq> class_name (fnames ! 0))"
proof -
  let ?fn = "[''root/classA/1.jpg'', ''root/classA/2.jpg'', ''root/classB/3.jpg'']"
  let ?hf = "\<lparr>vecs = Some \<lparr>frows = [[7], [7], [7 :: int]], fwidth = 1, fmaxwidth = 1\<rparr>, names = Some ?fn\<rparr>"
  let ?cr = "[''classA'' \<mapsto> (0, 1), ''classB'' \<mapsto> (2, 2)]"
  let ?env = "\<lparr>image_fnames = ?fn, ranges = ?cr, vgg_feats = \<lparr>frows = [[7], [7], [7 :: int]], fwidth = 1, fmaxwidth = 1\<rparr>,
     embeddings = \<lparr>frows = [[3], [4]], fwidth = 1, fmaxwidth = 1\<rparr>, word_mapping = word_mapping_of [''classA'', ''classB''],
     batch_size = 1\<rparr>"
  have e: "extract_and_dump (\<lambda>f. Inr f) (map (\<lambda>_. [7 :: int])) 1 2 ?fn \<lparr>vecs = None, names = None\<rparr> = (None, ?hf, Some ?cr)"
    by (simp add: extract_and_dump_def create_indices_def py_xrange_def xrange_list.simps
      create_or_get_vecs_def create_or_get_names_def process_chunk_def py_index_def
      dump_to_h5_def resize_vecs_def resize_names_def write_row_def write_name_def
      broadcast_row_def class_index_eval fit_row_def)
  have s: "data_generator_setup 1 ?hf ?cr demo_words = Inr ?env"
    by (simp add: data_generator_setup_def demo_words_def)
  have g: "gen_step ?env 0 zero_draws =
      (Inr ([replicate 4096 7, replicate 4096 7], [replicate 50 3, replicate 50 4]), zero_draws)"
    by (simp add: gen_eval word_mapping_of_def zero_draws_def)
  from pipeline_negatives_other_class [OF e s g]
  obtain fnames sel where "names ?hf = Some fnames" "length sel = nat 1"
    "\<forall>j \<in> set sel. j < length fnames \<and> class_name (fnames ! j) \<noteq> class_name (fnames ! 0)"
    by blast
  then show ?thesis using e s g by auto
qed

section \<open>Start-up of \<open>main\<close>\<close>

lemma demo_train_startup:
  "startup_configs ''TRAIN'' demo_train_cfg = (None, demo_train_globals) \<and>
   images_path demo_train_globals = Some ''data/train'' \<and> dump_path demo_train_globals = Some ''train.h5'' \<and>
   IMAGE_DIM demo_train_globals = Some 4096 \<and> VGG_BATCH demo_train_globals = Some 32 \<and>
   weights_path demo_train_globals = Some ''vgg16.h5''"
proof -
  have t: "config_complete ''TRAIN'' demo_train_cfg" unfolding demo_train_cfg_def by code_simp
  have "startup_configs ''TRAIN'' demo_train_cfg = (None, demo_train_globals)"
    using load_configs_complete [OF t] by (simp add: startup_configs_def demo_train_globals_def)
  moreover have "images_path demo_train_globals = Some ''data/train'' \<and> dump_path demo_train_globals = Some ''train.h5'' \<and>
      IMAGE_DIM demo_train_globals = Some 4096 \<and> VGG_BATCH demo_train_globals = Some 32 \<and>
      weights_path demo_train_globals = Some ''vgg16.h5''"
    unfolding demo_train_globals_def configured_def demo_train_cfg_def by simp code_simp
  ultimately show ?thesis by simp
qed

lemma startup_configs_bad_mode:
  "argv1 \<noteq> ''TRAIN'' \<Longrightarrow> argv1 \<noteq> ''VALID'' \<Longrightarrow> fst (startup_configs argv1 cfg) \<noteq> None"
  using load_configs_None_iff [of argv1 cfg] load_configs_None_iff [of "''TRAIN''" cfg no_globals]
  by (auto simp: startup_configs_def config_complete_def split: prod.splits option.splits)

text \<open>
  C37 (safety): the fatal start-up errors of the specification's command-line surface
  abort \<open>main\<close> before the store is touched and before any class range is written:
  a run type other than TRAIN or VALID, an image folder that is not a directory, a
  dump path that is not a file, and a weight file that does not exist.
\<close>

theorem run_main_fatal_errors:
  "(argv1 \<noteq> ''TRAIN'' \<and> argv1 \<noteq> ''VALID'' \<longrightarrow>
      (\<exists>e. run_main argv1 cfg isdir isfile df tree load net hf = (Some e, hf, None))) \<and>
   (startup_configs argv1 cfg = (None, g) \<and> images_path g = Some ip \<and> dump_path g = Some dp \<and>
    IMAGE_DIM g = Some d \<and> VGG_BATCH g = Some vb \<and> weights_path g = Some wp \<and> (\<not> isdir ip \<or> \<not> isfile dp) \<longrightarrow>
      run_main argv1 cfg isdir isfile df tree load net hf = (Some AssertionError, hf, None)) \<and>
   (startup_configs argv1 cfg = (None, g) \<and> images_path g = Some ip \<and> dump_path g = Some dp \<and>
    IMAGE_DIM g = Some d \<and> VGG_BATCH g = Some vb \<and> weights_path g = Some wp \<and> \<not> isfile wp \<longrightarrow>
      (\<exists>e. run_main argv1 cfg isdir isfile df tree load net hf = (Some e, hf, None)))"
proof (intro conjI impI)
  assume "argv1 \<noteq> ''TRAIN'' \<and> argv1 \<noteq> ''VALID''"
  then obtain e g' where "startup_configs argv1 cfg = (Some e, g')"
    using startup_configs_bad_mode [of argv1 cfg] by (cases "startup_configs argv1 cfg") auto
  then show "\<exists>e. run_main argv1 cfg isdir isfile df tree load net hf = (Some e, hf, None)"
    by (simp add: run_main_def)
next
  assume "startup_configs argv1 cfg = (None, g) \<and> images_path g = Some ip \<and> dump_path g = Some dp \<and>
    IMAGE_DIM g = Some d \<and> VGG_BATCH g = Some vb \<and> weights_path g = Some wp \<and> (\<not> isdir ip \<or> \<not> isfile dp)"
  then show "run_main argv1 cfg isdir isfile df tree load net hf = (Some AssertionError, hf, None)"
    by (auto simp: run_main_def)
next
  assume "startup_configs argv1 cfg = (None, g) \<and> images_path g = Some ip \<and> dump_path g = Some dp \<and>
    IMAGE_DIM g = Some d \<and> VGG_BATCH g = Some vb \<and> weights_path g = Some wp \<and> \<not> isfile wp"
  then show "\<exists>e. run_main argv1 cfg isdir isfile df tree load net hf = (Some e, hf, None)"
    by (auto simp: run_main_def define_model_def split: sum.splits)
qed

theorem run_main_fatal_errors_witness:
  "(\<exists>e. run_main ''TEST'' demo_cfg (\<lambda>_. True) (\<lambda>_. True) ChannelsFirst demo_tree (\<lambda>f. Inr f)
          (map (\<lambda>_. [0 :: int])) \<lparr>vecs = None, names = None\<rparr> = (Some e, \<lparr>vecs = None, names = None\<rparr>, None)) \<and>
   run_main ''TRAIN'' demo_train_cfg (\<lambda>p. p \<noteq> ''data/train'') (\<lambda>_. True)
       ChannelsFirst demo_tree (\<lambda>f. Inr f) (map (\<lambda>_. [0 :: int])) \<lparr>vecs = None, names = None\<rparr> =
     (Some AssertionError, \<lparr>vecs = None, names = None\<rparr>, None) \<and>
   (\<exists>e. run_main ''TRAIN'' demo_train_cfg (\<lambda>_. True) (\<lambda>p. p \<noteq> ''vgg16.h5'')
       ChannelsFirst demo_tree (\<lambda>f. Inr f) (map (\<lambda>_. [0 :: int])) \<lparr>vecs = None, names = None\<rparr> =
     (Some e, \<lparr>vecs = None, names = None\<rparr>, None))"
  using run_main_fatal_errors [of "''TEST''" demo_cfg "\<lambda>_. True" "\<lambda>_. True" ChannelsFirst demo_tree
        "\<lambda>f. Inr f" "map (\<lambda>_. [0 :: int])" "\<lparr>vecs = None, names = None\<rparr>"]
      run_main_fatal_errors [of "''TRAIN''" demo_train_cfg "\<lambda>p. p \<noteq> ''data/train''" "\<lambda>_. True" ChannelsFirst
        demo_tree "\<lambda>f. Inr f" "map (\<lambda>_. [0 :: int])" "\<lparr>vecs = None, names = None\<rparr>" demo_train_globals
        "''data/train''" "''train.h5''" 4096 32 "''vgg16.h5''"]
      run_main_fatal_errors [of "''TRAIN''" demo_train_cfg "\<lambda>_. True" "\<lambda>p. p \<noteq> ''vgg16.h5''" ChannelsFirst
        demo_tree "\<lambda>f. Inr f" "map (\<lambda>_. [0 :: int])" "\<lparr>vecs = None, names = None\<rparr>" demo_train_globals
        "''data/train''" "''train.h5''" 4096 32 "''vgg16.h5''"]
      demo_train_startup
  by simp

section \<open>A successful run of \<open>main\<close>\<close>

text \<open>
  C33 (functional): the components of \<open>main\<close> composed on its success path.  With a
  TRAIN or VALID configuration whose paths exist, the network built with the channel
  axis first, a folder tree with plain names whose file-holding folders have distinct
  names, at least two files, \<open>VGG_BATCH \<ge> 1\<close>, loadable images and a network that
  returns one vector of width \<open>IMAGE_DIM\<close> per image, \<open>main\<close> on a file without the
  datasets returns normally: the store holds one vector of width \<open>IMAGE_DIM\<close> per walked
  file and the file names in walk order, and the pickled class ranges contain, for
  every class, exactly the rows of its files.
\<close>

theorem run_main_extracts:
  fixes net :: "'img list \<Rightarrow> 'a::zero list list"
  assumes "startup_configs argv1 cfg = (None, g)" and "images_path g = Some ip" and "dump_path g = Some dp"
    and "IMAGE_DIM g = Some (int d)" and "VGG_BATCH g = Some vb" and "weights_path g = Some wp"
    and "isdir ip" and "isfile dp" and "isfile wp"
    and "well_named tree" and "ip \<noteq> []" and "last ip \<noteq> CHR ''/''" and "distinct (walk_labels ip tree)"
    and "2 \<le> length (list_of_files ip tree)" and "1 \<le> vb"
    and "\<forall>f \<in> set (list_of_files ip tree). load f = Inr (img f)" and "well_shaped net d"
  shows "\<exists>x' ls cr.
           run_main argv1 cfg isdir isfile ChannelsFirst tree load net \<lparr>vecs = None, names = None\<rparr> =
             (None, \<lparr>vecs = Some x', names = Some (list_of_files ip tree)\<rparr>, Some cr) \<and>
           wf_table \<lparr>vecs = Some x', names = Some (list_of_files ip tree)\<rparr> \<and> fwidth x' = d \<and>
           map_py class_name (list_of_files ip tree) = Inr ls \<and>
           (\<forall>c s e i. cr c = Some (s, e) \<longrightarrow> i < length ls \<longrightarrow> (s \<le> i \<and> i \<le> e \<longleftrightarrow> ls ! i = c))"
proof -
  let ?files = "list_of_files ip tree"
  let ?hf0 = "\<lparr>vecs = None, names = None\<rparr> :: 'a h5table"
  let ?x0 = "\<lparr>frows = [], fwidth = d, fmaxwidth = d\<rparr> :: 'a fdataset"
  obtain ls cr where ls: "map_py class_name ?files = Inr ls" and cr: "get_class_ranges ?files = Inr cr"
    and ex: "\<forall>c s e i. cr c = Some (s, e) \<longrightarrow> i < length ls \<longrightarrow> (s \<le> i \<and> i \<le> e \<longleftrightarrow> ls ! i = c)"
    using walk_ranges_exact [OF assms(10-13)] by blast
  have c: "create_or_get_names (create_or_get_vecs d ?hf0) = \<lparr>vecs = Some ?x0, names = Some []\<rparr>"
    by (simp add: create_or_get_vecs_def create_or_get_names_def)
  have wf: "wf_table \<lparr>vecs = Some ?x0, names = Some []\<rparr>" by (simp add: wf_table_def)
  obtain x' where x': "extract_and_dump load net d vb ?files \<lparr>vecs = Some ?x0, names = Some []\<rparr> =
      (None, \<lparr>vecs = Some x', names = Some ?files\<rparr>, Some cr)"
    and wf': "wf_table \<lparr>vecs = Some x', names = Some ?files\<rparr>" and w: "fwidth x' = d"
    using extract_and_dump_ok [OF wf, of ?x0 "[]" d ?files vb load img net cr] assms(14-17) cr by auto
  have "run_main argv1 cfg isdir isfile ChannelsFirst tree load net ?hf0 = extract_and_dump load net d vb ?files ?hf0"
    using assms(1-9) define_model_channels_first_ok [of d] by (simp add: run_main_def)
  then have "run_main argv1 cfg isdir isfile ChannelsFirst tree load net ?hf0 =
      (None, \<lparr>vecs = Some x', names = Some ?files\<rparr>, Some cr)"
    using extract_and_dump_create [of load net d vb ?files ?hf0] c x' by simp
  then show ?thesis using wf' w ls ex by blast
qed

theorem run_main_extracts_witness:
  "\<exists>x' ls cr.
     run_main ''TRAIN'' demo_train_cfg (\<lambda>_. True) (\<lambda>_. True) ChannelsFirst demo_tree (\<lambda>f. Inr f)
       (map (\<lambda>_. replicate 4096 (7 :: int))) \<lparr>vecs = None, names = None\<rparr> =
       (None, \<lparr>vecs = Some x', names = Some [''data/train/classA/1.jpg'', ''data/train/classA/2.jpg'',
                                           ''data/train/classB/3.jpg'']\<rparr>, Some cr) \<and>
     fwidth x' = 4096 \<and> ls = [''classA'', ''classA'', ''classB''] \<and>
     (\<forall>c s e i. cr c = Some (s, e) \<longrightarrow> i < length ls \<longrightarrow> (s \<le> i \<and> i \<le> e \<longleftrightarrow> ls ! i = c))"
proof -
  have f: "list_of_files ''data/train'' demo_tree =
      [''data/train/classA/1.jpg'', ''data/train/classA/2.jpg'', ''data/train/classB/3.jpg'']"
    by (simp add: list_of_files_def collect_files_def demo_tree_def path_join_def)
  have l: "map_py class_name [''data/train/classA/1.jpg'', ''data/train/classA/2.jpg'', ''data/train/classB/3.jpg''] =
      Inr [''classA'', ''classA'', ''classB'']"
    by (simp add: class_index_eval)
  have n: "well_named demo_tree" "distinct (walk_labels ''data/train'' demo_tree)"
    by (simp_all add: demo_tree_def plain_name_def walk_labels_def dir_label_def path_join_def)
  have s: "well_shaped (map (\<lambda>_. replicate 4096 (7 :: int)) :: string list \<Rightarrow> int list list) 4096"
    by (simp add: well_shaped_def list_all_iff)
  show ?thesis
    using run_main_extracts [of "''TRAIN''" demo_train_cfg demo_train_globals "''data/train''" "''train.h5''" 4096 32
        "''vgg16.h5''" "\<lambda>_. True" "\<lambda>_. True" demo_tree "\<lambda>f. Inr f" "\<lambda>f. f" "map (\<lambda>_. replicate 4096 (7 :: int))"]
      demo_train_startup f l n s
    by auto
qed

end
